theory Spec2Isabelle
  imports Main
begin

section \<open>Text\<close>

text \<open>
  A Python \<^verbatim>\<open>str\<close> is a sequence of Unicode code points: \<^verbatim>\<open>len\<close> counts code points,
  slicing and reversal act on code points, and the case conversions consult the Unicode
  character database. A code point is modelled as a natural number (below \<open>0x110000\<close> in
  every Python string) and a string as the list of its code points.
\<close>

type_synonym cp = nat
type_synonym utext = "cp list"

text \<open>String literals of the program are written as HOL strings and converted.\<close>

definition str :: "string \<Rightarrow> utext" where
  "str s = map of_char s"

section \<open>The Unicode character database\<close>

text \<open>
  The tables below are the data CPython 3.11 (Unicode 14.0.0) uses for \<^verbatim>\<open>str.upper\<close>,
  \<^verbatim>\<open>str.lower\<close>, \<^verbatim>\<open>str.title\<close>, \<^verbatim>\<open>str.islower\<close>, \<^verbatim>\<open>str.isupper\<close> and
  \<^verbatim>\<open>str.split\<close>. A mapping table lists every code point whose full case mapping differs
  from the code point itself, with the code points it maps to (up to three); a property
  table lists the inclusive ranges of the code points that have the property. The tables
  are sorted and cut into pieces of at most 32 entries; the function named after a table
  gives the piece that covers a code point.
\<close>

definition in_ranges :: "(cp \<times> cp) list \<Rightarrow> cp \<Rightarrow> bool" where
  "in_ranges rs c = list_ex (\<lambda>(lo, hi). lo \<le> c \<and> c \<le> hi) rs"

definition full_mapping :: "(cp \<times> cp list) list \<Rightarrow> cp \<Rightarrow> cp list" where
  "full_mapping table c = (case map_of table c of Some m \<Rightarrow> m | None \<Rightarrow> [c])"

subsection \<open>Whitespace\<close>

definition whitespace_ranges :: "(cp \<times> cp) list" where
  "whitespace_ranges = [
    (0x9, 0xD), (0x1C, 0x20), (0x85, 0x85), (0xA0, 0xA0), (0x1680, 0x1680),
    (0x2000, 0x200A), (0x2028, 0x2029), (0x202F, 0x202F), (0x205F, 0x205F), (0x3000, 0x3000)]"

subsection \<open>Lowercase code points\<close>

definition lowercase_ranges_0 :: "(cp \<times> cp) list" where
  "lowercase_ranges_0 = [
    (0x61, 0x7A), (0xAA, 0xAA), (0xB5, 0xB5), (0xBA, 0xBA), (0xDF, 0xF6),
    (0xF8, 0xFF), (0x101, 0x101), (0x103, 0x103), (0x105, 0x105), (0x107, 0x107),
    (0x109, 0x109), (0x10B, 0x10B), (0x10D, 0x10D), (0x10F, 0x10F), (0x111, 0x111),
    (0x113, 0x113), (0x115, 0x115), (0x117, 0x117), (0x119, 0x119), (0x11B, 0x11B),
    (0x11D, 0x11D), (0x11F, 0x11F), (0x121, 0x121), (0x123, 0x123), (0x125, 0x125),
    (0x127, 0x127), (0x129, 0x129), (0x12B, 0x12B), (0x12D, 0x12D), (0x12F, 0x12F),
    (0x131, 0x131), (0x133, 0x133)]"

definition lowercase_ranges_1 :: "(cp \<times> cp) list" where
  "lowercase_ranges_1 = [
    (0x135, 0x135), (0x137, 0x138), (0x13A, 0x13A), (0x13C, 0x13C), (0x13E, 0x13E),
    (0x140, 0x140), (0x142, 0x142), (0x144, 0x144), (0x146, 0x146), (0x148, 0x149),
    (0x14B, 0x14B), (0x14D, 0x14D), (0x14F, 0x14F), (0x151, 0x151), (0x153, 0x153),
    (0x155, 0x155), (0x157, 0x157), (0x159, 0x159), (0x15B, 0x15B), (0x15D, 0x15D),
    (0x15F, 0x15F), (0x161, 0x161), (0x163, 0x163), (0x165, 0x165), (0x167, 0x167),
    (0x169, 0x169), (0x16B, 0x16B), (0x16D, 0x16D), (0x16F, 0x16F), (0x171, 0x171),
    (0x173, 0x173), (0x175, 0x175)]"

definition lowercase_ranges_2 :: "(cp \<times> cp) list" where
  "lowercase_ranges_2 = [
    (0x177, 0x177), (0x17A, 0x17A), (0x17C, 0x17C), (0x17E, 0x180), (0x183, 0x183),
    (0x185, 0x185), (0x188, 0x188), (0x18C, 0x18D), (0x192, 0x192), (0x195, 0x195),
    (0x199, 0x19B), (0x19E, 0x19E), (0x1A1, 0x1A1), (0x1A3, 0x1A3), (0x1A5, 0x1A5),
    (0x1A8, 0x1A8), (0x1AA, 0x1AB), (0x1AD, 0x1AD), (0x1B0, 0x1B0), (0x1B4, 0x1B4),
    (0x1B6, 0x1B6), (0x1B9, 0x1BA), (0x1BD, 0x1BF), (0x1C6, 0x1C6), (0x1C9, 0x1C9),
    (0x1CC, 0x1CC), (0x1CE, 0x1CE), (0x1D0, 0x1D0), (0x1D2, 0x1D2), (0x1D4, 0x1D4),
    (0x1D6, 0x1D6), (0x1D8, 0x1D8)]"

definition lowercase_ranges_3 :: "(cp \<times> cp) list" where
  "lowercase_ranges_3 = [
    (0x1DA, 0x1DA), (0x1DC, 0x1DD), (0x1DF, 0x1DF), (0x1E1, 0x1E1), (0x1E3, 0x1E3),
    (0x1E5, 0x1E5), (0x1E7, 0x1E7), (0x1E9, 0x1E9), (0x1EB, 0x1EB), (0x1ED, 0x1ED),
    (0x1EF, 0x1F0), (0x1F3, 0x1F3), (0x1F5, 0x1F5), (0x1F9, 0x1F9), (0x1FB, 0x1FB),
    (0x1FD, 0x1FD), (0x1FF, 0x1FF), (0x201, 0x201), (0x203, 0x203), (0x205, 0x205),
    (0x207, 0x207), (0x209, 0x209), (0x20B, 0x20B), (0x20D, 0x20D), (0x20F, 0x20F),
    (0x211, 0x211), (0x213, 0x213), (0x215, 0x215), (0x217, 0x217), (0x219, 0x219),
    (0x21B, 0x21B), (0x21D, 0x21D)]"

definition lowercase_ranges_4 :: "(cp \<times> cp) list" where
  "lowercase_ranges_4 = [
    (0x21F, 0x21F), (0x221, 0x221), (0x223, 0x223), (0x225, 0x225), (0x227, 0x227),
    (0x229, 0x229), (0x22B, 0x22B), (0x22D, 0x22D), (0x22F, 0x22F), (0x231, 0x231),
    (0x233, 0x239), (0x23C, 0x23C), (0x23F, 0x240), (0x242, 0x242), (0x247, 0x247),
    (0x249, 0x249), (0x24B, 0x24B), (0x24D, 0x24D), (0x24F, 0x293), (0x295, 0x2B8),
    (0x2C0, 0x2C1), (0x2E0, 0x2E4), (0x345, 0x345), (0x371, 0x371), (0x373, 0x373),
    (0x377, 0x377), (0x37A, 0x37D), (0x390, 0x390), (0x3AC, 0x3CE), (0x3D0, 0x3D1),
    (0x3D5, 0x3D7), (0x3D9, 0x3D9)]"

definition lowercase_ranges_5 :: "(cp \<times> cp) list" where
  "lowercase_ranges_5 = [
    (0x3DB, 0x3DB), (0x3DD, 0x3DD), (0x3DF, 0x3DF), (0x3E1, 0x3E1), (0x3E3, 0x3E3),
    (0x3E5, 0x3E5), (0x3E7, 0x3E7), (0x3E9, 0x3E9), (0x3EB, 0x3EB), (0x3ED, 0x3ED),
    (0x3EF, 0x3F3), (0x3F5, 0x3F5), (0x3F8, 0x3F8), (0x3FB, 0x3FC), (0x430, 0x45F),
    (0x461, 0x461), (0x463, 0x463), (0x465, 0x465), (0x467, 0x467), (0x469, 0x469),
    (0x46B, 0x46B), (0x46D, 0x46D), (0x46F, 0x46F), (0x471, 0x471), (0x473, 0x473),
    (0x475, 0x475), (0x477, 0x477), (0x479, 0x479), (0x47B, 0x47B), (0x47D, 0x47D),
    (0x47F, 0x47F), (0x481, 0x481)]"

definition lowercase_ranges_6 :: "(cp \<times> cp) list" where
  "lowercase_ranges_6 = [
    (0x48B, 0x48B), (0x48D, 0x48D), (0x48F, 0x48F), (0x491, 0x491), (0x493, 0x493),
    (0x495, 0x495), (0x497, 0x497), (0x499, 0x499), (0x49B, 0x49B), (0x49D, 0x49D),
    (0x49F, 0x49F), (0x4A1, 0x4A1), (0x4A3, 0x4A3), (0x4A5, 0x4A5), (0x4A7, 0x4A7),
    (0x4A9, 0x4A9), (0x4AB, 0x4AB), (0x4AD, 0x4AD), (0x4AF, 0x4AF), (0x4B1, 0x4B1),
    (0x4B3, 0x4B3), (0x4B5, 0x4B5), (0x4B7, 0x4B7), (0x4B9, 0x4B9), (0x4BB, 0x4BB),
    (0x4BD, 0x4BD), (0x4BF, 0x4BF), (0x4C2, 0x4C2), (0x4C4, 0x4C4), (0x4C6, 0x4C6),
    (0x4C8, 0x4C8), (0x4CA, 0x4CA)]"

definition lowercase_ranges_7 :: "(cp \<times> cp) list" where
  "lowercase_ranges_7 = [
    (0x4CC, 0x4CC), (0x4CE, 0x4CF), (0x4D1, 0x4D1), (0x4D3, 0x4D3), (0x4D5, 0x4D5),
    (0x4D7, 0x4D7), (0x4D9, 0x4D9), (0x4DB, 0x4DB), (0x4DD, 0x4DD), (0x4DF, 0x4DF),
    (0x4E1, 0x4E1), (0x4E3, 0x4E3), (0x4E5, 0x4E5), (0x4E7, 0x4E7), (0x4E9, 0x4E9),
    (0x4EB, 0x4EB), (0x4ED, 0x4ED), (0x4EF, 0x4EF), (0x4F1, 0x4F1), (0x4F3, 0x4F3),
    (0x4F5, 0x4F5), (0x4F7, 0x4F7), (0x4F9, 0x4F9), (0x4FB, 0x4FB), (0x4FD, 0x4FD),
    (0x4FF, 0x4FF), (0x501, 0x501), (0x503, 0x503), (0x505, 0x505), (0x507, 0x507),
    (0x509, 0x509), (0x50B, 0x50B)]"

definition lowercase_ranges_8 :: "(cp \<times> cp) list" where
  "lowercase_ranges_8 = [
    (0x50D, 0x50D), (0x50F, 0x50F), (0x511, 0x511), (0x513, 0x513), (0x515, 0x515),
    (0x517, 0x517), (0x519, 0x519), (0x51B, 0x51B), (0x51D, 0x51D), (0x51F, 0x51F),
    (0x521, 0x521), (0x523, 0x523), (0x525, 0x525), (0x527, 0x527), (0x529, 0x529),
    (0x52B, 0x52B), (0x52D, 0x52D), (0x52F, 0x52F), (0x560, 0x588), (0x10D0, 0x10FA),
    (0x10FD, 0x10FF), (0x13F8, 0x13FD), (0x1C80, 0x1C88), (0x1D00, 0x1DBF), (0x1E01, 0x1E01),
    (0x1E03, 0x1E03), (0x1E05, 0x1E05), (0x1E07, 0x1E07), (0x1E09, 0x1E09), (0x1E0B, 0x1E0B),
    (0x1E0D, 0x1E0D), (0x1E0F, 0x1E0F)]"

definition lowercase_ranges_9 :: "(cp \<times> cp) list" where
  "lowercase_ranges_9 = [
    (0x1E11, 0x1E11), (0x1E13, 0x1E13), (0x1E15, 0x1E15), (0x1E17, 0x1E17), (0x1E19, 0x1E19),
    (0x1E1B, 0x1E1B), (0x1E1D, 0x1E1D), (0x1E1F, 0x1E1F), (0x1E21, 0x1E21), (0x1E23, 0x1E23),
    (0x1E25, 0x1E25), (0x1E27, 0x1E27), (0x1E29, 0x1E29), (0x1E2B, 0x1E2B), (0x1E2D, 0x1E2D),
    (0x1E2F, 0x1E2F), (0x1E31, 0x1E31), (0x1E33, 0x1E33), (0x1E35, 0x1E35), (0x1E37, 0x1E37),
    (0x1E39, 0x1E39), (0x1E3B, 0x1E3B), (0x1E3D, 0x1E3D), (0x1E3F, 0x1E3F), (0x1E41, 0x1E41),
    (0x1E43, 0x1E43), (0x1E45, 0x1E45), (0x1E47, 0x1E47), (0x1E49, 0x1E49), (0x1E4B, 0x1E4B),
    (0x1E4D, 0x1E4D), (0x1E4F, 0x1E4F)]"

definition lowercase_ranges_10 :: "(cp \<times> cp) list" where
  "lowercase_ranges_10 = [
    (0x1E51, 0x1E51), (0x1E53, 0x1E53), (0x1E55, 0x1E55), (0x1E57, 0x1E57), (0x1E59, 0x1E59),
    (0x1E5B, 0x1E5B), (0x1E5D, 0x1E5D), (0x1E5F, 0x1E5F), (0x1E61, 0x1E61), (0x1E63, 0x1E63),
    (0x1E65, 0x1E65), (0x1E67, 0x1E67), (0x1E69, 0x1E69), (0x1E6B, 0x1E6B), (0x1E6D, 0x1E6D),
    (0x1E6F, 0x1E6F), (0x1E71, 0x1E71), (0x1E73, 0x1E73), (0x1E75, 0x1E75), (0x1E77, 0x1E77),
    (0x1E79, 0x1E79), (0x1E7B, 0x1E7B), (0x1E7D, 0x1E7D), (0x1E7F, 0x1E7F), (0x1E81, 0x1E81),
    (0x1E83, 0x1E83), (0x1E85, 0x1E85), (0x1E87, 0x1E87), (0x1E89, 0x1E89), (0x1E8B, 0x1E8B),
    (0x1E8D, 0x1E8D), (0x1E8F, 0x1E8F)]"

definition lowercase_ranges_11 :: "(cp \<times> cp) list" where
  "lowercase_ranges_11 = [
    (0x1E91, 0x1E91), (0x1E93, 0x1E93), (0x1E95, 0x1E9D), (0x1E9F, 0x1E9F), (0x1EA1, 0x1EA1),
    (0x1EA3, 0x1EA3), (0x1EA5, 0x1EA5), (0x1EA7, 0x1EA7), (0x1EA9, 0x1EA9), (0x1EAB, 0x1EAB),
    (0x1EAD, 0x1EAD), (0x1EAF, 0x1EAF), (0x1EB1, 0x1EB1), (0x1EB3, 0x1EB3), (0x1EB5, 0x1EB5),
    (0x1EB7, 0x1EB7), (0x1EB9, 0x1EB9), (0x1EBB, 0x1EBB), (0x1EBD, 0x1EBD), (0x1EBF, 0x1EBF),
    (0x1EC1, 0x1EC1), (0x1EC3, 0x1EC3), (0x1EC5, 0x1EC5), (0x1EC7, 0x1EC7), (0x1EC9, 0x1EC9),
    (0x1ECB, 0x1ECB), (0x1ECD, 0x1ECD), (0x1ECF, 0x1ECF), (0x1ED1, 0x1ED1), (0x1ED3, 0x1ED3),
    (0x1ED5, 0x1ED5), (0x1ED7, 0x1ED7)]"

definition lowercase_ranges_12 :: "(cp \<times> cp) list" where
  "lowercase_ranges_12 = [
    (0x1ED9, 0x1ED9), (0x1EDB, 0x1EDB), (0x1EDD, 0x1EDD), (0x1EDF, 0x1EDF), (0x1EE1, 0x1EE1),
    (0x1EE3, 0x1EE3), (0x1EE5, 0x1EE5), (0x1EE7, 0x1EE7), (0x1EE9, 0x1EE9), (0x1EEB, 0x1EEB),
    (0x1EED, 0x1EED), (0x1EEF, 0x1EEF), (0x1EF1, 0x1EF1), (0x1EF3, 0x1EF3), (0x1EF5, 0x1EF5),
    (0x1EF7, 0x1EF7), (0x1EF9, 0x1EF9), (0x1EFB, 0x1EFB), (0x1EFD, 0x1EFD), (0x1EFF, 0x1F07),
    (0x1F10, 0x1F15), (0x1F20, 0x1F27), (0x1F30, 0x1F37), (0x1F40, 0x1F45), (0x1F50, 0x1F57),
    (0x1F60, 0x1F67), (0x1F70, 0x1F7D), (0x1F80, 0x1F87), (0x1F90, 0x1F97), (0x1FA0, 0x1FA7),
    (0x1FB0, 0x1FB4), (0x1FB6, 0x1FB7)]"

definition lowercase_ranges_13 :: "(cp \<times> cp) list" where
  "lowercase_ranges_13 = [
    (0x1FBE, 0x1FBE), (0x1FC2, 0x1FC4), (0x1FC6, 0x1FC7), (0x1FD0, 0x1FD3), (0x1FD6, 0x1FD7),
    (0x1FE0, 0x1FE7), (0x1FF2, 0x1FF4), (0x1FF6, 0x1FF7), (0x2071, 0x2071), (0x207F, 0x207F),
    (0x2090, 0x209C), (0x210A, 0x210A), (0x210E, 0x210F), (0x2113, 0x2113), (0x212F, 0x212F),
    (0x2134, 0x2134), (0x2139, 0x2139), (0x213C, 0x213D), (0x2146, 0x2149), (0x214E, 0x214E),
    (0x2170, 0x217F), (0x2184, 0x2184), (0x24D0, 0x24E9), (0x2C30, 0x2C5F), (0x2C61, 0x2C61),
    (0x2C65, 0x2C66), (0x2C68, 0x2C68), (0x2C6A, 0x2C6A), (0x2C6C, 0x2C6C), (0x2C71, 0x2C71),
    (0x2C73, 0x2C74), (0x2C76, 0x2C7D)]"

definition lowercase_ranges_14 :: "(cp \<times> cp) list" where
  "lowercase_ranges_14 = [
    (0x2C81, 0x2C81), (0x2C83, 0x2C83), (0x2C85, 0x2C85), (0x2C87, 0x2C87), (0x2C89, 0x2C89),
    (0x2C8B, 0x2C8B), (0x2C8D, 0x2C8D), (0x2C8F, 0x2C8F), (0x2C91, 0x2C91), (0x2C93, 0x2C93),
    (0x2C95, 0x2C95), (0x2C97, 0x2C97), (0x2C99, 0x2C99), (0x2C9B, 0x2C9B), (0x2C9D, 0x2C9D),
    (0x2C9F, 0x2C9F), (0x2CA1, 0x2CA1), (0x2CA3, 0x2CA3), (0x2CA5, 0x2CA5), (0x2CA7, 0x2CA7),
    (0x2CA9, 0x2CA9), (0x2CAB, 0x2CAB), (0x2CAD, 0x2CAD), (0x2CAF, 0x2CAF), (0x2CB1, 0x2CB1),
    (0x2CB3, 0x2CB3), (0x2CB5, 0x2CB5), (0x2CB7, 0x2CB7), (0x2CB9, 0x2CB9), (0x2CBB, 0x2CBB),
    (0x2CBD, 0x2CBD), (0x2CBF, 0x2CBF)]"

definition lowercase_ranges_15 :: "(cp \<times> cp) list" where
  "lowercase_ranges_15 = [
    (0x2CC1, 0x2CC1), (0x2CC3, 0x2CC3), (0x2CC5, 0x2CC5), (0x2CC7, 0x2CC7), (0x2CC9, 0x2CC9),
    (0x2CCB, 0x2CCB), (0x2CCD, 0x2CCD), (0x2CCF, 0x2CCF), (0x2CD1, 0x2CD1), (0x2CD3, 0x2CD3),
    (0x2CD5, 0x2CD5), (0x2CD7, 0x2CD7), (0x2CD9, 0x2CD9), (0x2CDB, 0x2CDB), (0x2CDD, 0x2CDD),
    (0x2CDF, 0x2CDF), (0x2CE1, 0x2CE1), (0x2CE3, 0x2CE4), (0x2CEC, 0x2CEC), (0x2CEE, 0x2CEE),
    (0x2CF3, 0x2CF3), (0x2D00, 0x2D25), (0x2D27, 0x2D27), (0x2D2D, 0x2D2D), (0xA641, 0xA641),
    (0xA643, 0xA643), (0xA645, 0xA645), (0xA647, 0xA647), (0xA649, 0xA649), (0xA64B, 0xA64B),
    (0xA64D, 0xA64D), (0xA64F, 0xA64F)]"

definition lowercase_ranges_16 :: "(cp \<times> cp) list" where
  "lowercase_ranges_16 = [
    (0xA651, 0xA651), (0xA653, 0xA653), (0xA655, 0xA655), (0xA657, 0xA657), (0xA659, 0xA659),
    (0xA65B, 0xA65B), (0xA65D, 0xA65D), (0xA65F, 0xA65F), (0xA661, 0xA661), (0xA663, 0xA663),
    (0xA665, 0xA665), (0xA667, 0xA667), (0xA669, 0xA669), (0xA66B, 0xA66B), (0xA66D, 0xA66D),
    (0xA681, 0xA681), (0xA683, 0xA683), (0xA685, 0xA685), (0xA687, 0xA687), (0xA689, 0xA689),
    (0xA68B, 0xA68B), (0xA68D, 0xA68D), (0xA68F, 0xA68F), (0xA691, 0xA691), (0xA693, 0xA693),
    (0xA695, 0xA695), (0xA697, 0xA697), (0xA699, 0xA699), (0xA69B, 0xA69D), (0xA723, 0xA723),
    (0xA725, 0xA725), (0xA727, 0xA727)]"

definition lowercase_ranges_17 :: "(cp \<times> cp) list" where
  "lowercase_ranges_17 = [
    (0xA729, 0xA729), (0xA72B, 0xA72B), (0xA72D, 0xA72D), (0xA72F, 0xA731), (0xA733, 0xA733),
    (0xA735, 0xA735), (0xA737, 0xA737), (0xA739, 0xA739), (0xA73B, 0xA73B), (0xA73D, 0xA73D),
    (0xA73F, 0xA73F), (0xA741, 0xA741), (0xA743, 0xA743), (0xA745, 0xA745), (0xA747, 0xA747),
    (0xA749, 0xA749), (0xA74B, 0xA74B), (0xA74D, 0xA74D), (0xA74F, 0xA74F), (0xA751, 0xA751),
    (0xA753, 0xA753), (0xA755, 0xA755), (0xA757, 0xA757), (0xA759, 0xA759), (0xA75B, 0xA75B),
    (0xA75D, 0xA75D), (0xA75F, 0xA75F), (0xA761, 0xA761), (0xA763, 0xA763), (0xA765, 0xA765),
    (0xA767, 0xA767), (0xA769, 0xA769)]"

definition lowercase_ranges_18 :: "(cp \<times> cp) list" where
  "lowercase_ranges_18 = [
    (0xA76B, 0xA76B), (0xA76D, 0xA76D), (0xA76F, 0xA778), (0xA77A, 0xA77A), (0xA77C, 0xA77C),
    (0xA77F, 0xA77F), (0xA781, 0xA781), (0xA783, 0xA783), (0xA785, 0xA785), (0xA787, 0xA787),
    (0xA78C, 0xA78C), (0xA78E, 0xA78E), (0xA791, 0xA791), (0xA793, 0xA795), (0xA797, 0xA797),
    (0xA799, 0xA799), (0xA79B, 0xA79B), (0xA79D, 0xA79D), (0xA79F, 0xA79F), (0xA7A1, 0xA7A1),
    (0xA7A3, 0xA7A3), (0xA7A5, 0xA7A5), (0xA7A7, 0xA7A7), (0xA7A9, 0xA7A9), (0xA7AF, 0xA7AF),
    (0xA7B5, 0xA7B5), (0xA7B7, 0xA7B7), (0xA7B9, 0xA7B9), (0xA7BB, 0xA7BB), (0xA7BD, 0xA7BD),
    (0xA7BF, 0xA7BF), (0xA7C1, 0xA7C1)]"

definition lowercase_ranges_19 :: "(cp \<times> cp) list" where
  "lowercase_ranges_19 = [
    (0xA7C3, 0xA7C3), (0xA7C8, 0xA7C8), (0xA7CA, 0xA7CA), (0xA7D1, 0xA7D1), (0xA7D3, 0xA7D3),
    (0xA7D5, 0xA7D5), (0xA7D7, 0xA7D7), (0xA7D9, 0xA7D9), (0xA7F6, 0xA7F6), (0xA7F8, 0xA7FA),
    (0xAB30, 0xAB5A), (0xAB5C, 0xAB68), (0xAB70, 0xABBF), (0xFB00, 0xFB06), (0xFB13, 0xFB17),
    (0xFF41, 0xFF5A), (0x10428, 0x1044F), (0x104D8, 0x104FB), (0x10597, 0x105A1), (0x105A3, 0x105B1),
    (0x105B3, 0x105B9), (0x105BB, 0x105BC), (0x10780, 0x10780), (0x10783, 0x10785), (0x10787, 0x107B0),
    (0x107B2, 0x107BA), (0x10CC0, 0x10CF2), (0x118C0, 0x118DF), (0x16E60, 0x16E7F), (0x1D41A, 0x1D433),
    (0x1D44E, 0x1D454), (0x1D456, 0x1D467)]"

definition lowercase_ranges_20 :: "(cp \<times> cp) list" where
  "lowercase_ranges_20 = [
    (0x1D482, 0x1D49B), (0x1D4B6, 0x1D4B9), (0x1D4BB, 0x1D4BB), (0x1D4BD, 0x1D4C3), (0x1D4C5, 0x1D4CF),
    (0x1D4EA, 0x1D503), (0x1D51E, 0x1D537), (0x1D552, 0x1D56B), (0x1D586, 0x1D59F), (0x1D5BA, 0x1D5D3),
    (0x1D5EE, 0x1D607), (0x1D622, 0x1D63B), (0x1D656, 0x1D66F), (0x1D68A, 0x1D6A5), (0x1D6C2, 0x1D6DA),
    (0x1D6DC, 0x1D6E1), (0x1D6FC, 0x1D714), (0x1D716, 0x1D71B), (0x1D736, 0x1D74E), (0x1D750, 0x1D755),
    (0x1D770, 0x1D788), (0x1D78A, 0x1D78F), (0x1D7AA, 0x1D7C2), (0x1D7C4, 0x1D7C9), (0x1D7CB, 0x1D7CB),
    (0x1DF00, 0x1DF09), (0x1DF0B, 0x1DF1E), (0x1E922, 0x1E943)]"

definition lowercase_ranges :: "cp \<Rightarrow> (cp \<times> cp) list" where
  "lowercase_ranges c =
     (if c \<le> 0x133 then lowercase_ranges_0 else
      if c \<le> 0x175 then lowercase_ranges_1 else
      if c \<le> 0x1D8 then lowercase_ranges_2 else
      if c \<le> 0x21D then lowercase_ranges_3 else
      if c \<le> 0x3D9 then lowercase_ranges_4 else
      if c \<le> 0x481 then lowercase_ranges_5 else
      if c \<le> 0x4CA then lowercase_ranges_6 else
      if c \<le> 0x50B then lowercase_ranges_7 else
      if c \<le> 0x1E0F then lowercase_ranges_8 else
      if c \<le> 0x1E4F then lowercase_ranges_9 else
      if c \<le> 0x1E8F then lowercase_ranges_10 else
      if c \<le> 0x1ED7 then lowercase_ranges_11 else
      if c \<le> 0x1FB7 then lowercase_ranges_12 else
      if c \<le> 0x2C7D then lowercase_ranges_13 else
      if c \<le> 0x2CBF then lowercase_ranges_14 else
      if c \<le> 0xA64F then lowercase_ranges_15 else
      if c \<le> 0xA727 then lowercase_ranges_16 else
      if c \<le> 0xA769 then lowercase_ranges_17 else
      if c \<le> 0xA7C1 then lowercase_ranges_18 else
      if c \<le> 0x1D467 then lowercase_ranges_19 else
      lowercase_ranges_20)"

subsection \<open>Uppercase code points\<close>

definition uppercase_ranges_0 :: "(cp \<times> cp) list" where
  "uppercase_ranges_0 = [
    (0x41, 0x5A), (0xC0, 0xD6), (0xD8, 0xDE), (0x100, 0x100), (0x102, 0x102),
    (0x104, 0x104), (0x106, 0x106), (0x108, 0x108), (0x10A, 0x10A), (0x10C, 0x10C),
    (0x10E, 0x10E), (0x110, 0x110), (0x112, 0x112), (0x114, 0x114), (0x116, 0x116),
    (0x118, 0x118), (0x11A, 0x11A), (0x11C, 0x11C), (0x11E, 0x11E), (0x120, 0x120),
    (0x122, 0x122), (0x124, 0x124), (0x126, 0x126), (0x128, 0x128), (0x12A, 0x12A),
    (0x12C, 0x12C), (0x12E, 0x12E), (0x130, 0x130), (0x132, 0x132), (0x134, 0x134),
    (0x136, 0x136), (0x139, 0x139)]"

definition uppercase_ranges_1 :: "(cp \<times> cp) list" where
  "uppercase_ranges_1 = [
    (0x13B, 0x13B), (0x13D, 0x13D), (0x13F, 0x13F), (0x141, 0x141), (0x143, 0x143),
    (0x145, 0x145), (0x147, 0x147), (0x14A, 0x14A), (0x14C, 0x14C), (0x14E, 0x14E),
    (0x150, 0x150), (0x152, 0x152), (0x154, 0x154), (0x156, 0x156), (0x158, 0x158),
    (0x15A, 0x15A), (0x15C, 0x15C), (0x15E, 0x15E), (0x160, 0x160), (0x162, 0x162),
    (0x164, 0x164), (0x166, 0x166), (0x168, 0x168), (0x16A, 0x16A), (0x16C, 0x16C),
    (0x16E, 0x16E), (0x170, 0x170), (0x172, 0x172), (0x174, 0x174), (0x176, 0x176),
    (0x178, 0x179), (0x17B, 0x17B)]"

definition uppercase_ranges_2 :: "(cp \<times> cp) list" where
  "uppercase_ranges_2 = [
    (0x17D, 0x17D), (0x181, 0x182), (0x184, 0x184), (0x186, 0x187), (0x189, 0x18B),
    (0x18E, 0x191), (0x193, 0x194), (0x196, 0x198), (0x19C, 0x19D), (0x19F, 0x1A0),
    (0x1A2, 0x1A2), (0x1A4, 0x1A4), (0x1A6, 0x1A7), (0x1A9, 0x1A9), (0x1AC, 0x1AC),
    (0x1AE, 0x1AF), (0x1B1, 0x1B3), (0x1B5, 0x1B5), (0x1B7, 0x1B8), (0x1BC, 0x1BC),
    (0x1C4, 0x1C4), (0x1C7, 0x1C7), (0x1CA, 0x1CA), (0x1CD, 0x1CD), (0x1CF, 0x1CF),
    (0x1D1, 0x1D1), (0x1D3, 0x1D3), (0x1D5, 0x1D5), (0x1D7, 0x1D7), (0x1D9, 0x1D9),
    (0x1DB, 0x1DB), (0x1DE, 0x1DE)]"

definition uppercase_ranges_3 :: "(cp \<times> cp) list" where
  "uppercase_ranges_3 = [
    (0x1E0, 0x1E0), (0x1E2, 0x1E2), (0x1E4, 0x1E4), (0x1E6, 0x1E6), (0x1E8, 0x1E8),
    (0x1EA, 0x1EA), (0x1EC, 0x1EC), (0x1EE, 0x1EE), (0x1F1, 0x1F1), (0x1F4, 0x1F4),
    (0x1F6, 0x1F8), (0x1FA, 0x1FA), (0x1FC, 0x1FC), (0x1FE, 0x1FE), (0x200, 0x200),
    (0x202, 0x202), (0x204, 0x204), (0x206, 0x206), (0x208, 0x208), (0x20A, 0x20A),
    (0x20C, 0x20C), (0x20E, 0x20E), (0x210, 0x210), (0x212, 0x212), (0x214, 0x214),
    (0x216, 0x216), (0x218, 0x218), (0x21A, 0x21A), (0x21C, 0x21C), (0x21E, 0x21E),
    (0x220, 0x220), (0x222, 0x222)]"

definition uppercase_ranges_4 :: "(cp \<times> cp) list" where
  "uppercase_ranges_4 = [
    (0x224, 0x224), (0x226, 0x226), (0x228, 0x228), (0x22A, 0x22A), (0x22C, 0x22C),
    (0x22E, 0x22E), (0x230, 0x230), (0x232, 0x232), (0x23A, 0x23B), (0x23D, 0x23E),
    (0x241, 0x241), (0x243, 0x246), (0x248, 0x248), (0x24A, 0x24A), (0x24C, 0x24C),
    (0x24E, 0x24E), (0x370, 0x370), (0x372, 0x372), (0x376, 0x376), (0x37F, 0x37F),
    (0x386, 0x386), (0x388, 0x38A), (0x38C, 0x38C), (0x38E, 0x38F), (0x391, 0x3A1),
    (0x3A3, 0x3AB), (0x3CF, 0x3CF), (0x3D2, 0x3D4), (0x3D8, 0x3D8), (0x3DA, 0x3DA),
    (0x3DC, 0x3DC), (0x3DE, 0x3DE)]"

definition uppercase_ranges_5 :: "(cp \<times> cp) list" where
  "uppercase_ranges_5 = [
    (0x3E0, 0x3E0), (0x3E2, 0x3E2), (0x3E4, 0x3E4), (0x3E6, 0x3E6), (0x3E8, 0x3E8),
    (0x3EA, 0x3EA), (0x3EC, 0x3EC), (0x3EE, 0x3EE), (0x3F4, 0x3F4), (0x3F7, 0x3F7),
    (0x3F9, 0x3FA), (0x3FD, 0x42F), (0x460, 0x460), (0x462, 0x462), (0x464, 0x464),
    (0x466, 0x466), (0x468, 0x468), (0x46A, 0x46A), (0x46C, 0x46C), (0x46E, 0x46E),
    (0x470, 0x470), (0x472, 0x472), (0x474, 0x474), (0x476, 0x476), (0x478, 0x478),
    (0x47A, 0x47A), (0x47C, 0x47C), (0x47E, 0x47E), (0x480, 0x480), (0x48A, 0x48A),
    (0x48C, 0x48C), (0x48E, 0x48E)]"

definition uppercase_ranges_6 :: "(cp \<times> cp) list" where
  "uppercase_ranges_6 = [
    (0x490, 0x490), (0x492, 0x492), (0x494, 0x494), (0x496, 0x496), (0x498, 0x498),
    (0x49A, 0x49A), (0x49C, 0x49C), (0x49E, 0x49E), (0x4A0, 0x4A0), (0x4A2, 0x4A2),
    (0x4A4, 0x4A4), (0x4A6, 0x4A6), (0x4A8, 0x4A8), (0x4AA, 0x4AA), (0x4AC, 0x4AC),
    (0x4AE, 0x4AE), (0x4B0, 0x4B0), (0x4B2, 0x4B2), (0x4B4, 0x4B4), (0x4B6, 0x4B6),
    (0x4B8, 0x4B8), (0x4BA, 0x4BA), (0x4BC, 0x4BC), (0x4BE, 0x4BE), (0x4C0, 0x4C1),
    (0x4C3, 0x4C3), (0x4C5, 0x4C5), (0x4C7, 0x4C7), (0x4C9, 0x4C9), (0x4CB, 0x4CB),
    (0x4CD, 0x4CD), (0x4D0, 0x4D0)]"

definition uppercase_ranges_7 :: "(cp \<times> cp) list" where
  "uppercase_ranges_7 = [
    (0x4D2, 0x4D2), (0x4D4, 0x4D4), (0x4D6, 0x4D6), (0x4D8, 0x4D8), (0x4DA, 0x4DA),
    (0x4DC, 0x4DC), (0x4DE, 0x4DE), (0x4E0, 0x4E0), (0x4E2, 0x4E2), (0x4E4, 0x4E4),
    (0x4E6, 0x4E6), (0x4E8, 0x4E8), (0x4EA, 0x4EA), (0x4EC, 0x4EC), (0x4EE, 0x4EE),
    (0x4F0, 0x4F0), (0x4F2, 0x4F2), (0x4F4, 0x4F4), (0x4F6, 0x4F6), (0x4F8, 0x4F8),
    (0x4FA, 0x4FA), (0x4FC, 0x4FC), (0x4FE, 0x4FE), (0x500, 0x500), (0x502, 0x502),
    (0x504, 0x504), (0x506, 0x506), (0x508, 0x508), (0x50A, 0x50A), (0x50C, 0x50C),
    (0x50E, 0x50E), (0x510, 0x510)]"

definition uppercase_ranges_8 :: "(cp \<times> cp) list" where
  "uppercase_ranges_8 = [
    (0x512, 0x512), (0x514, 0x514), (0x516, 0x516), (0x518, 0x518), (0x51A, 0x51A),
    (0x51C, 0x51C), (0x51E, 0x51E), (0x520, 0x520), (0x522, 0x522), (0x524, 0x524),
    (0x526, 0x526), (0x528, 0x528), (0x52A, 0x52A), (0x52C, 0x52C), (0x52E, 0x52E),
    (0x531, 0x556), (0x10A0, 0x10C5), (0x10C7, 0x10C7), (0x10CD, 0x10CD), (0x13A0, 0x13F5),
    (0x1C90, 0x1CBA), (0x1CBD, 0x1CBF), (0x1E00, 0x1E00), (0x1E02, 0x1E02), (0x1E04, 0x1E04),
    (0x1E06, 0x1E06), (0x1E08, 0x1E08), (0x1E0A, 0x1E0A), (0x1E0C, 0x1E0C), (0x1E0E, 0x1E0E),
    (0x1E10, 0x1E10), (0x1E12, 0x1E12)]"

definition uppercase_ranges_9 :: "(cp \<times> cp) list" where
  "uppercase_ranges_9 = [
    (0x1E14, 0x1E14), (0x1E16, 0x1E16), (0x1E18, 0x1E18), (0x1E1A, 0x1E1A), (0x1E1C, 0x1E1C),
    (0x1E1E, 0x1E1E), (0x1E20, 0x1E20), (0x1E22, 0x1E22), (0x1E24, 0x1E24), (0x1E26, 0x1E26),
    (0x1E28, 0x1E28), (0x1E2A, 0x1E2A), (0x1E2C, 0x1E2C), (0x1E2E, 0x1E2E), (0x1E30, 0x1E30),
    (0x1E32, 0x1E32), (0x1E34, 0x1E34), (0x1E36, 0x1E36), (0x1E38, 0x1E38), (0x1E3A, 0x1E3A),
    (0x1E3C, 0x1E3C), (0x1E3E, 0x1E3E), (0x1E40, 0x1E40), (0x1E42, 0x1E42), (0x1E44, 0x1E44),
    (0x1E46, 0x1E46), (0x1E48, 0x1E48), (0x1E4A, 0x1E4A), (0x1E4C, 0x1E4C), (0x1E4E, 0x1E4E),
    (0x1E50, 0x1E50), (0x1E52, 0x1E52)]"

definition uppercase_ranges_10 :: "(cp \<times> cp) list" where
  "uppercase_ranges_10 = [
    (0x1E54, 0x1E54), (0x1E56, 0x1E56), (0x1E58, 0x1E58), (0x1E5A, 0x1E5A), (0x1E5C, 0x1E5C),
    (0x1E5E, 0x1E5E), (0x1E60, 0x1E60), (0x1E62, 0x1E62), (0x1E64, 0x1E64), (0x1E66, 0x1E66),
    (0x1E68, 0x1E68), (0x1E6A, 0x1E6A), (0x1E6C, 0x1E6C), (0x1E6E, 0x1E6E), (0x1E70, 0x1E70),
    (0x1E72, 0x1E72), (0x1E74, 0x1E74), (0x1E76, 0x1E76), (0x1E78, 0x1E78), (0x1E7A, 0x1E7A),
    (0x1E7C, 0x1E7C), (0x1E7E, 0x1E7E), (0x1E80, 0x1E80), (0x1E82, 0x1E82), (0x1E84, 0x1E84),
    (0x1E86, 0x1E86), (0x1E88, 0x1E88), (0x1E8A, 0x1E8A), (0x1E8C, 0x1E8C), (0x1E8E, 0x1E8E),
    (0x1E90, 0x1E90), (0x1E92, 0x1E92)]"

definition uppercase_ranges_11 :: "(cp \<times> cp) list" where
  "uppercase_ranges_11 = [
    (0x1E94, 0x1E94), (0x1E9E, 0x1E9E), (0x1EA0, 0x1EA0), (0x1EA2, 0x1EA2), (0x1EA4, 0x1EA4),
    (0x1EA6, 0x1EA6), (0x1EA8, 0x1EA8), (0x1EAA, 0x1EAA), (0x1EAC, 0x1EAC), (0x1EAE, 0x1EAE),
    (0x1EB0, 0x1EB0), (0x1EB2, 0x1EB2), (0x1EB4, 0x1EB4), (0x1EB6, 0x1EB6), (0x1EB8, 0x1EB8),
    (0x1EBA, 0x1EBA), (0x1EBC, 0x1EBC), (0x1EBE, 0x1EBE), (0x1EC0, 0x1EC0), (0x1EC2, 0x1EC2),
    (0x1EC4, 0x1EC4), (0x1EC6, 0x1EC6), (0x1EC8, 0x1EC8), (0x1ECA, 0x1ECA), (0x1ECC, 0x1ECC),
    (0x1ECE, 0x1ECE), (0x1ED0, 0x1ED0), (0x1ED2, 0x1ED2), (0x1ED4, 0x1ED4), (0x1ED6, 0x1ED6),
    (0x1ED8, 0x1ED8), (0x1EDA, 0x1EDA)]"

definition uppercase_ranges_12 :: "(cp \<times> cp) list" where
  "uppercase_ranges_12 = [
    (0x1EDC, 0x1EDC), (0x1EDE, 0x1EDE), (0x1EE0, 0x1EE0), (0x1EE2, 0x1EE2), (0x1EE4, 0x1EE4),
    (0x1EE6, 0x1EE6), (0x1EE8, 0x1EE8), (0x1EEA, 0x1EEA), (0x1EEC, 0x1EEC), (0x1EEE, 0x1EEE),
    (0x1EF0, 0x1EF0), (0x1EF2, 0x1EF2), (0x1EF4, 0x1EF4), (0x1EF6, 0x1EF6), (0x1EF8, 0x1EF8),
    (0x1EFA, 0x1EFA), (0x1EFC, 0x1EFC), (0x1EFE, 0x1EFE), (0x1F08, 0x1F0F), (0x1F18, 0x1F1D),
    (0x1F28, 0x1F2F), (0x1F38, 0x1F3F), (0x1F48, 0x1F4D), (0x1F59, 0x1F59), (0x1F5B, 0x1F5B),
    (0x1F5D, 0x1F5D), (0x1F5F, 0x1F5F), (0x1F68, 0x1F6F), (0x1FB8, 0x1FBB), (0x1FC8, 0x1FCB),
    (0x1FD8, 0x1FDB), (0x1FE8, 0x1FEC)]"

definition uppercase_ranges_13 :: "(cp \<times> cp) list" where
  "uppercase_ranges_13 = [
    (0x1FF8, 0x1FFB), (0x2102, 0x2102), (0x2107, 0x2107), (0x210B, 0x210D), (0x2110, 0x2112),
    (0x2115, 0x2115), (0x2119, 0x211D), (0x2124, 0x2124), (0x2126, 0x2126), (0x2128, 0x2128),
    (0x212A, 0x212D), (0x2130, 0x2133), (0x213E, 0x213F), (0x2145, 0x2145), (0x2160, 0x216F),
    (0x2183, 0x2183), (0x24B6, 0x24CF), (0x2C00, 0x2C2F), (0x2C60, 0x2C60), (0x2C62, 0x2C64),
    (0x2C67, 0x2C67), (0x2C69, 0x2C69), (0x2C6B, 0x2C6B), (0x2C6D, 0x2C70), (0x2C72, 0x2C72),
    (0x2C75, 0x2C75), (0x2C7E, 0x2C80), (0x2C82, 0x2C82), (0x2C84, 0x2C84), (0x2C86, 0x2C86),
    (0x2C88, 0x2C88), (0x2C8A, 0x2C8A)]"

definition uppercase_ranges_14 :: "(cp \<times> cp) list" where
  "uppercase_ranges_14 = [
    (0x2C8C, 0x2C8C), (0x2C8E, 0x2C8E), (0x2C90, 0x2C90), (0x2C92, 0x2C92), (0x2C94, 0x2C94),
    (0x2C96, 0x2C96), (0x2C98, 0x2C98), (0x2C9A, 0x2C9A), (0x2C9C, 0x2C9C), (0x2C9E, 0x2C9E),
    (0x2CA0, 0x2CA0), (0x2CA2, 0x2CA2), (0x2CA4, 0x2CA4), (0x2CA6, 0x2CA6), (0x2CA8, 0x2CA8),
    (0x2CAA, 0x2CAA), (0x2CAC, 0x2CAC), (0x2CAE, 0x2CAE), (0x2CB0, 0x2CB0), (0x2CB2, 0x2CB2),
    (0x2CB4, 0x2CB4), (0x2CB6, 0x2CB6), (0x2CB8, 0x2CB8), (0x2CBA, 0x2CBA), (0x2CBC, 0x2CBC),
    (0x2CBE, 0x2CBE), (0x2CC0, 0x2CC0), (0x2CC2, 0x2CC2), (0x2CC4, 0x2CC4), (0x2CC6, 0x2CC6),
    (0x2CC8, 0x2CC8), (0x2CCA, 0x2CCA)]"

definition uppercase_ranges_15 :: "(cp \<times> cp) list" where
  "uppercase_ranges_15 = [
    (0x2CCC, 0x2CCC), (0x2CCE, 0x2CCE), (0x2CD0, 0x2CD0), (0x2CD2, 0x2CD2), (0x2CD4, 0x2CD4),
    (0x2CD6, 0x2CD6), (0x2CD8, 0x2CD8), (0x2CDA, 0x2CDA), (0x2CDC, 0x2CDC), (0x2CDE, 0x2CDE),
    (0x2CE0, 0x2CE0), (0x2CE2, 0x2CE2), (0x2CEB, 0x2CEB), (0x2CED, 0x2CED), (0x2CF2, 0x2CF2),
    (0xA640, 0xA640), (0xA642, 0xA642), (0xA644, 0xA644), (0xA646, 0xA646), (0xA648, 0xA648),
    (0xA64A, 0xA64A), (0xA64C, 0xA64C), (0xA64E, 0xA64E), (0xA650, 0xA650), (0xA652, 0xA652),
    (0xA654, 0xA654), (0xA656, 0xA656), (0xA658, 0xA658), (0xA65A, 0xA65A), (0xA65C, 0xA65C),
    (0xA65E, 0xA65E), (0xA660, 0xA660)]"

definition uppercase_ranges_16 :: "(cp \<times> cp) list" where
  "uppercase_ranges_16 = [
    (0xA662, 0xA662), (0xA664, 0xA664), (0xA666, 0xA666), (0xA668, 0xA668), (0xA66A, 0xA66A),
    (0xA66C, 0xA66C), (0xA680, 0xA680), (0xA682, 0xA682), (0xA684, 0xA684), (0xA686, 0xA686),
    (0xA688, 0xA688), (0xA68A, 0xA68A), (0xA68C, 0xA68C), (0xA68E, 0xA68E), (0xA690, 0xA690),
    (0xA692, 0xA692), (0xA694, 0xA694), (0xA696, 0xA696), (0xA698, 0xA698), (0xA69A, 0xA69A),
    (0xA722, 0xA722), (0xA724, 0xA724), (0xA726, 0xA726), (0xA728, 0xA728), (0xA72A, 0xA72A),
    (0xA72C, 0xA72C), (0xA72E, 0xA72E), (0xA732, 0xA732), (0xA734, 0xA734), (0xA736, 0xA736),
    (0xA738, 0xA738), (0xA73A, 0xA73A)]"

definition uppercase_ranges_17 :: "(cp \<times> cp) list" where
  "uppercase_ranges_17 = [
    (0xA73C, 0xA73C), (0xA73E, 0xA73E), (0xA740, 0xA740), (0xA742, 0xA742), (0xA744, 0xA744),
    (0xA746, 0xA746), (0xA748, 0xA748), (0xA74A, 0xA74A), (0xA74C, 0xA74C), (0xA74E, 0xA74E),
    (0xA750, 0xA750), (0xA752, 0xA752), (0xA754, 0xA754), (0xA756, 0xA756), (0xA758, 0xA758),
    (0xA75A, 0xA75A), (0xA75C, 0xA75C), (0xA75E, 0xA75E), (0xA760, 0xA760), (0xA762, 0xA762),
    (0xA764, 0xA764), (0xA766, 0xA766), (0xA768, 0xA768), (0xA76A, 0xA76A), (0xA76C, 0xA76C),
    (0xA76E, 0xA76E), (0xA779, 0xA779), (0xA77B, 0xA77B), (0xA77D, 0xA77E), (0xA780, 0xA780),
    (0xA782, 0xA782), (0xA784, 0xA784)]"

definition uppercase_ranges_18 :: "(cp \<times> cp) list" where
  "uppercase_ranges_18 = [
    (0xA786, 0xA786), (0xA78B, 0xA78B), (0xA78D, 0xA78D), (0xA790, 0xA790), (0xA792, 0xA792),
    (0xA796, 0xA796), (0xA798, 0xA798), (0xA79A, 0xA79A), (0xA79C, 0xA79C), (0xA79E, 0xA79E),
    (0xA7A0, 0xA7A0), (0xA7A2, 0xA7A2), (0xA7A4, 0xA7A4), (0xA7A6, 0xA7A6), (0xA7A8, 0xA7A8),
    (0xA7AA, 0xA7AE), (0xA7B0, 0xA7B4), (0xA7B6, 0xA7B6), (0xA7B8, 0xA7B8), (0xA7BA, 0xA7BA),
    (0xA7BC, 0xA7BC), (0xA7BE, 0xA7BE), (0xA7C0, 0xA7C0), (0xA7C2, 0xA7C2), (0xA7C4, 0xA7C7),
    (0xA7C9, 0xA7C9), (0xA7D0, 0xA7D0), (0xA7D6, 0xA7D6), (0xA7D8, 0xA7D8), (0xA7F5, 0xA7F5),
    (0xFF21, 0xFF3A), (0x10400, 0x10427)]"

definition uppercase_ranges_19 :: "(cp \<times> cp) list" where
  "uppercase_ranges_19 = [
    (0x104B0, 0x104D3), (0x10570, 0x1057A), (0x1057C, 0x1058A), (0x1058C, 0x10592), (0x10594, 0x10595),
    (0x10C80, 0x10CB2), (0x118A0, 0x118BF), (0x16E40, 0x16E5F), (0x1D400, 0x1D419), (0x1D434, 0x1D44D),
    (0x1D468, 0x1D481), (0x1D49C, 0x1D49C), (0x1D49E, 0x1D49F), (0x1D4A2, 0x1D4A2), (0x1D4A5, 0x1D4A6),
    (0x1D4A9, 0x1D4AC), (0x1D4AE, 0x1D4B5), (0x1D4D0, 0x1D4E9), (0x1D504, 0x1D505), (0x1D507, 0x1D50A),
    (0x1D50D, 0x1D514), (0x1D516, 0x1D51C), (0x1D538, 0x1D539), (0x1D53B, 0x1D53E), (0x1D540, 0x1D544),
    (0x1D546, 0x1D546), (0x1D54A, 0x1D550), (0x1D56C, 0x1D585), (0x1D5A0, 0x1D5B9), (0x1D5D4, 0x1D5ED),
    (0x1D608, 0x1D621), (0x1D63C, 0x1D655)]"

definition uppercase_ranges_20 :: "(cp \<times> cp) list" where
  "uppercase_ranges_20 = [
    (0x1D670, 0x1D689), (0x1D6A8, 0x1D6C0), (0x1D6E2, 0x1D6FA), (0x1D71C, 0x1D734), (0x1D756, 0x1D76E),
    (0x1D790, 0x1D7A8), (0x1D7CA, 0x1D7CA), (0x1E900, 0x1E921), (0x1F130, 0x1F149), (0x1F150, 0x1F169),
    (0x1F170, 0x1F189)]"

definition uppercase_ranges :: "cp \<Rightarrow> (cp \<times> cp) list" where
  "uppercase_ranges c =
     (if c \<le> 0x139 then uppercase_ranges_0 else
      if c \<le> 0x17B then uppercase_ranges_1 else
      if c \<le> 0x1DE then uppercase_ranges_2 else
      if c \<le> 0x222 then uppercase_ranges_3 else
      if c \<le> 0x3DE then uppercase_ranges_4 else
      if c \<le> 0x48E then uppercase_ranges_5 else
      if c \<le> 0x4D0 then uppercase_ranges_6 else
      if c \<le> 0x510 then uppercase_ranges_7 else
      if c \<le> 0x1E12 then uppercase_ranges_8 else
      if c \<le> 0x1E52 then uppercase_ranges_9 else
      if c \<le> 0x1E92 then uppercase_ranges_10 else
      if c \<le> 0x1EDA then uppercase_ranges_11 else
      if c \<le> 0x1FEC then uppercase_ranges_12 else
      if c \<le> 0x2C8A then uppercase_ranges_13 else
      if c \<le> 0x2CCA then uppercase_ranges_14 else
      if c \<le> 0xA660 then uppercase_ranges_15 else
      if c \<le> 0xA73A then uppercase_ranges_16 else
      if c \<le> 0xA784 then uppercase_ranges_17 else
      if c \<le> 0x10427 then uppercase_ranges_18 else
      if c \<le> 0x1D655 then uppercase_ranges_19 else
      uppercase_ranges_20)"

subsection \<open>Cased code points\<close>

definition cased_ranges_0 :: "(cp \<times> cp) list" where
  "cased_ranges_0 = [
    (0x41, 0x5A), (0x61, 0x7A), (0xAA, 0xAA), (0xB5, 0xB5), (0xBA, 0xBA),
    (0xC0, 0xD6), (0xD8, 0xF6), (0xF8, 0x1BA), (0x1BC, 0x1BF), (0x1C4, 0x293),
    (0x295, 0x2B8), (0x2C0, 0x2C1), (0x2E0, 0x2E4), (0x345, 0x345), (0x370, 0x373),
    (0x376, 0x377), (0x37A, 0x37D), (0x37F, 0x37F), (0x386, 0x386), (0x388, 0x38A),
    (0x38C, 0x38C), (0x38E, 0x3A1), (0x3A3, 0x3F5), (0x3F7, 0x481), (0x48A, 0x52F),
    (0x531, 0x556), (0x560, 0x588), (0x10A0, 0x10C5), (0x10C7, 0x10C7), (0x10CD, 0x10CD),
    (0x10D0, 0x10FA), (0x10FD, 0x10FF)]"

definition cased_ranges_1 :: "(cp \<times> cp) list" where
  "cased_ranges_1 = [
    (0x13A0, 0x13F5), (0x13F8, 0x13FD), (0x1C80, 0x1C88), (0x1C90, 0x1CBA), (0x1CBD, 0x1CBF),
    (0x1D00, 0x1DBF), (0x1E00, 0x1F15), (0x1F18, 0x1F1D), (0x1F20, 0x1F45), (0x1F48, 0x1F4D),
    (0x1F50, 0x1F57), (0x1F59, 0x1F59), (0x1F5B, 0x1F5B), (0x1F5D, 0x1F5D), (0x1F5F, 0x1F7D),
    (0x1F80, 0x1FB4), (0x1FB6, 0x1FBC), (0x1FBE, 0x1FBE), (0x1FC2, 0x1FC4), (0x1FC6, 0x1FCC),
    (0x1FD0, 0x1FD3), (0x1FD6, 0x1FDB), (0x1FE0, 0x1FEC), (0x1FF2, 0x1FF4), (0x1FF6, 0x1FFC),
    (0x2071, 0x2071), (0x207F, 0x207F), (0x2090, 0x209C), (0x2102, 0x2102), (0x2107, 0x2107),
    (0x210A, 0x2113), (0x2115, 0x2115)]"

definition cased_ranges_2 :: "(cp \<times> cp) list" where
  "cased_ranges_2 = [
    (0x2119, 0x211D), (0x2124, 0x2124), (0x2126, 0x2126), (0x2128, 0x2128), (0x212A, 0x212D),
    (0x212F, 0x2134), (0x2139, 0x2139), (0x213C, 0x213F), (0x2145, 0x2149), (0x214E, 0x214E),
    (0x2160, 0x217F), (0x2183, 0x2184), (0x24B6, 0x24E9), (0x2C00, 0x2CE4), (0x2CEB, 0x2CEE),
    (0x2CF2, 0x2CF3), (0x2D00, 0x2D25), (0x2D27, 0x2D27), (0x2D2D, 0x2D2D), (0xA640, 0xA66D),
    (0xA680, 0xA69D), (0xA722, 0xA787), (0xA78B, 0xA78E), (0xA790, 0xA7CA), (0xA7D0, 0xA7D1),
    (0xA7D3, 0xA7D3), (0xA7D5, 0xA7D9), (0xA7F5, 0xA7F6), (0xA7F8, 0xA7FA), (0xAB30, 0xAB5A),
    (0xAB5C, 0xAB68), (0xAB70, 0xABBF)]"

definition cased_ranges_3 :: "(cp \<times> cp) list" where
  "cased_ranges_3 = [
    (0xFB00, 0xFB06), (0xFB13, 0xFB17), (0xFF21, 0xFF3A), (0xFF41, 0xFF5A), (0x10400, 0x1044F),
    (0x104B0, 0x104D3), (0x104D8, 0x104FB), (0x10570, 0x1057A), (0x1057C, 0x1058A), (0x1058C, 0x10592),
    (0x10594, 0x10595), (0x10597, 0x105A1), (0x105A3, 0x105B1), (0x105B3, 0x105B9), (0x105BB, 0x105BC),
    (0x10780, 0x10780), (0x10783, 0x10785), (0x10787, 0x107B0), (0x107B2, 0x107BA), (0x10C80, 0x10CB2),
    (0x10CC0, 0x10CF2), (0x118A0, 0x118DF), (0x16E40, 0x16E7F), (0x1D400, 0x1D454), (0x1D456, 0x1D49C),
    (0x1D49E, 0x1D49F), (0x1D4A2, 0x1D4A2), (0x1D4A5, 0x1D4A6), (0x1D4A9, 0x1D4AC), (0x1D4AE, 0x1D4B9),
    (0x1D4BB, 0x1D4BB), (0x1D4BD, 0x1D4C3)]"

definition cased_ranges_4 :: "(cp \<times> cp) list" where
  "cased_ranges_4 = [
    (0x1D4C5, 0x1D505), (0x1D507, 0x1D50A), (0x1D50D, 0x1D514), (0x1D516, 0x1D51C), (0x1D51E, 0x1D539),
    (0x1D53B, 0x1D53E), (0x1D540, 0x1D544), (0x1D546, 0x1D546), (0x1D54A, 0x1D550), (0x1D552, 0x1D6A5),
    (0x1D6A8, 0x1D6C0), (0x1D6C2, 0x1D6DA), (0x1D6DC, 0x1D6FA), (0x1D6FC, 0x1D714), (0x1D716, 0x1D734),
    (0x1D736, 0x1D74E), (0x1D750, 0x1D76E), (0x1D770, 0x1D788), (0x1D78A, 0x1D7A8), (0x1D7AA, 0x1D7C2),
    (0x1D7C4, 0x1D7CB), (0x1DF00, 0x1DF09), (0x1DF0B, 0x1DF1E), (0x1E900, 0x1E943), (0x1F130, 0x1F149),
    (0x1F150, 0x1F169), (0x1F170, 0x1F189)]"

definition cased_ranges :: "cp \<Rightarrow> (cp \<times> cp) list" where
  "cased_ranges c =
     (if c \<le> 0x10FF then cased_ranges_0 else
      if c \<le> 0x2115 then cased_ranges_1 else
      if c \<le> 0xABBF then cased_ranges_2 else
      if c \<le> 0x1D4C3 then cased_ranges_3 else
      cased_ranges_4)"

subsection \<open>Case-ignorable code points\<close>

definition case_ignorable_ranges_0 :: "(cp \<times> cp) list" where
  "case_ignorable_ranges_0 = [
    (0x27, 0x27), (0x2E, 0x2E), (0x3A, 0x3A), (0x5E, 0x5E), (0x60, 0x60),
    (0xA8, 0xA8), (0xAD, 0xAD), (0xAF, 0xAF), (0xB4, 0xB4), (0xB7, 0xB8),
    (0x2B0, 0x36F), (0x374, 0x375), (0x37A, 0x37A), (0x384, 0x385), (0x387, 0x387),
    (0x483, 0x489), (0x559, 0x559), (0x55F, 0x55F), (0x591, 0x5BD), (0x5BF, 0x5BF),
    (0x5C1, 0x5C2), (0x5C4, 0x5C5), (0x5C7, 0x5C7), (0x5F4, 0x5F4), (0x600, 0x605),
    (0x610, 0x61A), (0x61C, 0x61C), (0x640, 0x640), (0x64B, 0x65F), (0x670, 0x670),
    (0x6D6, 0x6DD), (0x6DF, 0x6E8)]"

definition case_ignorable_ranges_1 :: "(cp \<times> cp) list" where
  "case_ignorable_ranges_1 = [
    (0x6EA, 0x6ED), (0x70F, 0x70F), (0x711, 0x711), (0x730, 0x74A), (0x7A6, 0x7B0),
    (0x7EB, 0x7F5), (0x7FA, 0x7FA), (0x7FD, 0x7FD), (0x816, 0x82D), (0x859, 0x85B),
    (0x888, 0x888), (0x890, 0x891), (0x898, 0x89F), (0x8C9, 0x902), (0x93A, 0x93A),
    (0x93C, 0x93C), (0x941, 0x948), (0x94D, 0x94D), (0x951, 0x957), (0x962, 0x963),
    (0x971, 0x971), (0x981, 0x981), (0x9BC, 0x9BC), (0x9C1, 0x9C4), (0x9CD, 0x9CD),
    (0x9E2, 0x9E3), (0x9FE, 0x9FE), (0xA01, 0xA02), (0xA3C, 0xA3C), (0xA41, 0xA42),
    (0xA47, 0xA48), (0xA4B, 0xA4D)]"

definition case_ignorable_ranges_2 :: "(cp \<times> cp) list" where
  "case_ignorable_ranges_2 = [
    (0xA51, 0xA51), (0xA70, 0xA71), (0xA75, 0xA75), (0xA81, 0xA82), (0xABC, 0xABC),
    (0xAC1, 0xAC5), (0xAC7, 0xAC8), (0xACD, 0xACD), (0xAE2, 0xAE3), (0xAFA, 0xAFF),
    (0xB01, 0xB01), (0xB3C, 0xB3C), (0xB3F, 0xB3F), (0xB41, 0xB44), (0xB4D, 0xB4D),
    (0xB55, 0xB56), (0xB62, 0xB63), (0xB82, 0xB82), (0xBC0, 0xBC0), (0xBCD, 0xBCD),
    (0xC00, 0xC00), (0xC04, 0xC04), (0xC3C, 0xC3C), (0xC3E, 0xC40), (0xC46, 0xC48),
    (0xC4A, 0xC4D), (0xC55, 0xC56), (0xC62, 0xC63), (0xC81, 0xC81), (0xCBC, 0xCBC),
    (0xCBF, 0xCBF), (0xCC6, 0xCC6)]"

definition case_ignorable_ranges_3 :: "(cp \<times> cp) list" where
  "case_ignorable_ranges_3 = [
    (0xCCC, 0xCCD), (0xCE2, 0xCE3), (0xD00, 0xD01), (0xD3B, 0xD3C), (0xD41, 0xD44),
    (0xD4D, 0xD4D), (0xD62, 0xD63), (0xD81, 0xD81), (0xDCA, 0xDCA), (0xDD2, 0xDD4),
    (0xDD6, 0xDD6), (0xE31, 0xE31), (0xE34, 0xE3A), (0xE46, 0xE4E), (0xEB1, 0xEB1),
    (0xEB4, 0xEBC), (0xEC6, 0xEC6), (0xEC8, 0xECD), (0xF18, 0xF19), (0xF35, 0xF35),
    (0xF37, 0xF37), (0xF39, 0xF39), (0xF71, 0xF7E), (0xF80, 0xF84), (0xF86, 0xF87),
    (0xF8D, 0xF97), (0xF99, 0xFBC), (0xFC6, 0xFC6), (0x102D, 0x1030), (0x1032, 0x1037),
    (0x1039, 0x103A), (0x103D, 0x103E)]"

definition case_ignorable_ranges_4 :: "(cp \<times> cp) list" where
  "case_ignorable_ranges_4 = [
    (0x1058, 0x1059), (0x105E, 0x1060), (0x1071, 0x1074), (0x1082, 0x1082), (0x1085, 0x1086),
    (0x108D, 0x108D), (0x109D, 0x109D), (0x10FC, 0x10FC), (0x135D, 0x135F), (0x1712, 0x1714),
    (0x1732, 0x1733), (0x1752, 0x1753), (0x1772, 0x1773), (0x17B4, 0x17B5), (0x17B7, 0x17BD),
    (0x17C6, 0x17C6), (0x17C9, 0x17D3), (0x17D7, 0x17D7), (0x17DD, 0x17DD), (0x180B, 0x180F),
    (0x1843, 0x1843), (0x1885, 0x1886), (0x18A9, 0x18A9), (0x1920, 0x1922), (0x1927, 0x1928),
    (0x1932, 0x1932), (0x1939, 0x193B), (0x1A17, 0x1A18), (0x1A1B, 0x1A1B), (0x1A56, 0x1A56),
    (0x1A58, 0x1A5E), (0x1A60, 0x1A60)]"

definition case_ignorable_ranges_5 :: "(cp \<times> cp) list" where
  "case_ignorable_ranges_5 = [
    (0x1A62, 0x1A62), (0x1A65, 0x1A6C), (0x1A73, 0x1A7C), (0x1A7F, 0x1A7F), (0x1AA7, 0x1AA7),
    (0x1AB0, 0x1ACE), (0x1B00, 0x1B03), (0x1B34, 0x1B34), (0x1B36, 0x1B3A), (0x1B3C, 0x1B3C),
    (0x1B42, 0x1B42), (0x1B6B, 0x1B73), (0x1B80, 0x1B81), (0x1BA2, 0x1BA5), (0x1BA8, 0x1BA9),
    (0x1BAB, 0x1BAD), (0x1BE6, 0x1BE6), (0x1BE8, 0x1BE9), (0x1BED, 0x1BED), (0x1BEF, 0x1BF1),
    (0x1C2C, 0x1C33), (0x1C36, 0x1C37), (0x1C78, 0x1C7D), (0x1CD0, 0x1CD2), (0x1CD4, 0x1CE0),
    (0x1CE2, 0x1CE8), (0x1CED, 0x1CED), (0x1CF4, 0x1CF4), (0x1CF8, 0x1CF9), (0x1D2C, 0x1D6A),
    (0x1D78, 0x1D78), (0x1D9B, 0x1DFF)]"

definition case_ignorable_ranges_6 :: "(cp \<times> cp) list" where
  "case_ignorable_ranges_6 = [
    (0x1FBD, 0x1FBD), (0x1FBF, 0x1FC1), (0x1FCD, 0x1FCF), (0x1FDD, 0x1FDF), (0x1FED, 0x1FEF),
    (0x1FFD, 0x1FFE), (0x200B, 0x200F), (0x2018, 0x2019), (0x2024, 0x2024), (0x2027, 0x2027),
    (0x202A, 0x202E), (0x2060, 0x2064), (0x2066, 0x206F), (0x2071, 0x2071), (0x207F, 0x207F),
    (0x2090, 0x209C), (0x20D0, 0x20F0), (0x2C7C, 0x2C7D), (0x2CEF, 0x2CF1), (0x2D6F, 0x2D6F),
    (0x2D7F, 0x2D7F), (0x2DE0, 0x2DFF), (0x2E2F, 0x2E2F), (0x3005, 0x3005), (0x302A, 0x302D),
    (0x3031, 0x3035), (0x303B, 0x303B), (0x3099, 0x309E), (0x30FC, 0x30FE), (0xA015, 0xA015),
    (0xA4F8, 0xA4FD), (0xA60C, 0xA60C)]"

definition case_ignorable_ranges_7 :: "(cp \<times> cp) list" where
  "case_ignorable_ranges_7 = [
    (0xA66F, 0xA672), (0xA674, 0xA67D), (0xA67F, 0xA67F), (0xA69C, 0xA69F), (0xA6F0, 0xA6F1),
    (0xA700, 0xA721), (0xA770, 0xA770), (0xA788, 0xA78A), (0xA7F2, 0xA7F4), (0xA7F8, 0xA7F9),
    (0xA802, 0xA802), (0xA806, 0xA806), (0xA80B, 0xA80B), (0xA825, 0xA826), (0xA82C, 0xA82C),
    (0xA8C4, 0xA8C5), (0xA8E0, 0xA8F1), (0xA8FF, 0xA8FF), (0xA926, 0xA92D), (0xA947, 0xA951),
    (0xA980, 0xA982), (0xA9B3, 0xA9B3), (0xA9B6, 0xA9B9), (0xA9BC, 0xA9BD), (0xA9CF, 0xA9CF),
    (0xA9E5, 0xA9E6), (0xAA29, 0xAA2E), (0xAA31, 0xAA32), (0xAA35, 0xAA36), (0xAA43, 0xAA43),
    (0xAA4C, 0xAA4C), (0xAA70, 0xAA70)]"

definition case_ignorable_ranges_8 :: "(cp \<times> cp) list" where
  "case_ignorable_ranges_8 = [
    (0xAA7C, 0xAA7C), (0xAAB0, 0xAAB0), (0xAAB2, 0xAAB4), (0xAAB7, 0xAAB8), (0xAABE, 0xAABF),
    (0xAAC1, 0xAAC1), (0xAADD, 0xAADD), (0xAAEC, 0xAAED), (0xAAF3, 0xAAF4), (0xAAF6, 0xAAF6),
    (0xAB5B, 0xAB5F), (0xAB69, 0xAB6B), (0xABE5, 0xABE5), (0xABE8, 0xABE8), (0xABED, 0xABED),
    (0xFB1E, 0xFB1E), (0xFBB2, 0xFBC2), (0xFE00, 0xFE0F), (0xFE13, 0xFE13), (0xFE20, 0xFE2F),
    (0xFE52, 0xFE52), (0xFE55, 0xFE55), (0xFEFF, 0xFEFF), (0xFF07, 0xFF07), (0xFF0E, 0xFF0E),
    (0xFF1A, 0xFF1A), (0xFF3E, 0xFF3E), (0xFF40, 0xFF40), (0xFF70, 0xFF70), (0xFF9E, 0xFF9F),
    (0xFFE3, 0xFFE3), (0xFFF9, 0xFFFB)]"

definition case_ignorable_ranges_9 :: "(cp \<times> cp) list" where
  "case_ignorable_ranges_9 = [
    (0x101FD, 0x101FD), (0x102E0, 0x102E0), (0x10376, 0x1037A), (0x10780, 0x10785), (0x10787, 0x107B0),
    (0x107B2, 0x107BA), (0x10A01, 0x10A03), (0x10A05, 0x10A06), (0x10A0C, 0x10A0F), (0x10A38, 0x10A3A),
    (0x10A3F, 0x10A3F), (0x10AE5, 0x10AE6), (0x10D24, 0x10D27), (0x10EAB, 0x10EAC), (0x10F46, 0x10F50),
    (0x10F82, 0x10F85), (0x11001, 0x11001), (0x11038, 0x11046), (0x11070, 0x11070), (0x11073, 0x11074),
    (0x1107F, 0x11081), (0x110B3, 0x110B6), (0x110B9, 0x110BA), (0x110BD, 0x110BD), (0x110C2, 0x110C2),
    (0x110CD, 0x110CD), (0x11100, 0x11102), (0x11127, 0x1112B), (0x1112D, 0x11134), (0x11173, 0x11173),
    (0x11180, 0x11181), (0x111B6, 0x111BE)]"

definition case_ignorable_ranges_10 :: "(cp \<times> cp) list" where
  "case_ignorable_ranges_10 = [
    (0x111C9, 0x111CC), (0x111CF, 0x111CF), (0x1122F, 0x11231), (0x11234, 0x11234), (0x11236, 0x11237),
    (0x1123E, 0x1123E), (0x112DF, 0x112DF), (0x112E3, 0x112EA), (0x11300, 0x11301), (0x1133B, 0x1133C),
    (0x11340, 0x11340), (0x11366, 0x1136C), (0x11370, 0x11374), (0x11438, 0x1143F), (0x11442, 0x11444),
    (0x11446, 0x11446), (0x1145E, 0x1145E), (0x114B3, 0x114B8), (0x114BA, 0x114BA), (0x114BF, 0x114C0),
    (0x114C2, 0x114C3), (0x115B2, 0x115B5), (0x115BC, 0x115BD), (0x115BF, 0x115C0), (0x115DC, 0x115DD),
    (0x11633, 0x1163A), (0x1163D, 0x1163D), (0x1163F, 0x11640), (0x116AB, 0x116AB), (0x116AD, 0x116AD),
    (0x116B0, 0x116B5), (0x116B7, 0x116B7)]"

definition case_ignorable_ranges_11 :: "(cp \<times> cp) list" where
  "case_ignorable_ranges_11 = [
    (0x1171D, 0x1171F), (0x11722, 0x11725), (0x11727, 0x1172B), (0x1182F, 0x11837), (0x11839, 0x1183A),
    (0x1193B, 0x1193C), (0x1193E, 0x1193E), (0x11943, 0x11943), (0x119D4, 0x119D7), (0x119DA, 0x119DB),
    (0x119E0, 0x119E0), (0x11A01, 0x11A0A), (0x11A33, 0x11A38), (0x11A3B, 0x11A3E), (0x11A47, 0x11A47),
    (0x11A51, 0x11A56), (0x11A59, 0x11A5B), (0x11A8A, 0x11A96), (0x11A98, 0x11A99), (0x11C30, 0x11C36),
    (0x11C38, 0x11C3D), (0x11C3F, 0x11C3F), (0x11C92, 0x11CA7), (0x11CAA, 0x11CB0), (0x11CB2, 0x11CB3),
    (0x11CB5, 0x11CB6), (0x11D31, 0x11D36), (0x11D3A, 0x11D3A), (0x11D3C, 0x11D3D), (0x11D3F, 0x11D45),
    (0x11D47, 0x11D47), (0x11D90, 0x11D91)]"

definition case_ignorable_ranges_12 :: "(cp \<times> cp) list" where
  "case_ignorable_ranges_12 = [
    (0x11D95, 0x11D95), (0x11D97, 0x11D97), (0x11EF3, 0x11EF4), (0x13430, 0x13438), (0x16AF0, 0x16AF4),
    (0x16B30, 0x16B36), (0x16B40, 0x16B43), (0x16F4F, 0x16F4F), (0x16F8F, 0x16F9F), (0x16FE0, 0x16FE1),
    (0x16FE3, 0x16FE4), (0x1AFF0, 0x1AFF3), (0x1AFF5, 0x1AFFB), (0x1AFFD, 0x1AFFE), (0x1BC9D, 0x1BC9E),
    (0x1BCA0, 0x1BCA3), (0x1CF00, 0x1CF2D), (0x1CF30, 0x1CF46), (0x1D167, 0x1D169), (0x1D173, 0x1D182),
    (0x1D185, 0x1D18B), (0x1D1AA, 0x1D1AD), (0x1D242, 0x1D244), (0x1DA00, 0x1DA36), (0x1DA3B, 0x1DA6C),
    (0x1DA75, 0x1DA75), (0x1DA84, 0x1DA84), (0x1DA9B, 0x1DA9F), (0x1DAA1, 0x1DAAF), (0x1E000, 0x1E006),
    (0x1E008, 0x1E018), (0x1E01B, 0x1E021)]"

definition case_ignorable_ranges_13 :: "(cp \<times> cp) list" where
  "case_ignorable_ranges_13 = [
    (0x1E023, 0x1E024), (0x1E026, 0x1E02A), (0x1E130, 0x1E13D), (0x1E2AE, 0x1E2AE), (0x1E2EC, 0x1E2EF),
    (0x1E8D0, 0x1E8D6), (0x1E944, 0x1E94B), (0x1F3FB, 0x1F3FF), (0xE0001, 0xE0001), (0xE0020, 0xE007F),
    (0xE0100, 0xE01EF)]"

definition case_ignorable_ranges :: "cp \<Rightarrow> (cp \<times> cp) list" where
  "case_ignorable_ranges c =
     (if c \<le> 0x6E8 then case_ignorable_ranges_0 else
      if c \<le> 0xA4D then case_ignorable_ranges_1 else
      if c \<le> 0xCC6 then case_ignorable_ranges_2 else
      if c \<le> 0x103E then case_ignorable_ranges_3 else
      if c \<le> 0x1A60 then case_ignorable_ranges_4 else
      if c \<le> 0x1DFF then case_ignorable_ranges_5 else
      if c \<le> 0xA60C then case_ignorable_ranges_6 else
      if c \<le> 0xAA70 then case_ignorable_ranges_7 else
      if c \<le> 0xFFFB then case_ignorable_ranges_8 else
      if c \<le> 0x111BE then case_ignorable_ranges_9 else
      if c \<le> 0x116B7 then case_ignorable_ranges_10 else
      if c \<le> 0x11D91 then case_ignorable_ranges_11 else
      if c \<le> 0x1E021 then case_ignorable_ranges_12 else
      case_ignorable_ranges_13)"

subsection \<open>Full uppercase mappings\<close>

definition upper_table_0 :: "(cp \<times> cp list) list" where
  "upper_table_0 = [
    (0x61, [0x41]), (0x62, [0x42]), (0x63, [0x43]), (0x64, [0x44]),
    (0x65, [0x45]), (0x66, [0x46]), (0x67, [0x47]), (0x68, [0x48]),
    (0x69, [0x49]), (0x6A, [0x4A]), (0x6B, [0x4B]), (0x6C, [0x4C]),
    (0x6D, [0x4D]), (0x6E, [0x4E]), (0x6F, [0x4F]), (0x70, [0x50]),
    (0x71, [0x51]), (0x72, [0x52]), (0x73, [0x53]), (0x74, [0x54]),
    (0x75, [0x55]), (0x76, [0x56]), (0x77, [0x57]), (0x78, [0x58]),
    (0x79, [0x59]), (0x7A, [0x5A]), (0xB5, [0x39C]), (0xDF, [0x53, 0x53]),
    (0xE0, [0xC0]), (0xE1, [0xC1]), (0xE2, [0xC2]), (0xE3, [0xC3])]"

definition upper_table_1 :: "(cp \<times> cp list) list" where
  "upper_table_1 = [
    (0xE4, [0xC4]), (0xE5, [0xC5]), (0xE6, [0xC6]), (0xE7, [0xC7]),
    (0xE8, [0xC8]), (0xE9, [0xC9]), (0xEA, [0xCA]), (0xEB, [0xCB]),
    (0xEC, [0xCC]), (0xED, [0xCD]), (0xEE, [0xCE]), (0xEF, [0xCF]),
    (0xF0, [0xD0]), (0xF1, [0xD1]), (0xF2, [0xD2]), (0xF3, [0xD3]),
    (0xF4, [0xD4]), (0xF5, [0xD5]), (0xF6, [0xD6]), (0xF8, [0xD8]),
    (0xF9, [0xD9]), (0xFA, [0xDA]), (0xFB, [0xDB]), (0xFC, [0xDC]),
    (0xFD, [0xDD]), (0xFE, [0xDE]), (0xFF, [0x178]), (0x101, [0x100]),
    (0x103, [0x102]), (0x105, [0x104]), (0x107, [0x106]), (0x109, [0x108])]"

definition upper_table_2 :: "(cp \<times> cp list) list" where
  "upper_table_2 = [
    (0x10B, [0x10A]), (0x10D, [0x10C]), (0x10F, [0x10E]), (0x111, [0x110]),
    (0x113, [0x112]), (0x115, [0x114]), (0x117, [0x116]), (0x119, [0x118]),
    (0x11B, [0x11A]), (0x11D, [0x11C]), (0x11F, [0x11E]), (0x121, [0x120]),
    (0x123, [0x122]), (0x125, [0x124]), (0x127, [0x126]), (0x129, [0x128]),
    (0x12B, [0x12A]), (0x12D, [0x12C]), (0x12F, [0x12E]), (0x131, [0x49]),
    (0x133, [0x132]), (0x135, [0x134]), (0x137, [0x136]), (0x13A, [0x139]),
    (0x13C, [0x13B]), (0x13E, [0x13D]), (0x140, [0x13F]), (0x142, [0x141]),
    (0x144, [0x143]), (0x146, [0x145]), (0x148, [0x147]), (0x149, [0x2BC, 0x4E])]"

definition upper_table_3 :: "(cp \<times> cp list) list" where
  "upper_table_3 = [
    (0x14B, [0x14A]), (0x14D, [0x14C]), (0x14F, [0x14E]), (0x151, [0x150]),
    (0x153, [0x152]), (0x155, [0x154]), (0x157, [0x156]), (0x159, [0x158]),
    (0x15B, [0x15A]), (0x15D, [0x15C]), (0x15F, [0x15E]), (0x161, [0x160]),
    (0x163, [0x162]), (0x165, [0x164]), (0x167, [0x166]), (0x169, [0x168]),
    (0x16B, [0x16A]), (0x16D, [0x16C]), (0x16F, [0x16E]), (0x171, [0x170]),
    (0x173, [0x172]), (0x175, [0x174]), (0x177, [0x176]), (0x17A, [0x179]),
    (0x17C, [0x17B]), (0x17E, [0x17D]), (0x17F, [0x53]), (0x180, [0x243]),
    (0x183, [0x182]), (0x185, [0x184]), (0x188, [0x187]), (0x18C, [0x18B])]"

definition upper_table_4 :: "(cp \<times> cp list) list" where
  "upper_table_4 = [
    (0x192, [0x191]), (0x195, [0x1F6]), (0x199, [0x198]), (0x19A, [0x23D]),
    (0x19E, [0x220]), (0x1A1, [0x1A0]), (0x1A3, [0x1A2]), (0x1A5, [0x1A4]),
    (0x1A8, [0x1A7]), (0x1AD, [0x1AC]), (0x1B0, [0x1AF]), (0x1B4, [0x1B3]),
    (0x1B6, [0x1B5]), (0x1B9, [0x1B8]), (0x1BD, [0x1BC]), (0x1BF, [0x1F7]),
    (0x1C5, [0x1C4]), (0x1C6, [0x1C4]), (0x1C8, [0x1C7]), (0x1C9, [0x1C7]),
    (0x1CB, [0x1CA]), (0x1CC, [0x1CA]), (0x1CE, [0x1CD]), (0x1D0, [0x1CF]),
    (0x1D2, [0x1D1]), (0x1D4, [0x1D3]), (0x1D6, [0x1D5]), (0x1D8, [0x1D7]),
    (0x1DA, [0x1D9]), (0x1DC, [0x1DB]), (0x1DD, [0x18E]), (0x1DF, [0x1DE])]"

definition upper_table_5 :: "(cp \<times> cp list) list" where
  "upper_table_5 = [
    (0x1E1, [0x1E0]), (0x1E3, [0x1E2]), (0x1E5, [0x1E4]), (0x1E7, [0x1E6]),
    (0x1E9, [0x1E8]), (0x1EB, [0x1EA]), (0x1ED, [0x1EC]), (0x1EF, [0x1EE]),
    (0x1F0, [0x4A, 0x30C]), (0x1F2, [0x1F1]), (0x1F3, [0x1F1]), (0x1F5, [0x1F4]),
    (0x1F9, [0x1F8]), (0x1FB, [0x1FA]), (0x1FD, [0x1FC]), (0x1FF, [0x1FE]),
    (0x201, [0x200]), (0x203, [0x202]), (0x205, [0x204]), (0x207, [0x206]),
    (0x209, [0x208]), (0x20B, [0x20A]), (0x20D, [0x20C]), (0x20F, [0x20E]),
    (0x211, [0x210]), (0x213, [0x212]), (0x215, [0x214]), (0x217, [0x216]),
    (0x219, [0x218]), (0x21B, [0x21A]), (0x21D, [0x21C]), (0x21F, [0x21E])]"

definition upper_table_6 :: "(cp \<times> cp list) list" where
  "upper_table_6 = [
    (0x223, [0x222]), (0x225, [0x224]), (0x227, [0x226]), (0x229, [0x228]),
    (0x22B, [0x22A]), (0x22D, [0x22C]), (0x22F, [0x22E]), (0x231, [0x230]),
    (0x233, [0x232]), (0x23C, [0x23B]), (0x23F, [0x2C7E]), (0x240, [0x2C7F]),
    (0x242, [0x241]), (0x247, [0x246]), (0x249, [0x248]), (0x24B, [0x24A]),
    (0x24D, [0x24C]), (0x24F, [0x24E]), (0x250, [0x2C6F]), (0x251, [0x2C6D]),
    (0x252, [0x2C70]), (0x253, [0x181]), (0x254, [0x186]), (0x256, [0x189]),
    (0x257, [0x18A]), (0x259, [0x18F]), (0x25B, [0x190]), (0x25C, [0xA7AB]),
    (0x260, [0x193]), (0x261, [0xA7AC]), (0x263, [0x194]), (0x265, [0xA78D])]"

definition upper_table_7 :: "(cp \<times> cp list) list" where
  "upper_table_7 = [
    (0x266, [0xA7AA]), (0x268, [0x197]), (0x269, [0x196]), (0x26A, [0xA7AE]),
    (0x26B, [0x2C62]), (0x26C, [0xA7AD]), (0x26F, [0x19C]), (0x271, [0x2C6E]),
    (0x272, [0x19D]), (0x275, [0x19F]), (0x27D, [0x2C64]), (0x280, [0x1A6]),
    (0x282, [0xA7C5]), (0x283, [0x1A9]), (0x287, [0xA7B1]), (0x288, [0x1AE]),
    (0x289, [0x244]), (0x28A, [0x1B1]), (0x28B, [0x1B2]), (0x28C, [0x245]),
    (0x292, [0x1B7]), (0x29D, [0xA7B2]), (0x29E, [0xA7B0]), (0x345, [0x399]),
    (0x371, [0x370]), (0x373, [0x372]), (0x377, [0x376]), (0x37B, [0x3FD]),
    (0x37C, [0x3FE]), (0x37D, [0x3FF]), (0x390, [0x399, 0x308, 0x301]), (0x3AC, [0x386])]"

definition upper_table_8 :: "(cp \<times> cp list) list" where
  "upper_table_8 = [
    (0x3AD, [0x388]), (0x3AE, [0x389]), (0x3AF, [0x38A]), (0x3B0, [0x3A5, 0x308, 0x301]),
    (0x3B1, [0x391]), (0x3B2, [0x392]), (0x3B3, [0x393]), (0x3B4, [0x394]),
    (0x3B5, [0x395]), (0x3B6, [0x396]), (0x3B7, [0x397]), (0x3B8, [0x398]),
    (0x3B9, [0x399]), (0x3BA, [0x39A]), (0x3BB, [0x39B]), (0x3BC, [0x39C]),
    (0x3BD, [0x39D]), (0x3BE, [0x39E]), (0x3BF, [0x39F]), (0x3C0, [0x3A0]),
    (0x3C1, [0x3A1]), (0x3C2, [0x3A3]), (0x3C3, [0x3A3]), (0x3C4, [0x3A4]),
    (0x3C5, [0x3A5]), (0x3C6, [0x3A6]), (0x3C7, [0x3A7]), (0x3C8, [0x3A8]),
    (0x3C9, [0x3A9]), (0x3CA, [0x3AA]), (0x3CB, [0x3AB]), (0x3CC, [0x38C])]"

definition upper_table_9 :: "(cp \<times> cp list) list" where
  "upper_table_9 = [
    (0x3CD, [0x38E]), (0x3CE, [0x38F]), (0x3D0, [0x392]), (0x3D1, [0x398]),
    (0x3D5, [0x3A6]), (0x3D6, [0x3A0]), (0x3D7, [0x3CF]), (0x3D9, [0x3D8]),
    (0x3DB, [0x3DA]), (0x3DD, [0x3DC]), (0x3DF, [0x3DE]), (0x3E1, [0x3E0]),
    (0x3E3, [0x3E2]), (0x3E5, [0x3E4]), (0x3E7, [0x3E6]), (0x3E9, [0x3E8]),
    (0x3EB, [0x3EA]), (0x3ED, [0x3EC]), (0x3EF, [0x3EE]), (0x3F0, [0x39A]),
    (0x3F1, [0x3A1]), (0x3F2, [0x3F9]), (0x3F3, [0x37F]), (0x3F5, [0x395]),
    (0x3F8, [0x3F7]), (0x3FB, [0x3FA]), (0x430, [0x410]), (0x431, [0x411]),
    (0x432, [0x412]), (0x433, [0x413]), (0x434, [0x414]), (0x435, [0x415])]"

definition upper_table_10 :: "(cp \<times> cp list) list" where
  "upper_table_10 = [
    (0x436, [0x416]), (0x437, [0x417]), (0x438, [0x418]), (0x439, [0x419]),
    (0x43A, [0x41A]), (0x43B, [0x41B]), (0x43C, [0x41C]), (0x43D, [0x41D]),
    (0x43E, [0x41E]), (0x43F, [0x41F]), (0x440, [0x420]), (0x441, [0x421]),
    (0x442, [0x422]), (0x443, [0x423]), (0x444, [0x424]), (0x445, [0x425]),
    (0x446, [0x426]), (0x447, [0x427]), (0x448, [0x428]), (0x449, [0x429]),
    (0x44A, [0x42A]), (0x44B, [0x42B]), (0x44C, [0x42C]), (0x44D, [0x42D]),
    (0x44E, [0x42E]), (0x44F, [0x42F]), (0x450, [0x400]), (0x451, [0x401]),
    (0x452, [0x402]), (0x453, [0x403]), (0x454, [0x404]), (0x455, [0x405])]"

definition upper_table_11 :: "(cp \<times> cp list) list" where
  "upper_table_11 = [
    (0x456, [0x406]), (0x457, [0x407]), (0x458, [0x408]), (0x459, [0x409]),
    (0x45A, [0x40A]), (0x45B, [0x40B]), (0x45C, [0x40C]), (0x45D, [0x40D]),
    (0x45E, [0x40E]), (0x45F, [0x40F]), (0x461, [0x460]), (0x463, [0x462]),
    (0x465, [0x464]), (0x467, [0x466]), (0x469, [0x468]), (0x46B, [0x46A]),
    (0x46D, [0x46C]), (0x46F, [0x46E]), (0x471, [0x470]), (0x473, [0x472]),
    (0x475, [0x474]), (0x477, [0x476]), (0x479, [0x478]), (0x47B, [0x47A]),
    (0x47D, [0x47C]), (0x47F, [0x47E]), (0x481, [0x480]), (0x48B, [0x48A]),
    (0x48D, [0x48C]), (0x48F, [0x48E]), (0x491, [0x490]), (0x493, [0x492])]"

definition upper_table_12 :: "(cp \<times> cp list) list" where
  "upper_table_12 = [
    (0x495, [0x494]), (0x497, [0x496]), (0x499, [0x498]), (0x49B, [0x49A]),
    (0x49D, [0x49C]), (0x49F, [0x49E]), (0x4A1, [0x4A0]), (0x4A3, [0x4A2]),
    (0x4A5, [0x4A4]), (0x4A7, [0x4A6]), (0x4A9, [0x4A8]), (0x4AB, [0x4AA]),
    (0x4AD, [0x4AC]), (0x4AF, [0x4AE]), (0x4B1, [0x4B0]), (0x4B3, [0x4B2]),
    (0x4B5, [0x4B4]), (0x4B7, [0x4B6]), (0x4B9, [0x4B8]), (0x4BB, [0x4BA]),
    (0x4BD, [0x4BC]), (0x4BF, [0x4BE]), (0x4C2, [0x4C1]), (0x4C4, [0x4C3]),
    (0x4C6, [0x4C5]), (0x4C8, [0x4C7]), (0x4CA, [0x4C9]), (0x4CC, [0x4CB]),
    (0x4CE, [0x4CD]), (0x4CF, [0x4C0]), (0x4D1, [0x4D0]), (0x4D3, [0x4D2])]"

definition upper_table_13 :: "(cp \<times> cp list) list" where
  "upper_table_13 = [
    (0x4D5, [0x4D4]), (0x4D7, [0x4D6]), (0x4D9, [0x4D8]), (0x4DB, [0x4DA]),
    (0x4DD, [0x4DC]), (0x4DF, [0x4DE]), (0x4E1, [0x4E0]), (0x4E3, [0x4E2]),
    (0x4E5, [0x4E4]), (0x4E7, [0x4E6]), (0x4E9, [0x4E8]), (0x4EB, [0x4EA]),
    (0x4ED, [0x4EC]), (0x4EF, [0x4EE]), (0x4F1, [0x4F0]), (0x4F3, [0x4F2]),
    (0x4F5, [0x4F4]), (0x4F7, [0x4F6]), (0x4F9, [0x4F8]), (0x4FB, [0x4FA]),
    (0x4FD, [0x4FC]), (0x4FF, [0x4FE]), (0x501, [0x500]), (0x503, [0x502]),
    (0x505, [0x504]), (0x507, [0x506]), (0x509, [0x508]), (0x50B, [0x50A]),
    (0x50D, [0x50C]), (0x50F, [0x50E]), (0x511, [0x510]), (0x513, [0x512])]"

definition upper_table_14 :: "(cp \<times> cp list) list" where
  "upper_table_14 = [
    (0x515, [0x514]), (0x517, [0x516]), (0x519, [0x518]), (0x51B, [0x51A]),
    (0x51D, [0x51C]), (0x51F, [0x51E]), (0x521, [0x520]), (0x523, [0x522]),
    (0x525, [0x524]), (0x527, [0x526]), (0x529, [0x528]), (0x52B, [0x52A]),
    (0x52D, [0x52C]), (0x52F, [0x52E]), (0x561, [0x531]), (0x562, [0x532]),
    (0x563, [0x533]), (0x564, [0x534]), (0x565, [0x535]), (0x566, [0x536]),
    (0x567, [0x537]), (0x568, [0x538]), (0x569, [0x539]), (0x56A, [0x53A]),
    (0x56B, [0x53B]), (0x56C, [0x53C]), (0x56D, [0x53D]), (0x56E, [0x53E]),
    (0x56F, [0x53F]), (0x570, [0x540]), (0x571, [0x541]), (0x572, [0x542])]"

definition upper_table_15 :: "(cp \<times> cp list) list" where
  "upper_table_15 = [
    (0x573, [0x543]), (0x574, [0x544]), (0x575, [0x545]), (0x576, [0x546]),
    (0x577, [0x547]), (0x578, [0x548]), (0x579, [0x549]), (0x57A, [0x54A]),
    (0x57B, [0x54B]), (0x57C, [0x54C]), (0x57D, [0x54D]), (0x57E, [0x54E]),
    (0x57F, [0x54F]), (0x580, [0x550]), (0x581, [0x551]), (0x582, [0x552]),
    (0x583, [0x553]), (0x584, [0x554]), (0x585, [0x555]), (0x586, [0x556]),
    (0x587, [0x535, 0x552]), (0x10D0, [0x1C90]), (0x10D1, [0x1C91]), (0x10D2, [0x1C92]),
    (0x10D3, [0x1C93]), (0x10D4, [0x1C94]), (0x10D5, [0x1C95]), (0x10D6, [0x1C96]),
    (0x10D7, [0x1C97]), (0x10D8, [0x1C98]), (0x10D9, [0x1C99]), (0x10DA, [0x1C9A])]"

definition upper_table_16 :: "(cp \<times> cp list) list" where
  "upper_table_16 = [
    (0x10DB, [0x1C9B]), (0x10DC, [0x1C9C]), (0x10DD, [0x1C9D]), (0x10DE, [0x1C9E]),
    (0x10DF, [0x1C9F]), (0x10E0, [0x1CA0]), (0x10E1, [0x1CA1]), (0x10E2, [0x1CA2]),
    (0x10E3, [0x1CA3]), (0x10E4, [0x1CA4]), (0x10E5, [0x1CA5]), (0x10E6, [0x1CA6]),
    (0x10E7, [0x1CA7]), (0x10E8, [0x1CA8]), (0x10E9, [0x1CA9]), (0x10EA, [0x1CAA]),
    (0x10EB, [0x1CAB]), (0x10EC, [0x1CAC]), (0x10ED, [0x1CAD]), (0x10EE, [0x1CAE]),
    (0x10EF, [0x1CAF]), (0x10F0, [0x1CB0]), (0x10F1, [0x1CB1]), (0x10F2, [0x1CB2]),
    (0x10F3, [0x1CB3]), (0x10F4, [0x1CB4]), (0x10F5, [0x1CB5]), (0x10F6, [0x1CB6]),
    (0x10F7, [0x1CB7]), (0x10F8, [0x1CB8]), (0x10F9, [0x1CB9]), (0x10FA, [0x1CBA])]"

definition upper_table_17 :: "(cp \<times> cp list) list" where
  "upper_table_17 = [
    (0x10FD, [0x1CBD]), (0x10FE, [0x1CBE]), (0x10FF, [0x1CBF]), (0x13F8, [0x13F0]),
    (0x13F9, [0x13F1]), (0x13FA, [0x13F2]), (0x13FB, [0x13F3]), (0x13FC, [0x13F4]),
    (0x13FD, [0x13F5]), (0x1C80, [0x412]), (0x1C81, [0x414]), (0x1C82, [0x41E]),
    (0x1C83, [0x421]), (0x1C84, [0x422]), (0x1C85, [0x422]), (0x1C86, [0x42A]),
    (0x1C87, [0x462]), (0x1C88, [0xA64A]), (0x1D79, [0xA77D]), (0x1D7D, [0x2C63]),
    (0x1D8E, [0xA7C6]), (0x1E01, [0x1E00]), (0x1E03, [0x1E02]), (0x1E05, [0x1E04]),
    (0x1E07, [0x1E06]), (0x1E09, [0x1E08]), (0x1E0B, [0x1E0A]), (0x1E0D, [0x1E0C]),
    (0x1E0F, [0x1E0E]), (0x1E11, [0x1E10]), (0x1E13, [0x1E12]), (0x1E15, [0x1E14])]"

definition upper_table_18 :: "(cp \<times> cp list) list" where
  "upper_table_18 = [
    (0x1E17, [0x1E16]), (0x1E19, [0x1E18]), (0x1E1B, [0x1E1A]), (0x1E1D, [0x1E1C]),
    (0x1E1F, [0x1E1E]), (0x1E21, [0x1E20]), (0x1E23, [0x1E22]), (0x1E25, [0x1E24]),
    (0x1E27, [0x1E26]), (0x1E29, [0x1E28]), (0x1E2B, [0x1E2A]), (0x1E2D, [0x1E2C]),
    (0x1E2F, [0x1E2E]), (0x1E31, [0x1E30]), (0x1E33, [0x1E32]), (0x1E35, [0x1E34]),
    (0x1E37, [0x1E36]), (0x1E39, [0x1E38]), (0x1E3B, [0x1E3A]), (0x1E3D, [0x1E3C]),
    (0x1E3F, [0x1E3E]), (0x1E41, [0x1E40]), (0x1E43, [0x1E42]), (0x1E45, [0x1E44]),
    (0x1E47, [0x1E46]), (0x1E49, [0x1E48]), (0x1E4B, [0x1E4A]), (0x1E4D, [0x1E4C]),
    (0x1E4F, [0x1E4E]), (0x1E51, [0x1E50]), (0x1E53, [0x1E52]), (0x1E55, [0x1E54])]"

definition upper_table_19 :: "(cp \<times> cp list) list" where
  "upper_table_19 = [
    (0x1E57, [0x1E56]), (0x1E59, [0x1E58]), (0x1E5B, [0x1E5A]), (0x1E5D, [0x1E5C]),
    (0x1E5F, [0x1E5E]), (0x1E61, [0x1E60]), (0x1E63, [0x1E62]), (0x1E65, [0x1E64]),
    (0x1E67, [0x1E66]), (0x1E69, [0x1E68]), (0x1E6B, [0x1E6A]), (0x1E6D, [0x1E6C]),
    (0x1E6F, [0x1E6E]), (0x1E71, [0x1E70]), (0x1E73, [0x1E72]), (0x1E75, [0x1E74]),
    (0x1E77, [0x1E76]), (0x1E79, [0x1E78]), (0x1E7B, [0x1E7A]), (0x1E7D, [0x1E7C]),
    (0x1E7F, [0x1E7E]), (0x1E81, [0x1E80]), (0x1E83, [0x1E82]), (0x1E85, [0x1E84]),
    (0x1E87, [0x1E86]), (0x1E89, [0x1E88]), (0x1E8B, [0x1E8A]), (0x1E8D, [0x1E8C]),
    (0x1E8F, [0x1E8E]), (0x1E91, [0x1E90]), (0x1E93, [0x1E92]), (0x1E95, [0x1E94])]"

definition upper_table_20 :: "(cp \<times> cp list) list" where
  "upper_table_20 = [
    (0x1E96, [0x48, 0x331]), (0x1E97, [0x54, 0x308]), (0x1E98, [0x57, 0x30A]), (0x1E99, [0x59, 0x30A]),
    (0x1E9A, [0x41, 0x2BE]), (0x1E9B, [0x1E60]), (0x1EA1, [0x1EA0]), (0x1EA3, [0x1EA2]),
    (0x1EA5, [0x1EA4]), (0x1EA7, [0x1EA6]), (0x1EA9, [0x1EA8]), (0x1EAB, [0x1EAA]),
    (0x1EAD, [0x1EAC]), (0x1EAF, [0x1EAE]), (0x1EB1, [0x1EB0]), (0x1EB3, [0x1EB2]),
    (0x1EB5, [0x1EB4]), (0x1EB7, [0x1EB6]), (0x1EB9, [0x1EB8]), (0x1EBB, [0x1EBA]),
    (0x1EBD, [0x1EBC]), (0x1EBF, [0x1EBE]), (0x1EC1, [0x1EC0]), (0x1EC3, [0x1EC2]),
    (0x1EC5, [0x1EC4]), (0x1EC7, [0x1EC6]), (0x1EC9, [0x1EC8]), (0x1ECB, [0x1ECA]),
    (0x1ECD, [0x1ECC]), (0x1ECF, [0x1ECE]), (0x1ED1, [0x1ED0]), (0x1ED3, [0x1ED2])]"

definition upper_table_21 :: "(cp \<times> cp list) list" where
  "upper_table_21 = [
    (0x1ED5, [0x1ED4]), (0x1ED7, [0x1ED6]), (0x1ED9, [0x1ED8]), (0x1EDB, [0x1EDA]),
    (0x1EDD, [0x1EDC]), (0x1EDF, [0x1EDE]), (0x1EE1, [0x1EE0]), (0x1EE3, [0x1EE2]),
    (0x1EE5, [0x1EE4]), (0x1EE7, [0x1EE6]), (0x1EE9, [0x1EE8]), (0x1EEB, [0x1EEA]),
    (0x1EED, [0x1EEC]), (0x1EEF, [0x1EEE]), (0x1EF1, [0x1EF0]), (0x1EF3, [0x1EF2]),
    (0x1EF5, [0x1EF4]), (0x1EF7, [0x1EF6]), (0x1EF9, [0x1EF8]), (0x1EFB, [0x1EFA]),
    (0x1EFD, [0x1EFC]), (0x1EFF, [0x1EFE]), (0x1F00, [0x1F08]), (0x1F01, [0x1F09]),
    (0x1F02, [0x1F0A]), (0x1F03, [0x1F0B]), (0x1F04, [0x1F0C]), (0x1F05, [0x1F0D]),
    (0x1F06, [0x1F0E]), (0x1F07, [0x1F0F]), (0x1F10, [0x1F18]), (0x1F11, [0x1F19])]"

definition upper_table_22 :: "(cp \<times> cp list) list" where
  "upper_table_22 = [
    (0x1F12, [0x1F1A]), (0x1F13, [0x1F1B]), (0x1F14, [0x1F1C]), (0x1F15, [0x1F1D]),
    (0x1F20, [0x1F28]), (0x1F21, [0x1F29]), (0x1F22, [0x1F2A]), (0x1F23, [0x1F2B]),
    (0x1F24, [0x1F2C]), (0x1F25, [0x1F2D]), (0x1F26, [0x1F2E]), (0x1F27, [0x1F2F]),
    (0x1F30, [0x1F38]), (0x1F31, [0x1F39]), (0x1F32, [0x1F3A]), (0x1F33, [0x1F3B]),
    (0x1F34, [0x1F3C]), (0x1F35, [0x1F3D]), (0x1F36, [0x1F3E]), (0x1F37, [0x1F3F]),
    (0x1F40, [0x1F48]), (0x1F41, [0x1F49]), (0x1F42, [0x1F4A]), (0x1F43, [0x1F4B]),
    (0x1F44, [0x1F4C]), (0x1F45, [0x1F4D]), (0x1F50, [0x3A5, 0x313]), (0x1F51, [0x1F59]),
    (0x1F52, [0x3A5, 0x313, 0x300]), (0x1F53, [0x1F5B]), (0x1F54, [0x3A5, 0x313, 0x301]), (0x1F55, [0x1F5D])]"

definition upper_table_23 :: "(cp \<times> cp list) list" where
  "upper_table_23 = [
    (0x1F56, [0x3A5, 0x313, 0x342]), (0x1F57, [0x1F5F]), (0x1F60, [0x1F68]), (0x1F61, [0x1F69]),
    (0x1F62, [0x1F6A]), (0x1F63, [0x1F6B]), (0x1F64, [0x1F6C]), (0x1F65, [0x1F6D]),
    (0x1F66, [0x1F6E]), (0x1F67, [0x1F6F]), (0x1F70, [0x1FBA]), (0x1F71, [0x1FBB]),
    (0x1F72, [0x1FC8]), (0x1F73, [0x1FC9]), (0x1F74, [0x1FCA]), (0x1F75, [0x1FCB]),
    (0x1F76, [0x1FDA]), (0x1F77, [0x1FDB]), (0x1F78, [0x1FF8]), (0x1F79, [0x1FF9]),
    (0x1F7A, [0x1FEA]), (0x1F7B, [0x1FEB]), (0x1F7C, [0x1FFA]), (0x1F7D, [0x1FFB]),
    (0x1F80, [0x1F08, 0x399]), (0x1F81, [0x1F09, 0x399]), (0x1F82, [0x1F0A, 0x399]), (0x1F83, [0x1F0B, 0x399]),
    (0x1F84, [0x1F0C, 0x399]), (0x1F85, [0x1F0D, 0x399]), (0x1F86, [0x1F0E, 0x399]), (0x1F87, [0x1F0F, 0x399])]"

definition upper_table_24 :: "(cp \<times> cp list) list" where
  "upper_table_24 = [
    (0x1F88, [0x1F08, 0x399]), (0x1F89, [0x1F09, 0x399]), (0x1F8A, [0x1F0A, 0x399]), (0x1F8B, [0x1F0B, 0x399]),
    (0x1F8C, [0x1F0C, 0x399]), (0x1F8D, [0x1F0D, 0x399]), (0x1F8E, [0x1F0E, 0x399]), (0x1F8F, [0x1F0F, 0x399]),
    (0x1F90, [0x1F28, 0x399]), (0x1F91, [0x1F29, 0x399]), (0x1F92, [0x1F2A, 0x399]), (0x1F93, [0x1F2B, 0x399]),
    (0x1F94, [0x1F2C, 0x399]), (0x1F95, [0x1F2D, 0x399]), (0x1F96, [0x1F2E, 0x399]), (0x1F97, [0x1F2F, 0x399]),
    (0x1F98, [0x1F28, 0x399]), (0x1F99, [0x1F29, 0x399]), (0x1F9A, [0x1F2A, 0x399]), (0x1F9B, [0x1F2B, 0x399]),
    (0x1F9C, [0x1F2C, 0x399]), (0x1F9D, [0x1F2D, 0x399]), (0x1F9E, [0x1F2E, 0x399]), (0x1F9F, [0x1F2F, 0x399]),
    (0x1FA0, [0x1F68, 0x399]), (0x1FA1, [0x1F69, 0x399]), (0x1FA2, [0x1F6A, 0x399]), (0x1FA3, [0x1F6B, 0x399]),
    (0x1FA4, [0x1F6C, 0x399]), (0x1FA5, [0x1F6D, 0x399]), (0x1FA6, [0x1F6E, 0x399]), (0x1FA7, [0x1F6F, 0x399])]"

definition upper_table_25 :: "(cp \<times> cp list) list" where
  "upper_table_25 = [
    (0x1FA8, [0x1F68, 0x399]), (0x1FA9, [0x1F69, 0x399]), (0x1FAA, [0x1F6A, 0x399]), (0x1FAB, [0x1F6B, 0x399]),
    (0x1FAC, [0x1F6C, 0x399]), (0x1FAD, [0x1F6D, 0x399]), (0x1FAE, [0x1F6E, 0x399]), (0x1FAF, [0x1F6F, 0x399]),
    (0x1FB0, [0x1FB8]), (0x1FB1, [0x1FB9]), (0x1FB2, [0x1FBA, 0x399]), (0x1FB3, [0x391, 0x399]),
    (0x1FB4, [0x386, 0x399]), (0x1FB6, [0x391, 0x342]), (0x1FB7, [0x391, 0x342, 0x399]), (0x1FBC, [0x391, 0x399]),
    (0x1FBE, [0x399]), (0x1FC2, [0x1FCA, 0x399]), (0x1FC3, [0x397, 0x399]), (0x1FC4, [0x389, 0x399]),
    (0x1FC6, [0x397, 0x342]), (0x1FC7, [0x397, 0x342, 0x399]), (0x1FCC, [0x397, 0x399]), (0x1FD0, [0x1FD8]),
    (0x1FD1, [0x1FD9]), (0x1FD2, [0x399, 0x308, 0x300]), (0x1FD3, [0x399, 0x308, 0x301]), (0x1FD6, [0x399, 0x342]),
    (0x1FD7, [0x399, 0x308, 0x342]), (0x1FE0, [0x1FE8]), (0x1FE1, [0x1FE9]), (0x1FE2, [0x3A5, 0x308, 0x300])]"

definition upper_table_26 :: "(cp \<times> cp list) list" where
  "upper_table_26 = [
    (0x1FE3, [0x3A5, 0x308, 0x301]), (0x1FE4, [0x3A1, 0x313]), (0x1FE5, [0x1FEC]), (0x1FE6, [0x3A5, 0x342]),
    (0x1FE7, [0x3A5, 0x308, 0x342]), (0x1FF2, [0x1FFA, 0x399]), (0x1FF3, [0x3A9, 0x399]), (0x1FF4, [0x38F, 0x399]),
    (0x1FF6, [0x3A9, 0x342]), (0x1FF7, [0x3A9, 0x342, 0x399]), (0x1FFC, [0x3A9, 0x399]), (0x214E, [0x2132]),
    (0x2170, [0x2160]), (0x2171, [0x2161]), (0x2172, [0x2162]), (0x2173, [0x2163]),
    (0x2174, [0x2164]), (0x2175, [0x2165]), (0x2176, [0x2166]), (0x2177, [0x2167]),
    (0x2178, [0x2168]), (0x2179, [0x2169]), (0x217A, [0x216A]), (0x217B, [0x216B]),
    (0x217C, [0x216C]), (0x217D, [0x216D]), (0x217E, [0x216E]), (0x217F, [0x216F]),
    (0x2184, [0x2183]), (0x24D0, [0x24B6]), (0x24D1, [0x24B7]), (0x24D2, [0x24B8])]"

definition upper_table_27 :: "(cp \<times> cp list) list" where
  "upper_table_27 = [
    (0x24D3, [0x24B9]), (0x24D4, [0x24BA]), (0x24D5, [0x24BB]), (0x24D6, [0x24BC]),
    (0x24D7, [0x24BD]), (0x24D8, [0x24BE]), (0x24D9, [0x24BF]), (0x24DA, [0x24C0]),
    (0x24DB, [0x24C1]), (0x24DC, [0x24C2]), (0x24DD, [0x24C3]), (0x24DE, [0x24C4]),
    (0x24DF, [0x24C5]), (0x24E0, [0x24C6]), (0x24E1, [0x24C7]), (0x24E2, [0x24C8]),
    (0x24E3, [0x24C9]), (0x24E4, [0x24CA]), (0x24E5, [0x24CB]), (0x24E6, [0x24CC]),
    (0x24E7, [0x24CD]), (0x24E8, [0x24CE]), (0x24E9, [0x24CF]), (0x2C30, [0x2C00]),
    (0x2C31, [0x2C01]), (0x2C32, [0x2C02]), (0x2C33, [0x2C03]), (0x2C34, [0x2C04]),
    (0x2C35, [0x2C05]), (0x2C36, [0x2C06]), (0x2C37, [0x2C07]), (0x2C38, [0x2C08])]"

definition upper_table_28 :: "(cp \<times> cp list) list" where
  "upper_table_28 = [
    (0x2C39, [0x2C09]), (0x2C3A, [0x2C0A]), (0x2C3B, [0x2C0B]), (0x2C3C, [0x2C0C]),
    (0x2C3D, [0x2C0D]), (0x2C3E, [0x2C0E]), (0x2C3F, [0x2C0F]), (0x2C40, [0x2C10]),
    (0x2C41, [0x2C11]), (0x2C42, [0x2C12]), (0x2C43, [0x2C13]), (0x2C44, [0x2C14]),
    (0x2C45, [0x2C15]), (0x2C46, [0x2C16]), (0x2C47, [0x2C17]), (0x2C48, [0x2C18]),
    (0x2C49, [0x2C19]), (0x2C4A, [0x2C1A]), (0x2C4B, [0x2C1B]), (0x2C4C, [0x2C1C]),
    (0x2C4D, [0x2C1D]), (0x2C4E, [0x2C1E]), (0x2C4F, [0x2C1F]), (0x2C50, [0x2C20]),
    (0x2C51, [0x2C21]), (0x2C52, [0x2C22]), (0x2C53, [0x2C23]), (0x2C54, [0x2C24]),
    (0x2C55, [0x2C25]), (0x2C56, [0x2C26]), (0x2C57, [0x2C27]), (0x2C58, [0x2C28])]"

definition upper_table_29 :: "(cp \<times> cp list) list" where
  "upper_table_29 = [
    (0x2C59, [0x2C29]), (0x2C5A, [0x2C2A]), (0x2C5B, [0x2C2B]), (0x2C5C, [0x2C2C]),
    (0x2C5D, [0x2C2D]), (0x2C5E, [0x2C2E]), (0x2C5F, [0x2C2F]), (0x2C61, [0x2C60]),
    (0x2C65, [0x23A]), (0x2C66, [0x23E]), (0x2C68, [0x2C67]), (0x2C6A, [0x2C69]),
    (0x2C6C, [0x2C6B]), (0x2C73, [0x2C72]), (0x2C76, [0x2C75]), (0x2C81, [0x2C80]),
    (0x2C83, [0x2C82]), (0x2C85, [0x2C84]), (0x2C87, [0x2C86]), (0x2C89, [0x2C88]),
    (0x2C8B, [0x2C8A]), (0x2C8D, [0x2C8C]), (0x2C8F, [0x2C8E]), (0x2C91, [0x2C90]),
    (0x2C93, [0x2C92]), (0x2C95, [0x2C94]), (0x2C97, [0x2C96]), (0x2C99, [0x2C98]),
    (0x2C9B, [0x2C9A]), (0x2C9D, [0x2C9C]), (0x2C9F, [0x2C9E]), (0x2CA1, [0x2CA0])]"

definition upper_table_30 :: "(cp \<times> cp list) list" where
  "upper_table_30 = [
    (0x2CA3, [0x2CA2]), (0x2CA5, [0x2CA4]), (0x2CA7, [0x2CA6]), (0x2CA9, [0x2CA8]),
    (0x2CAB, [0x2CAA]), (0x2CAD, [0x2CAC]), (0x2CAF, [0x2CAE]), (0x2CB1, [0x2CB0]),
    (0x2CB3, [0x2CB2]), (0x2CB5, [0x2CB4]), (0x2CB7, [0x2CB6]), (0x2CB9, [0x2CB8]),
    (0x2CBB, [0x2CBA]), (0x2CBD, [0x2CBC]), (0x2CBF, [0x2CBE]), (0x2CC1, [0x2CC0]),
    (0x2CC3, [0x2CC2]), (0x2CC5, [0x2CC4]), (0x2CC7, [0x2CC6]), (0x2CC9, [0x2CC8]),
    (0x2CCB, [0x2CCA]), (0x2CCD, [0x2CCC]), (0x2CCF, [0x2CCE]), (0x2CD1, [0x2CD0]),
    (0x2CD3, [0x2CD2]), (0x2CD5, [0x2CD4]), (0x2CD7, [0x2CD6]), (0x2CD9, [0x2CD8]),
    (0x2CDB, [0x2CDA]), (0x2CDD, [0x2CDC]), (0x2CDF, [0x2CDE]), (0x2CE1, [0x2CE0])]"

definition upper_table_31 :: "(cp \<times> cp list) list" where
  "upper_table_31 = [
    (0x2CE3, [0x2CE2]), (0x2CEC, [0x2CEB]), (0x2CEE, [0x2CED]), (0x2CF3, [0x2CF2]),
    (0x2D00, [0x10A0]), (0x2D01, [0x10A1]), (0x2D02, [0x10A2]), (0x2D03, [0x10A3]),
    (0x2D04, [0x10A4]), (0x2D05, [0x10A5]), (0x2D06, [0x10A6]), (0x2D07, [0x10A7]),
    (0x2D08, [0x10A8]), (0x2D09, [0x10A9]), (0x2D0A, [0x10AA]), (0x2D0B, [0x10AB]),
    (0x2D0C, [0x10AC]), (0x2D0D, [0x10AD]), (0x2D0E, [0x10AE]), (0x2D0F, [0x10AF]),
    (0x2D10, [0x10B0]), (0x2D11, [0x10B1]), (0x2D12, [0x10B2]), (0x2D13, [0x10B3]),
    (0x2D14, [0x10B4]), (0x2D15, [0x10B5]), (0x2D16, [0x10B6]), (0x2D17, [0x10B7]),
    (0x2D18, [0x10B8]), (0x2D19, [0x10B9]), (0x2D1A, [0x10BA]), (0x2D1B, [0x10BB])]"

definition upper_table_32 :: "(cp \<times> cp list) list" where
  "upper_table_32 = [
    (0x2D1C, [0x10BC]), (0x2D1D, [0x10BD]), (0x2D1E, [0x10BE]), (0x2D1F, [0x10BF]),
    (0x2D20, [0x10C0]), (0x2D21, [0x10C1]), (0x2D22, [0x10C2]), (0x2D23, [0x10C3]),
    (0x2D24, [0x10C4]), (0x2D25, [0x10C5]), (0x2D27, [0x10C7]), (0x2D2D, [0x10CD]),
    (0xA641, [0xA640]), (0xA643, [0xA642]), (0xA645, [0xA644]), (0xA647, [0xA646]),
    (0xA649, [0xA648]), (0xA64B, [0xA64A]), (0xA64D, [0xA64C]), (0xA64F, [0xA64E]),
    (0xA651, [0xA650]), (0xA653, [0xA652]), (0xA655, [0xA654]), (0xA657, [0xA656]),
    (0xA659, [0xA658]), (0xA65B, [0xA65A]), (0xA65D, [0xA65C]), (0xA65F, [0xA65E]),
    (0xA661, [0xA660]), (0xA663, [0xA662]), (0xA665, [0xA664]), (0xA667, [0xA666])]"

definition upper_table_33 :: "(cp \<times> cp list) list" where
  "upper_table_33 = [
    (0xA669, [0xA668]), (0xA66B, [0xA66A]), (0xA66D, [0xA66C]), (0xA681, [0xA680]),
    (0xA683, [0xA682]), (0xA685, [0xA684]), (0xA687, [0xA686]), (0xA689, [0xA688]),
    (0xA68B, [0xA68A]), (0xA68D, [0xA68C]), (0xA68F, [0xA68E]), (0xA691, [0xA690]),
    (0xA693, [0xA692]), (0xA695, [0xA694]), (0xA697, [0xA696]), (0xA699, [0xA698]),
    (0xA69B, [0xA69A]), (0xA723, [0xA722]), (0xA725, [0xA724]), (0xA727, [0xA726]),
    (0xA729, [0xA728]), (0xA72B, [0xA72A]), (0xA72D, [0xA72C]), (0xA72F, [0xA72E]),
    (0xA733, [0xA732]), (0xA735, [0xA734]), (0xA737, [0xA736]), (0xA739, [0xA738]),
    (0xA73B, [0xA73A]), (0xA73D, [0xA73C]), (0xA73F, [0xA73E]), (0xA741, [0xA740])]"

definition upper_table_34 :: "(cp \<times> cp list) list" where
  "upper_table_34 = [
    (0xA743, [0xA742]), (0xA745, [0xA744]), (0xA747, [0xA746]), (0xA749, [0xA748]),
    (0xA74B, [0xA74A]), (0xA74D, [0xA74C]), (0xA74F, [0xA74E]), (0xA751, [0xA750]),
    (0xA753, [0xA752]), (0xA755, [0xA754]), (0xA757, [0xA756]), (0xA759, [0xA758]),
    (0xA75B, [0xA75A]), (0xA75D, [0xA75C]), (0xA75F, [0xA75E]), (0xA761, [0xA760]),
    (0xA763, [0xA762]), (0xA765, [0xA764]), (0xA767, [0xA766]), (0xA769, [0xA768]),
    (0xA76B, [0xA76A]), (0xA76D, [0xA76C]), (0xA76F, [0xA76E]), (0xA77A, [0xA779]),
    (0xA77C, [0xA77B]), (0xA77F, [0xA77E]), (0xA781, [0xA780]), (0xA783, [0xA782]),
    (0xA785, [0xA784]), (0xA787, [0xA786]), (0xA78C, [0xA78B]), (0xA791, [0xA790])]"

definition upper_table_35 :: "(cp \<times> cp list) list" where
  "upper_table_35 = [
    (0xA793, [0xA792]), (0xA794, [0xA7C4]), (0xA797, [0xA796]), (0xA799, [0xA798]),
    (0xA79B, [0xA79A]), (0xA79D, [0xA79C]), (0xA79F, [0xA79E]), (0xA7A1, [0xA7A0]),
    (0xA7A3, [0xA7A2]), (0xA7A5, [0xA7A4]), (0xA7A7, [0xA7A6]), (0xA7A9, [0xA7A8]),
    (0xA7B5, [0xA7B4]), (0xA7B7, [0xA7B6]), (0xA7B9, [0xA7B8]), (0xA7BB, [0xA7BA]),
    (0xA7BD, [0xA7BC]), (0xA7BF, [0xA7BE]), (0xA7C1, [0xA7C0]), (0xA7C3, [0xA7C2]),
    (0xA7C8, [0xA7C7]), (0xA7CA, [0xA7C9]), (0xA7D1, [0xA7D0]), (0xA7D7, [0xA7D6]),
    (0xA7D9, [0xA7D8]), (0xA7F6, [0xA7F5]), (0xAB53, [0xA7B3]), (0xAB70, [0x13A0]),
    (0xAB71, [0x13A1]), (0xAB72, [0x13A2]), (0xAB73, [0x13A3]), (0xAB74, [0x13A4])]"

definition upper_table_36 :: "(cp \<times> cp list) list" where
  "upper_table_36 = [
    (0xAB75, [0x13A5]), (0xAB76, [0x13A6]), (0xAB77, [0x13A7]), (0xAB78, [0x13A8]),
    (0xAB79, [0x13A9]), (0xAB7A, [0x13AA]), (0xAB7B, [0x13AB]), (0xAB7C, [0x13AC]),
    (0xAB7D, [0x13AD]), (0xAB7E, [0x13AE]), (0xAB7F, [0x13AF]), (0xAB80, [0x13B0]),
    (0xAB81, [0x13B1]), (0xAB82, [0x13B2]), (0xAB83, [0x13B3]), (0xAB84, [0x13B4]),
    (0xAB85, [0x13B5]), (0xAB86, [0x13B6]), (0xAB87, [0x13B7]), (0xAB88, [0x13B8]),
    (0xAB89, [0x13B9]), (0xAB8A, [0x13BA]), (0xAB8B, [0x13BB]), (0xAB8C, [0x13BC]),
    (0xAB8D, [0x13BD]), (0xAB8E, [0x13BE]), (0xAB8F, [0x13BF]), (0xAB90, [0x13C0]),
    (0xAB91, [0x13C1]), (0xAB92, [0x13C2]), (0xAB93, [0x13C3]), (0xAB94, [0x13C4])]"

definition upper_table_37 :: "(cp \<times> cp list) list" where
  "upper_table_37 = [
    (0xAB95, [0x13C5]), (0xAB96, [0x13C6]), (0xAB97, [0x13C7]), (0xAB98, [0x13C8]),
    (0xAB99, [0x13C9]), (0xAB9A, [0x13CA]), (0xAB9B, [0x13CB]), (0xAB9C, [0x13CC]),
    (0xAB9D, [0x13CD]), (0xAB9E, [0x13CE]), (0xAB9F, [0x13CF]), (0xABA0, [0x13D0]),
    (0xABA1, [0x13D1]), (0xABA2, [0x13D2]), (0xABA3, [0x13D3]), (0xABA4, [0x13D4]),
    (0xABA5, [0x13D5]), (0xABA6, [0x13D6]), (0xABA7, [0x13D7]), (0xABA8, [0x13D8]),
    (0xABA9, [0x13D9]), (0xABAA, [0x13DA]), (0xABAB, [0x13DB]), (0xABAC, [0x13DC]),
    (0xABAD, [0x13DD]), (0xABAE, [0x13DE]), (0xABAF, [0x13DF]), (0xABB0, [0x13E0]),
    (0xABB1, [0x13E1]), (0xABB2, [0x13E2]), (0xABB3, [0x13E3]), (0xABB4, [0x13E4])]"

definition upper_table_38 :: "(cp \<times> cp list) list" where
  "upper_table_38 = [
    (0xABB5, [0x13E5]), (0xABB6, [0x13E6]), (0xABB7, [0x13E7]), (0xABB8, [0x13E8]),
    (0xABB9, [0x13E9]), (0xABBA, [0x13EA]), (0xABBB, [0x13EB]), (0xABBC, [0x13EC]),
    (0xABBD, [0x13ED]), (0xABBE, [0x13EE]), (0xABBF, [0x13EF]), (0xFB00, [0x46, 0x46]),
    (0xFB01, [0x46, 0x49]), (0xFB02, [0x46, 0x4C]), (0xFB03, [0x46, 0x46, 0x49]), (0xFB04, [0x46, 0x46, 0x4C]),
    (0xFB05, [0x53, 0x54]), (0xFB06, [0x53, 0x54]), (0xFB13, [0x544, 0x546]), (0xFB14, [0x544, 0x535]),
    (0xFB15, [0x544, 0x53B]), (0xFB16, [0x54E, 0x546]), (0xFB17, [0x544, 0x53D]), (0xFF41, [0xFF21]),
    (0xFF42, [0xFF22]), (0xFF43, [0xFF23]), (0xFF44, [0xFF24]), (0xFF45, [0xFF25]),
    (0xFF46, [0xFF26]), (0xFF47, [0xFF27]), (0xFF48, [0xFF28]), (0xFF49, [0xFF29])]"

definition upper_table_39 :: "(cp \<times> cp list) list" where
  "upper_table_39 = [
    (0xFF4A, [0xFF2A]), (0xFF4B, [0xFF2B]), (0xFF4C, [0xFF2C]), (0xFF4D, [0xFF2D]),
    (0xFF4E, [0xFF2E]), (0xFF4F, [0xFF2F]), (0xFF50, [0xFF30]), (0xFF51, [0xFF31]),
    (0xFF52, [0xFF32]), (0xFF53, [0xFF33]), (0xFF54, [0xFF34]), (0xFF55, [0xFF35]),
    (0xFF56, [0xFF36]), (0xFF57, [0xFF37]), (0xFF58, [0xFF38]), (0xFF59, [0xFF39]),
    (0xFF5A, [0xFF3A]), (0x10428, [0x10400]), (0x10429, [0x10401]), (0x1042A, [0x10402]),
    (0x1042B, [0x10403]), (0x1042C, [0x10404]), (0x1042D, [0x10405]), (0x1042E, [0x10406]),
    (0x1042F, [0x10407]), (0x10430, [0x10408]), (0x10431, [0x10409]), (0x10432, [0x1040A]),
    (0x10433, [0x1040B]), (0x10434, [0x1040C]), (0x10435, [0x1040D]), (0x10436, [0x1040E])]"

definition upper_table_40 :: "(cp \<times> cp list) list" where
  "upper_table_40 = [
    (0x10437, [0x1040F]), (0x10438, [0x10410]), (0x10439, [0x10411]), (0x1043A, [0x10412]),
    (0x1043B, [0x10413]), (0x1043C, [0x10414]), (0x1043D, [0x10415]), (0x1043E, [0x10416]),
    (0x1043F, [0x10417]), (0x10440, [0x10418]), (0x10441, [0x10419]), (0x10442, [0x1041A]),
    (0x10443, [0x1041B]), (0x10444, [0x1041C]), (0x10445, [0x1041D]), (0x10446, [0x1041E]),
    (0x10447, [0x1041F]), (0x10448, [0x10420]), (0x10449, [0x10421]), (0x1044A, [0x10422]),
    (0x1044B, [0x10423]), (0x1044C, [0x10424]), (0x1044D, [0x10425]), (0x1044E, [0x10426]),
    (0x1044F, [0x10427]), (0x104D8, [0x104B0]), (0x104D9, [0x104B1]), (0x104DA, [0x104B2]),
    (0x104DB, [0x104B3]), (0x104DC, [0x104B4]), (0x104DD, [0x104B5]), (0x104DE, [0x104B6])]"

definition upper_table_41 :: "(cp \<times> cp list) list" where
  "upper_table_41 = [
    (0x104DF, [0x104B7]), (0x104E0, [0x104B8]), (0x104E1, [0x104B9]), (0x104E2, [0x104BA]),
    (0x104E3, [0x104BB]), (0x104E4, [0x104BC]), (0x104E5, [0x104BD]), (0x104E6, [0x104BE]),
    (0x104E7, [0x104BF]), (0x104E8, [0x104C0]), (0x104E9, [0x104C1]), (0x104EA, [0x104C2]),
    (0x104EB, [0x104C3]), (0x104EC, [0x104C4]), (0x104ED, [0x104C5]), (0x104EE, [0x104C6]),
    (0x104EF, [0x104C7]), (0x104F0, [0x104C8]), (0x104F1, [0x104C9]), (0x104F2, [0x104CA]),
    (0x104F3, [0x104CB]), (0x104F4, [0x104CC]), (0x104F5, [0x104CD]), (0x104F6, [0x104CE]),
    (0x104F7, [0x104CF]), (0x104F8, [0x104D0]), (0x104F9, [0x104D1]), (0x104FA, [0x104D2]),
    (0x104FB, [0x104D3]), (0x10597, [0x10570]), (0x10598, [0x10571]), (0x10599, [0x10572])]"

definition upper_table_42 :: "(cp \<times> cp list) list" where
  "upper_table_42 = [
    (0x1059A, [0x10573]), (0x1059B, [0x10574]), (0x1059C, [0x10575]), (0x1059D, [0x10576]),
    (0x1059E, [0x10577]), (0x1059F, [0x10578]), (0x105A0, [0x10579]), (0x105A1, [0x1057A]),
    (0x105A3, [0x1057C]), (0x105A4, [0x1057D]), (0x105A5, [0x1057E]), (0x105A6, [0x1057F]),
    (0x105A7, [0x10580]), (0x105A8, [0x10581]), (0x105A9, [0x10582]), (0x105AA, [0x10583]),
    (0x105AB, [0x10584]), (0x105AC, [0x10585]), (0x105AD, [0x10586]), (0x105AE, [0x10587]),
    (0x105AF, [0x10588]), (0x105B0, [0x10589]), (0x105B1, [0x1058A]), (0x105B3, [0x1058C]),
    (0x105B4, [0x1058D]), (0x105B5, [0x1058E]), (0x105B6, [0x1058F]), (0x105B7, [0x10590]),
    (0x105B8, [0x10591]), (0x105B9, [0x10592]), (0x105BB, [0x10594]), (0x105BC, [0x10595])]"

definition upper_table_43 :: "(cp \<times> cp list) list" where
  "upper_table_43 = [
    (0x10CC0, [0x10C80]), (0x10CC1, [0x10C81]), (0x10CC2, [0x10C82]), (0x10CC3, [0x10C83]),
    (0x10CC4, [0x10C84]), (0x10CC5, [0x10C85]), (0x10CC6, [0x10C86]), (0x10CC7, [0x10C87]),
    (0x10CC8, [0x10C88]), (0x10CC9, [0x10C89]), (0x10CCA, [0x10C8A]), (0x10CCB, [0x10C8B]),
    (0x10CCC, [0x10C8C]), (0x10CCD, [0x10C8D]), (0x10CCE, [0x10C8E]), (0x10CCF, [0x10C8F]),
    (0x10CD0, [0x10C90]), (0x10CD1, [0x10C91]), (0x10CD2, [0x10C92]), (0x10CD3, [0x10C93]),
    (0x10CD4, [0x10C94]), (0x10CD5, [0x10C95]), (0x10CD6, [0x10C96]), (0x10CD7, [0x10C97]),
    (0x10CD8, [0x10C98]), (0x10CD9, [0x10C99]), (0x10CDA, [0x10C9A]), (0x10CDB, [0x10C9B]),
    (0x10CDC, [0x10C9C]), (0x10CDD, [0x10C9D]), (0x10CDE, [0x10C9E]), (0x10CDF, [0x10C9F])]"

definition upper_table_44 :: "(cp \<times> cp list) list" where
  "upper_table_44 = [
    (0x10CE0, [0x10CA0]), (0x10CE1, [0x10CA1]), (0x10CE2, [0x10CA2]), (0x10CE3, [0x10CA3]),
    (0x10CE4, [0x10CA4]), (0x10CE5, [0x10CA5]), (0x10CE6, [0x10CA6]), (0x10CE7, [0x10CA7]),
    (0x10CE8, [0x10CA8]), (0x10CE9, [0x10CA9]), (0x10CEA, [0x10CAA]), (0x10CEB, [0x10CAB]),
    (0x10CEC, [0x10CAC]), (0x10CED, [0x10CAD]), (0x10CEE, [0x10CAE]), (0x10CEF, [0x10CAF]),
    (0x10CF0, [0x10CB0]), (0x10CF1, [0x10CB1]), (0x10CF2, [0x10CB2]), (0x118C0, [0x118A0]),
    (0x118C1, [0x118A1]), (0x118C2, [0x118A2]), (0x118C3, [0x118A3]), (0x118C4, [0x118A4]),
    (0x118C5, [0x118A5]), (0x118C6, [0x118A6]), (0x118C7, [0x118A7]), (0x118C8, [0x118A8]),
    (0x118C9, [0x118A9]), (0x118CA, [0x118AA]), (0x118CB, [0x118AB]), (0x118CC, [0x118AC])]"

definition upper_table_45 :: "(cp \<times> cp list) list" where
  "upper_table_45 = [
    (0x118CD, [0x118AD]), (0x118CE, [0x118AE]), (0x118CF, [0x118AF]), (0x118D0, [0x118B0]),
    (0x118D1, [0x118B1]), (0x118D2, [0x118B2]), (0x118D3, [0x118B3]), (0x118D4, [0x118B4]),
    (0x118D5, [0x118B5]), (0x118D6, [0x118B6]), (0x118D7, [0x118B7]), (0x118D8, [0x118B8]),
    (0x118D9, [0x118B9]), (0x118DA, [0x118BA]), (0x118DB, [0x118BB]), (0x118DC, [0x118BC]),
    (0x118DD, [0x118BD]), (0x118DE, [0x118BE]), (0x118DF, [0x118BF]), (0x16E60, [0x16E40]),
    (0x16E61, [0x16E41]), (0x16E62, [0x16E42]), (0x16E63, [0x16E43]), (0x16E64, [0x16E44]),
    (0x16E65, [0x16E45]), (0x16E66, [0x16E46]), (0x16E67, [0x16E47]), (0x16E68, [0x16E48]),
    (0x16E69, [0x16E49]), (0x16E6A, [0x16E4A]), (0x16E6B, [0x16E4B]), (0x16E6C, [0x16E4C])]"

definition upper_table_46 :: "(cp \<times> cp list) list" where
  "upper_table_46 = [
    (0x16E6D, [0x16E4D]), (0x16E6E, [0x16E4E]), (0x16E6F, [0x16E4F]), (0x16E70, [0x16E50]),
    (0x16E71, [0x16E51]), (0x16E72, [0x16E52]), (0x16E73, [0x16E53]), (0x16E74, [0x16E54]),
    (0x16E75, [0x16E55]), (0x16E76, [0x16E56]), (0x16E77, [0x16E57]), (0x16E78, [0x16E58]),
    (0x16E79, [0x16E59]), (0x16E7A, [0x16E5A]), (0x16E7B, [0x16E5B]), (0x16E7C, [0x16E5C]),
    (0x16E7D, [0x16E5D]), (0x16E7E, [0x16E5E]), (0x16E7F, [0x16E5F]), (0x1E922, [0x1E900]),
    (0x1E923, [0x1E901]), (0x1E924, [0x1E902]), (0x1E925, [0x1E903]), (0x1E926, [0x1E904]),
    (0x1E927, [0x1E905]), (0x1E928, [0x1E906]), (0x1E929, [0x1E907]), (0x1E92A, [0x1E908]),
    (0x1E92B, [0x1E909]), (0x1E92C, [0x1E90A]), (0x1E92D, [0x1E90B]), (0x1E92E, [0x1E90C])]"

definition upper_table_47 :: "(cp \<times> cp list) list" where
  "upper_table_47 = [
    (0x1E92F, [0x1E90D]), (0x1E930, [0x1E90E]), (0x1E931, [0x1E90F]), (0x1E932, [0x1E910]),
    (0x1E933, [0x1E911]), (0x1E934, [0x1E912]), (0x1E935, [0x1E913]), (0x1E936, [0x1E914]),
    (0x1E937, [0x1E915]), (0x1E938, [0x1E916]), (0x1E939, [0x1E917]), (0x1E93A, [0x1E918]),
    (0x1E93B, [0x1E919]), (0x1E93C, [0x1E91A]), (0x1E93D, [0x1E91B]), (0x1E93E, [0x1E91C]),
    (0x1E93F, [0x1E91D]), (0x1E940, [0x1E91E]), (0x1E941, [0x1E91F]), (0x1E942, [0x1E920]),
    (0x1E943, [0x1E921])]"

definition upper_table :: "cp \<Rightarrow> (cp \<times> cp list) list" where
  "upper_table c =
     (if c \<le> 0xE3 then upper_table_0 else
      if c \<le> 0x109 then upper_table_1 else
      if c \<le> 0x149 then upper_table_2 else
      if c \<le> 0x18C then upper_table_3 else
      if c \<le> 0x1DF then upper_table_4 else
      if c \<le> 0x21F then upper_table_5 else
      if c \<le> 0x265 then upper_table_6 else
      if c \<le> 0x3AC then upper_table_7 else
      if c \<le> 0x3CC then upper_table_8 else
      if c \<le> 0x435 then upper_table_9 else
      if c \<le> 0x455 then upper_table_10 else
      if c \<le> 0x493 then upper_table_11 else
      if c \<le> 0x4D3 then upper_table_12 else
      if c \<le> 0x513 then upper_table_13 else
      if c \<le> 0x572 then upper_table_14 else
      if c \<le> 0x10DA then upper_table_15 else
      if c \<le> 0x10FA then upper_table_16 else
      if c \<le> 0x1E15 then upper_table_17 else
      if c \<le> 0x1E55 then upper_table_18 else
      if c \<le> 0x1E95 then upper_table_19 else
      if c \<le> 0x1ED3 then upper_table_20 else
      if c \<le> 0x1F11 then upper_table_21 else
      if c \<le> 0x1F55 then upper_table_22 else
      if c \<le> 0x1F87 then upper_table_23 else
      if c \<le> 0x1FA7 then upper_table_24 else
      if c \<le> 0x1FE2 then upper_table_25 else
      if c \<le> 0x24D2 then upper_table_26 else
      if c \<le> 0x2C38 then upper_table_27 else
      if c \<le> 0x2C58 then upper_table_28 else
      if c \<le> 0x2CA1 then upper_table_29 else
      if c \<le> 0x2CE1 then upper_table_30 else
      if c \<le> 0x2D1B then upper_table_31 else
      if c \<le> 0xA667 then upper_table_32 else
      if c \<le> 0xA741 then upper_table_33 else
      if c \<le> 0xA791 then upper_table_34 else
      if c \<le> 0xAB74 then upper_table_35 else
      if c \<le> 0xAB94 then upper_table_36 else
      if c \<le> 0xABB4 then upper_table_37 else
      if c \<le> 0xFF49 then upper_table_38 else
      if c \<le> 0x10436 then upper_table_39 else
      if c \<le> 0x104DE then upper_table_40 else
      if c \<le> 0x10599 then upper_table_41 else
      if c \<le> 0x105BC then upper_table_42 else
      if c \<le> 0x10CDF then upper_table_43 else
      if c \<le> 0x118CC then upper_table_44 else
      if c \<le> 0x16E6C then upper_table_45 else
      if c \<le> 0x1E92E then upper_table_46 else
      upper_table_47)"

subsection \<open>Full lowercase mappings\<close>

definition lower_table_0 :: "(cp \<times> cp list) list" where
  "lower_table_0 = [
    (0x41, [0x61]), (0x42, [0x62]), (0x43, [0x63]), (0x44, [0x64]),
    (0x45, [0x65]), (0x46, [0x66]), (0x47, [0x67]), (0x48, [0x68]),
    (0x49, [0x69]), (0x4A, [0x6A]), (0x4B, [0x6B]), (0x4C, [0x6C]),
    (0x4D, [0x6D]), (0x4E, [0x6E]), (0x4F, [0x6F]), (0x50, [0x70]),
    (0x51, [0x71]), (0x52, [0x72]), (0x53, [0x73]), (0x54, [0x74]),
    (0x55, [0x75]), (0x56, [0x76]), (0x57, [0x77]), (0x58, [0x78]),
    (0x59, [0x79]), (0x5A, [0x7A]), (0xC0, [0xE0]), (0xC1, [0xE1]),
    (0xC2, [0xE2]), (0xC3, [0xE3]), (0xC4, [0xE4]), (0xC5, [0xE5])]"

definition lower_table_1 :: "(cp \<times> cp list) list" where
  "lower_table_1 = [
    (0xC6, [0xE6]), (0xC7, [0xE7]), (0xC8, [0xE8]), (0xC9, [0xE9]),
    (0xCA, [0xEA]), (0xCB, [0xEB]), (0xCC, [0xEC]), (0xCD, [0xED]),
    (0xCE, [0xEE]), (0xCF, [0xEF]), (0xD0, [0xF0]), (0xD1, [0xF1]),
    (0xD2, [0xF2]), (0xD3, [0xF3]), (0xD4, [0xF4]), (0xD5, [0xF5]),
    (0xD6, [0xF6]), (0xD8, [0xF8]), (0xD9, [0xF9]), (0xDA, [0xFA]),
    (0xDB, [0xFB]), (0xDC, [0xFC]), (0xDD, [0xFD]), (0xDE, [0xFE]),
    (0x100, [0x101]), (0x102, [0x103]), (0x104, [0x105]), (0x106, [0x107]),
    (0x108, [0x109]), (0x10A, [0x10B]), (0x10C, [0x10D]), (0x10E, [0x10F])]"

definition lower_table_2 :: "(cp \<times> cp list) list" where
  "lower_table_2 = [
    (0x110, [0x111]), (0x112, [0x113]), (0x114, [0x115]), (0x116, [0x117]),
    (0x118, [0x119]), (0x11A, [0x11B]), (0x11C, [0x11D]), (0x11E, [0x11F]),
    (0x120, [0x121]), (0x122, [0x123]), (0x124, [0x125]), (0x126, [0x127]),
    (0x128, [0x129]), (0x12A, [0x12B]), (0x12C, [0x12D]), (0x12E, [0x12F]),
    (0x130, [0x69, 0x307]), (0x132, [0x133]), (0x134, [0x135]), (0x136, [0x137]),
    (0x139, [0x13A]), (0x13B, [0x13C]), (0x13D, [0x13E]), (0x13F, [0x140]),
    (0x141, [0x142]), (0x143, [0x144]), (0x145, [0x146]), (0x147, [0x148]),
    (0x14A, [0x14B]), (0x14C, [0x14D]), (0x14E, [0x14F]), (0x150, [0x151])]"

definition lower_table_3 :: "(cp \<times> cp list) list" where
  "lower_table_3 = [
    (0x152, [0x153]), (0x154, [0x155]), (0x156, [0x157]), (0x158, [0x159]),
    (0x15A, [0x15B]), (0x15C, [0x15D]), (0x15E, [0x15F]), (0x160, [0x161]),
    (0x162, [0x163]), (0x164, [0x165]), (0x166, [0x167]), (0x168, [0x169]),
    (0x16A, [0x16B]), (0x16C, [0x16D]), (0x16E, [0x16F]), (0x170, [0x171]),
    (0x172, [0x173]), (0x174, [0x175]), (0x176, [0x177]), (0x178, [0xFF]),
    (0x179, [0x17A]), (0x17B, [0x17C]), (0x17D, [0x17E]), (0x181, [0x253]),
    (0x182, [0x183]), (0x184, [0x185]), (0x186, [0x254]), (0x187, [0x188]),
    (0x189, [0x256]), (0x18A, [0x257]), (0x18B, [0x18C]), (0x18E, [0x1DD])]"

definition lower_table_4 :: "(cp \<times> cp list) list" where
  "lower_table_4 = [
    (0x18F, [0x259]), (0x190, [0x25B]), (0x191, [0x192]), (0x193, [0x260]),
    (0x194, [0x263]), (0x196, [0x269]), (0x197, [0x268]), (0x198, [0x199]),
    (0x19C, [0x26F]), (0x19D, [0x272]), (0x19F, [0x275]), (0x1A0, [0x1A1]),
    (0x1A2, [0x1A3]), (0x1A4, [0x1A5]), (0x1A6, [0x280]), (0x1A7, [0x1A8]),
    (0x1A9, [0x283]), (0x1AC, [0x1AD]), (0x1AE, [0x288]), (0x1AF, [0x1B0]),
    (0x1B1, [0x28A]), (0x1B2, [0x28B]), (0x1B3, [0x1B4]), (0x1B5, [0x1B6]),
    (0x1B7, [0x292]), (0x1B8, [0x1B9]), (0x1BC, [0x1BD]), (0x1C4, [0x1C6]),
    (0x1C5, [0x1C6]), (0x1C7, [0x1C9]), (0x1C8, [0x1C9]), (0x1CA, [0x1CC])]"

definition lower_table_5 :: "(cp \<times> cp list) list" where
  "lower_table_5 = [
    (0x1CB, [0x1CC]), (0x1CD, [0x1CE]), (0x1CF, [0x1D0]), (0x1D1, [0x1D2]),
    (0x1D3, [0x1D4]), (0x1D5, [0x1D6]), (0x1D7, [0x1D8]), (0x1D9, [0x1DA]),
    (0x1DB, [0x1DC]), (0x1DE, [0x1DF]), (0x1E0, [0x1E1]), (0x1E2, [0x1E3]),
    (0x1E4, [0x1E5]), (0x1E6, [0x1E7]), (0x1E8, [0x1E9]), (0x1EA, [0x1EB]),
    (0x1EC, [0x1ED]), (0x1EE, [0x1EF]), (0x1F1, [0x1F3]), (0x1F2, [0x1F3]),
    (0x1F4, [0x1F5]), (0x1F6, [0x195]), (0x1F7, [0x1BF]), (0x1F8, [0x1F9]),
    (0x1FA, [0x1FB]), (0x1FC, [0x1FD]), (0x1FE, [0x1FF]), (0x200, [0x201]),
    (0x202, [0x203]), (0x204, [0x205]), (0x206, [0x207]), (0x208, [0x209])]"

definition lower_table_6 :: "(cp \<times> cp list) list" where
  "lower_table_6 = [
    (0x20A, [0x20B]), (0x20C, [0x20D]), (0x20E, [0x20F]), (0x210, [0x211]),
    (0x212, [0x213]), (0x214, [0x215]), (0x216, [0x217]), (0x218, [0x219]),
    (0x21A, [0x21B]), (0x21C, [0x21D]), (0x21E, [0x21F]), (0x220, [0x19E]),
    (0x222, [0x223]), (0x224, [0x225]), (0x226, [0x227]), (0x228, [0x229]),
    (0x22A, [0x22B]), (0x22C, [0x22D]), (0x22E, [0x22F]), (0x230, [0x231]),
    (0x232, [0x233]), (0x23A, [0x2C65]), (0x23B, [0x23C]), (0x23D, [0x19A]),
    (0x23E, [0x2C66]), (0x241, [0x242]), (0x243, [0x180]), (0x244, [0x289]),
    (0x245, [0x28C]), (0x246, [0x247]), (0x248, [0x249]), (0x24A, [0x24B])]"

definition lower_table_7 :: "(cp \<times> cp list) list" where
  "lower_table_7 = [
    (0x24C, [0x24D]), (0x24E, [0x24F]), (0x370, [0x371]), (0x372, [0x373]),
    (0x376, [0x377]), (0x37F, [0x3F3]), (0x386, [0x3AC]), (0x388, [0x3AD]),
    (0x389, [0x3AE]), (0x38A, [0x3AF]), (0x38C, [0x3CC]), (0x38E, [0x3CD]),
    (0x38F, [0x3CE]), (0x391, [0x3B1]), (0x392, [0x3B2]), (0x393, [0x3B3]),
    (0x394, [0x3B4]), (0x395, [0x3B5]), (0x396, [0x3B6]), (0x397, [0x3B7]),
    (0x398, [0x3B8]), (0x399, [0x3B9]), (0x39A, [0x3BA]), (0x39B, [0x3BB]),
    (0x39C, [0x3BC]), (0x39D, [0x3BD]), (0x39E, [0x3BE]), (0x39F, [0x3BF]),
    (0x3A0, [0x3C0]), (0x3A1, [0x3C1]), (0x3A3, [0x3C3]), (0x3A4, [0x3C4])]"

definition lower_table_8 :: "(cp \<times> cp list) list" where
  "lower_table_8 = [
    (0x3A5, [0x3C5]), (0x3A6, [0x3C6]), (0x3A7, [0x3C7]), (0x3A8, [0x3C8]),
    (0x3A9, [0x3C9]), (0x3AA, [0x3CA]), (0x3AB, [0x3CB]), (0x3CF, [0x3D7]),
    (0x3D8, [0x3D9]), (0x3DA, [0x3DB]), (0x3DC, [0x3DD]), (0x3DE, [0x3DF]),
    (0x3E0, [0x3E1]), (0x3E2, [0x3E3]), (0x3E4, [0x3E5]), (0x3E6, [0x3E7]),
    (0x3E8, [0x3E9]), (0x3EA, [0x3EB]), (0x3EC, [0x3ED]), (0x3EE, [0x3EF]),
    (0x3F4, [0x3B8]), (0x3F7, [0x3F8]), (0x3F9, [0x3F2]), (0x3FA, [0x3FB]),
    (0x3FD, [0x37B]), (0x3FE, [0x37C]), (0x3FF, [0x37D]), (0x400, [0x450]),
    (0x401, [0x451]), (0x402, [0x452]), (0x403, [0x453]), (0x404, [0x454])]"

definition lower_table_9 :: "(cp \<times> cp list) list" where
  "lower_table_9 = [
    (0x405, [0x455]), (0x406, [0x456]), (0x407, [0x457]), (0x408, [0x458]),
    (0x409, [0x459]), (0x40A, [0x45A]), (0x40B, [0x45B]), (0x40C, [0x45C]),
    (0x40D, [0x45D]), (0x40E, [0x45E]), (0x40F, [0x45F]), (0x410, [0x430]),
    (0x411, [0x431]), (0x412, [0x432]), (0x413, [0x433]), (0x414, [0x434]),
    (0x415, [0x435]), (0x416, [0x436]), (0x417, [0x437]), (0x418, [0x438]),
    (0x419, [0x439]), (0x41A, [0x43A]), (0x41B, [0x43B]), (0x41C, [0x43C]),
    (0x41D, [0x43D]), (0x41E, [0x43E]), (0x41F, [0x43F]), (0x420, [0x440]),
    (0x421, [0x441]), (0x422, [0x442]), (0x423, [0x443]), (0x424, [0x444])]"

definition lower_table_10 :: "(cp \<times> cp list) list" where
  "lower_table_10 = [
    (0x425, [0x445]), (0x426, [0x446]), (0x427, [0x447]), (0x428, [0x448]),
    (0x429, [0x449]), (0x42A, [0x44A]), (0x42B, [0x44B]), (0x42C, [0x44C]),
    (0x42D, [0x44D]), (0x42E, [0x44E]), (0x42F, [0x44F]), (0x460, [0x461]),
    (0x462, [0x463]), (0x464, [0x465]), (0x466, [0x467]), (0x468, [0x469]),
    (0x46A, [0x46B]), (0x46C, [0x46D]), (0x46E, [0x46F]), (0x470, [0x471]),
    (0x472, [0x473]), (0x474, [0x475]), (0x476, [0x477]), (0x478, [0x479]),
    (0x47A, [0x47B]), (0x47C, [0x47D]), (0x47E, [0x47F]), (0x480, [0x481]),
    (0x48A, [0x48B]), (0x48C, [0x48D]), (0x48E, [0x48F]), (0x490, [0x491])]"

definition lower_table_11 :: "(cp \<times> cp list) list" where
  "lower_table_11 = [
    (0x492, [0x493]), (0x494, [0x495]), (0x496, [0x497]), (0x498, [0x499]),
    (0x49A, [0x49B]), (0x49C, [0x49D]), (0x49E, [0x49F]), (0x4A0, [0x4A1]),
    (0x4A2, [0x4A3]), (0x4A4, [0x4A5]), (0x4A6, [0x4A7]), (0x4A8, [0x4A9]),
    (0x4AA, [0x4AB]), (0x4AC, [0x4AD]), (0x4AE, [0x4AF]), (0x4B0, [0x4B1]),
    (0x4B2, [0x4B3]), (0x4B4, [0x4B5]), (0x4B6, [0x4B7]), (0x4B8, [0x4B9]),
    (0x4BA, [0x4BB]), (0x4BC, [0x4BD]), (0x4BE, [0x4BF]), (0x4C0, [0x4CF]),
    (0x4C1, [0x4C2]), (0x4C3, [0x4C4]), (0x4C5, [0x4C6]), (0x4C7, [0x4C8]),
    (0x4C9, [0x4CA]), (0x4CB, [0x4CC]), (0x4CD, [0x4CE]), (0x4D0, [0x4D1])]"

definition lower_table_12 :: "(cp \<times> cp list) list" where
  "lower_table_12 = [
    (0x4D2, [0x4D3]), (0x4D4, [0x4D5]), (0x4D6, [0x4D7]), (0x4D8, [0x4D9]),
    (0x4DA, [0x4DB]), (0x4DC, [0x4DD]), (0x4DE, [0x4DF]), (0x4E0, [0x4E1]),
    (0x4E2, [0x4E3]), (0x4E4, [0x4E5]), (0x4E6, [0x4E7]), (0x4E8, [0x4E9]),
    (0x4EA, [0x4EB]), (0x4EC, [0x4ED]), (0x4EE, [0x4EF]), (0x4F0, [0x4F1]),
    (0x4F2, [0x4F3]), (0x4F4, [0x4F5]), (0x4F6, [0x4F7]), (0x4F8, [0x4F9]),
    (0x4FA, [0x4FB]), (0x4FC, [0x4FD]), (0x4FE, [0x4FF]), (0x500, [0x501]),
    (0x502, [0x503]), (0x504, [0x505]), (0x506, [0x507]), (0x508, [0x509]),
    (0x50A, [0x50B]), (0x50C, [0x50D]), (0x50E, [0x50F]), (0x510, [0x511])]"

definition lower_table_13 :: "(cp \<times> cp list) list" where
  "lower_table_13 = [
    (0x512, [0x513]), (0x514, [0x515]), (0x516, [0x517]), (0x518, [0x519]),
    (0x51A, [0x51B]), (0x51C, [0x51D]), (0x51E, [0x51F]), (0x520, [0x521]),
    (0x522, [0x523]), (0x524, [0x525]), (0x526, [0x527]), (0x528, [0x529]),
    (0x52A, [0x52B]), (0x52C, [0x52D]), (0x52E, [0x52F]), (0x531, [0x561]),
    (0x532, [0x562]), (0x533, [0x563]), (0x534, [0x564]), (0x535, [0x565]),
    (0x536, [0x566]), (0x537, [0x567]), (0x538, [0x568]), (0x539, [0x569]),
    (0x53A, [0x56A]), (0x53B, [0x56B]), (0x53C, [0x56C]), (0x53D, [0x56D]),
    (0x53E, [0x56E]), (0x53F, [0x56F]), (0x540, [0x570]), (0x541, [0x571])]"

definition lower_table_14 :: "(cp \<times> cp list) list" where
  "lower_table_14 = [
    (0x542, [0x572]), (0x543, [0x573]), (0x544, [0x574]), (0x545, [0x575]),
    (0x546, [0x576]), (0x547, [0x577]), (0x548, [0x578]), (0x549, [0x579]),
    (0x54A, [0x57A]), (0x54B, [0x57B]), (0x54C, [0x57C]), (0x54D, [0x57D]),
    (0x54E, [0x57E]), (0x54F, [0x57F]), (0x550, [0x580]), (0x551, [0x581]),
    (0x552, [0x582]), (0x553, [0x583]), (0x554, [0x584]), (0x555, [0x585]),
    (0x556, [0x586]), (0x10A0, [0x2D00]), (0x10A1, [0x2D01]), (0x10A2, [0x2D02]),
    (0x10A3, [0x2D03]), (0x10A4, [0x2D04]), (0x10A5, [0x2D05]), (0x10A6, [0x2D06]),
    (0x10A7, [0x2D07]), (0x10A8, [0x2D08]), (0x10A9, [0x2D09]), (0x10AA, [0x2D0A])]"

definition lower_table_15 :: "(cp \<times> cp list) list" where
  "lower_table_15 = [
    (0x10AB, [0x2D0B]), (0x10AC, [0x2D0C]), (0x10AD, [0x2D0D]), (0x10AE, [0x2D0E]),
    (0x10AF, [0x2D0F]), (0x10B0, [0x2D10]), (0x10B1, [0x2D11]), (0x10B2, [0x2D12]),
    (0x10B3, [0x2D13]), (0x10B4, [0x2D14]), (0x10B5, [0x2D15]), (0x10B6, [0x2D16]),
    (0x10B7, [0x2D17]), (0x10B8, [0x2D18]), (0x10B9, [0x2D19]), (0x10BA, [0x2D1A]),
    (0x10BB, [0x2D1B]), (0x10BC, [0x2D1C]), (0x10BD, [0x2D1D]), (0x10BE, [0x2D1E]),
    (0x10BF, [0x2D1F]), (0x10C0, [0x2D20]), (0x10C1, [0x2D21]), (0x10C2, [0x2D22]),
    (0x10C3, [0x2D23]), (0x10C4, [0x2D24]), (0x10C5, [0x2D25]), (0x10C7, [0x2D27]),
    (0x10CD, [0x2D2D]), (0x13A0, [0xAB70]), (0x13A1, [0xAB71]), (0x13A2, [0xAB72])]"

definition lower_table_16 :: "(cp \<times> cp list) list" where
  "lower_table_16 = [
    (0x13A3, [0xAB73]), (0x13A4, [0xAB74]), (0x13A5, [0xAB75]), (0x13A6, [0xAB76]),
    (0x13A7, [0xAB77]), (0x13A8, [0xAB78]), (0x13A9, [0xAB79]), (0x13AA, [0xAB7A]),
    (0x13AB, [0xAB7B]), (0x13AC, [0xAB7C]), (0x13AD, [0xAB7D]), (0x13AE, [0xAB7E]),
    (0x13AF, [0xAB7F]), (0x13B0, [0xAB80]), (0x13B1, [0xAB81]), (0x13B2, [0xAB82]),
    (0x13B3, [0xAB83]), (0x13B4, [0xAB84]), (0x13B5, [0xAB85]), (0x13B6, [0xAB86]),
    (0x13B7, [0xAB87]), (0x13B8, [0xAB88]), (0x13B9, [0xAB89]), (0x13BA, [0xAB8A]),
    (0x13BB, [0xAB8B]), (0x13BC, [0xAB8C]), (0x13BD, [0xAB8D]), (0x13BE, [0xAB8E]),
    (0x13BF, [0xAB8F]), (0x13C0, [0xAB90]), (0x13C1, [0xAB91]), (0x13C2, [0xAB92])]"

definition lower_table_17 :: "(cp \<times> cp list) list" where
  "lower_table_17 = [
    (0x13C3, [0xAB93]), (0x13C4, [0xAB94]), (0x13C5, [0xAB95]), (0x13C6, [0xAB96]),
    (0x13C7, [0xAB97]), (0x13C8, [0xAB98]), (0x13C9, [0xAB99]), (0x13CA, [0xAB9A]),
    (0x13CB, [0xAB9B]), (0x13CC, [0xAB9C]), (0x13CD, [0xAB9D]), (0x13CE, [0xAB9E]),
    (0x13CF, [0xAB9F]), (0x13D0, [0xABA0]), (0x13D1, [0xABA1]), (0x13D2, [0xABA2]),
    (0x13D3, [0xABA3]), (0x13D4, [0xABA4]), (0x13D5, [0xABA5]), (0x13D6, [0xABA6]),
    (0x13D7, [0xABA7]), (0x13D8, [0xABA8]), (0x13D9, [0xABA9]), (0x13DA, [0xABAA]),
    (0x13DB, [0xABAB]), (0x13DC, [0xABAC]), (0x13DD, [0xABAD]), (0x13DE, [0xABAE]),
    (0x13DF, [0xABAF]), (0x13E0, [0xABB0]), (0x13E1, [0xABB1]), (0x13E2, [0xABB2])]"

definition lower_table_18 :: "(cp \<times> cp list) list" where
  "lower_table_18 = [
    (0x13E3, [0xABB3]), (0x13E4, [0xABB4]), (0x13E5, [0xABB5]), (0x13E6, [0xABB6]),
    (0x13E7, [0xABB7]), (0x13E8, [0xABB8]), (0x13E9, [0xABB9]), (0x13EA, [0xABBA]),
    (0x13EB, [0xABBB]), (0x13EC, [0xABBC]), (0x13ED, [0xABBD]), (0x13EE, [0xABBE]),
    (0x13EF, [0xABBF]), (0x13F0, [0x13F8]), (0x13F1, [0x13F9]), (0x13F2, [0x13FA]),
    (0x13F3, [0x13FB]), (0x13F4, [0x13FC]), (0x13F5, [0x13FD]), (0x1C90, [0x10D0]),
    (0x1C91, [0x10D1]), (0x1C92, [0x10D2]), (0x1C93, [0x10D3]), (0x1C94, [0x10D4]),
    (0x1C95, [0x10D5]), (0x1C96, [0x10D6]), (0x1C97, [0x10D7]), (0x1C98, [0x10D8]),
    (0x1C99, [0x10D9]), (0x1C9A, [0x10DA]), (0x1C9B, [0x10DB]), (0x1C9C, [0x10DC])]"

definition lower_table_19 :: "(cp \<times> cp list) list" where
  "lower_table_19 = [
    (0x1C9D, [0x10DD]), (0x1C9E, [0x10DE]), (0x1C9F, [0x10DF]), (0x1CA0, [0x10E0]),
    (0x1CA1, [0x10E1]), (0x1CA2, [0x10E2]), (0x1CA3, [0x10E3]), (0x1CA4, [0x10E4]),
    (0x1CA5, [0x10E5]), (0x1CA6, [0x10E6]), (0x1CA7, [0x10E7]), (0x1CA8, [0x10E8]),
    (0x1CA9, [0x10E9]), (0x1CAA, [0x10EA]), (0x1CAB, [0x10EB]), (0x1CAC, [0x10EC]),
    (0x1CAD, [0x10ED]), (0x1CAE, [0x10EE]), (0x1CAF, [0x10EF]), (0x1CB0, [0x10F0]),
    (0x1CB1, [0x10F1]), (0x1CB2, [0x10F2]), (0x1CB3, [0x10F3]), (0x1CB4, [0x10F4]),
    (0x1CB5, [0x10F5]), (0x1CB6, [0x10F6]), (0x1CB7, [0x10F7]), (0x1CB8, [0x10F8]),
    (0x1CB9, [0x10F9]), (0x1CBA, [0x10FA]), (0x1CBD, [0x10FD]), (0x1CBE, [0x10FE])]"

definition lower_table_20 :: "(cp \<times> cp list) list" where
  "lower_table_20 = [
    (0x1CBF, [0x10FF]), (0x1E00, [0x1E01]), (0x1E02, [0x1E03]), (0x1E04, [0x1E05]),
    (0x1E06, [0x1E07]), (0x1E08, [0x1E09]), (0x1E0A, [0x1E0B]), (0x1E0C, [0x1E0D]),
    (0x1E0E, [0x1E0F]), (0x1E10, [0x1E11]), (0x1E12, [0x1E13]), (0x1E14, [0x1E15]),
    (0x1E16, [0x1E17]), (0x1E18, [0x1E19]), (0x1E1A, [0x1E1B]), (0x1E1C, [0x1E1D]),
    (0x1E1E, [0x1E1F]), (0x1E20, [0x1E21]), (0x1E22, [0x1E23]), (0x1E24, [0x1E25]),
    (0x1E26, [0x1E27]), (0x1E28, [0x1E29]), (0x1E2A, [0x1E2B]), (0x1E2C, [0x1E2D]),
    (0x1E2E, [0x1E2F]), (0x1E30, [0x1E31]), (0x1E32, [0x1E33]), (0x1E34, [0x1E35]),
    (0x1E36, [0x1E37]), (0x1E38, [0x1E39]), (0x1E3A, [0x1E3B]), (0x1E3C, [0x1E3D])]"

definition lower_table_21 :: "(cp \<times> cp list) list" where
  "lower_table_21 = [
    (0x1E3E, [0x1E3F]), (0x1E40, [0x1E41]), (0x1E42, [0x1E43]), (0x1E44, [0x1E45]),
    (0x1E46, [0x1E47]), (0x1E48, [0x1E49]), (0x1E4A, [0x1E4B]), (0x1E4C, [0x1E4D]),
    (0x1E4E, [0x1E4F]), (0x1E50, [0x1E51]), (0x1E52, [0x1E53]), (0x1E54, [0x1E55]),
    (0x1E56, [0x1E57]), (0x1E58, [0x1E59]), (0x1E5A, [0x1E5B]), (0x1E5C, [0x1E5D]),
    (0x1E5E, [0x1E5F]), (0x1E60, [0x1E61]), (0x1E62, [0x1E63]), (0x1E64, [0x1E65]),
    (0x1E66, [0x1E67]), (0x1E68, [0x1E69]), (0x1E6A, [0x1E6B]), (0x1E6C, [0x1E6D]),
    (0x1E6E, [0x1E6F]), (0x1E70, [0x1E71]), (0x1E72, [0x1E73]), (0x1E74, [0x1E75]),
    (0x1E76, [0x1E77]), (0x1E78, [0x1E79]), (0x1E7A, [0x1E7B]), (0x1E7C, [0x1E7D])]"

definition lower_table_22 :: "(cp \<times> cp list) list" where
  "lower_table_22 = [
    (0x1E7E, [0x1E7F]), (0x1E80, [0x1E81]), (0x1E82, [0x1E83]), (0x1E84, [0x1E85]),
    (0x1E86, [0x1E87]), (0x1E88, [0x1E89]), (0x1E8A, [0x1E8B]), (0x1E8C, [0x1E8D]),
    (0x1E8E, [0x1E8F]), (0x1E90, [0x1E91]), (0x1E92, [0x1E93]), (0x1E94, [0x1E95]),
    (0x1E9E, [0xDF]), (0x1EA0, [0x1EA1]), (0x1EA2, [0x1EA3]), (0x1EA4, [0x1EA5]),
    (0x1EA6, [0x1EA7]), (0x1EA8, [0x1EA9]), (0x1EAA, [0x1EAB]), (0x1EAC, [0x1EAD]),
    (0x1EAE, [0x1EAF]), (0x1EB0, [0x1EB1]), (0x1EB2, [0x1EB3]), (0x1EB4, [0x1EB5]),
    (0x1EB6, [0x1EB7]), (0x1EB8, [0x1EB9]), (0x1EBA, [0x1EBB]), (0x1EBC, [0x1EBD]),
    (0x1EBE, [0x1EBF]), (0x1EC0, [0x1EC1]), (0x1EC2, [0x1EC3]), (0x1EC4, [0x1EC5])]"

definition lower_table_23 :: "(cp \<times> cp list) list" where
  "lower_table_23 = [
    (0x1EC6, [0x1EC7]), (0x1EC8, [0x1EC9]), (0x1ECA, [0x1ECB]), (0x1ECC, [0x1ECD]),
    (0x1ECE, [0x1ECF]), (0x1ED0, [0x1ED1]), (0x1ED2, [0x1ED3]), (0x1ED4, [0x1ED5]),
    (0x1ED6, [0x1ED7]), (0x1ED8, [0x1ED9]), (0x1EDA, [0x1EDB]), (0x1EDC, [0x1EDD]),
    (0x1EDE, [0x1EDF]), (0x1EE0, [0x1EE1]), (0x1EE2, [0x1EE3]), (0x1EE4, [0x1EE5]),
    (0x1EE6, [0x1EE7]), (0x1EE8, [0x1EE9]), (0x1EEA, [0x1EEB]), (0x1EEC, [0x1EED]),
    (0x1EEE, [0x1EEF]), (0x1EF0, [0x1EF1]), (0x1EF2, [0x1EF3]), (0x1EF4, [0x1EF5]),
    (0x1EF6, [0x1EF7]), (0x1EF8, [0x1EF9]), (0x1EFA, [0x1EFB]), (0x1EFC, [0x1EFD]),
    (0x1EFE, [0x1EFF]), (0x1F08, [0x1F00]), (0x1F09, [0x1F01]), (0x1F0A, [0x1F02])]"

definition lower_table_24 :: "(cp \<times> cp list) list" where
  "lower_table_24 = [
    (0x1F0B, [0x1F03]), (0x1F0C, [0x1F04]), (0x1F0D, [0x1F05]), (0x1F0E, [0x1F06]),
    (0x1F0F, [0x1F07]), (0x1F18, [0x1F10]), (0x1F19, [0x1F11]), (0x1F1A, [0x1F12]),
    (0x1F1B, [0x1F13]), (0x1F1C, [0x1F14]), (0x1F1D, [0x1F15]), (0x1F28, [0x1F20]),
    (0x1F29, [0x1F21]), (0x1F2A, [0x1F22]), (0x1F2B, [0x1F23]), (0x1F2C, [0x1F24]),
    (0x1F2D, [0x1F25]), (0x1F2E, [0x1F26]), (0x1F2F, [0x1F27]), (0x1F38, [0x1F30]),
    (0x1F39, [0x1F31]), (0x1F3A, [0x1F32]), (0x1F3B, [0x1F33]), (0x1F3C, [0x1F34]),
    (0x1F3D, [0x1F35]), (0x1F3E, [0x1F36]), (0x1F3F, [0x1F37]), (0x1F48, [0x1F40]),
    (0x1F49, [0x1F41]), (0x1F4A, [0x1F42]), (0x1F4B, [0x1F43]), (0x1F4C, [0x1F44])]"

definition lower_table_25 :: "(cp \<times> cp list) list" where
  "lower_table_25 = [
    (0x1F4D, [0x1F45]), (0x1F59, [0x1F51]), (0x1F5B, [0x1F53]), (0x1F5D, [0x1F55]),
    (0x1F5F, [0x1F57]), (0x1F68, [0x1F60]), (0x1F69, [0x1F61]), (0x1F6A, [0x1F62]),
    (0x1F6B, [0x1F63]), (0x1F6C, [0x1F64]), (0x1F6D, [0x1F65]), (0x1F6E, [0x1F66]),
    (0x1F6F, [0x1F67]), (0x1F88, [0x1F80]), (0x1F89, [0x1F81]), (0x1F8A, [0x1F82]),
    (0x1F8B, [0x1F83]), (0x1F8C, [0x1F84]), (0x1F8D, [0x1F85]), (0x1F8E, [0x1F86]),
    (0x1F8F, [0x1F87]), (0x1F98, [0x1F90]), (0x1F99, [0x1F91]), (0x1F9A, [0x1F92]),
    (0x1F9B, [0x1F93]), (0x1F9C, [0x1F94]), (0x1F9D, [0x1F95]), (0x1F9E, [0x1F96]),
    (0x1F9F, [0x1F97]), (0x1FA8, [0x1FA0]), (0x1FA9, [0x1FA1]), (0x1FAA, [0x1FA2])]"

definition lower_table_26 :: "(cp \<times> cp list) list" where
  "lower_table_26 = [
    (0x1FAB, [0x1FA3]), (0x1FAC, [0x1FA4]), (0x1FAD, [0x1FA5]), (0x1FAE, [0x1FA6]),
    (0x1FAF, [0x1FA7]), (0x1FB8, [0x1FB0]), (0x1FB9, [0x1FB1]), (0x1FBA, [0x1F70]),
    (0x1FBB, [0x1F71]), (0x1FBC, [0x1FB3]), (0x1FC8, [0x1F72]), (0x1FC9, [0x1F73]),
    (0x1FCA, [0x1F74]), (0x1FCB, [0x1F75]), (0x1FCC, [0x1FC3]), (0x1FD8, [0x1FD0]),
    (0x1FD9, [0x1FD1]), (0x1FDA, [0x1F76]), (0x1FDB, [0x1F77]), (0x1FE8, [0x1FE0]),
    (0x1FE9, [0x1FE1]), (0x1FEA, [0x1F7A]), (0x1FEB, [0x1F7B]), (0x1FEC, [0x1FE5]),
    (0x1FF8, [0x1F78]), (0x1FF9, [0x1F79]), (0x1FFA, [0x1F7C]), (0x1FFB, [0x1F7D]),
    (0x1FFC, [0x1FF3]), (0x2126, [0x3C9]), (0x212A, [0x6B]), (0x212B, [0xE5])]"

definition lower_table_27 :: "(cp \<times> cp list) list" where
  "lower_table_27 = [
    (0x2132, [0x214E]), (0x2160, [0x2170]), (0x2161, [0x2171]), (0x2162, [0x2172]),
    (0x2163, [0x2173]), (0x2164, [0x2174]), (0x2165, [0x2175]), (0x2166, [0x2176]),
    (0x2167, [0x2177]), (0x2168, [0x2178]), (0x2169, [0x2179]), (0x216A, [0x217A]),
    (0x216B, [0x217B]), (0x216C, [0x217C]), (0x216D, [0x217D]), (0x216E, [0x217E]),
    (0x216F, [0x217F]), (0x2183, [0x2184]), (0x24B6, [0x24D0]), (0x24B7, [0x24D1]),
    (0x24B8, [0x24D2]), (0x24B9, [0x24D3]), (0x24BA, [0x24D4]), (0x24BB, [0x24D5]),
    (0x24BC, [0x24D6]), (0x24BD, [0x24D7]), (0x24BE, [0x24D8]), (0x24BF, [0x24D9]),
    (0x24C0, [0x24DA]), (0x24C1, [0x24DB]), (0x24C2, [0x24DC]), (0x24C3, [0x24DD])]"

definition lower_table_28 :: "(cp \<times> cp list) list" where
  "lower_table_28 = [
    (0x24C4, [0x24DE]), (0x24C5, [0x24DF]), (0x24C6, [0x24E0]), (0x24C7, [0x24E1]),
    (0x24C8, [0x24E2]), (0x24C9, [0x24E3]), (0x24CA, [0x24E4]), (0x24CB, [0x24E5]),
    (0x24CC, [0x24E6]), (0x24CD, [0x24E7]), (0x24CE, [0x24E8]), (0x24CF, [0x24E9]),
    (0x2C00, [0x2C30]), (0x2C01, [0x2C31]), (0x2C02, [0x2C32]), (0x2C03, [0x2C33]),
    (0x2C04, [0x2C34]), (0x2C05, [0x2C35]), (0x2C06, [0x2C36]), (0x2C07, [0x2C37]),
    (0x2C08, [0x2C38]), (0x2C09, [0x2C39]), (0x2C0A, [0x2C3A]), (0x2C0B, [0x2C3B]),
    (0x2C0C, [0x2C3C]), (0x2C0D, [0x2C3D]), (0x2C0E, [0x2C3E]), (0x2C0F, [0x2C3F]),
    (0x2C10, [0x2C40]), (0x2C11, [0x2C41]), (0x2C12, [0x2C42]), (0x2C13, [0x2C43])]"

definition lower_table_29 :: "(cp \<times> cp list) list" where
  "lower_table_29 = [
    (0x2C14, [0x2C44]), (0x2C15, [0x2C45]), (0x2C16, [0x2C46]), (0x2C17, [0x2C47]),
    (0x2C18, [0x2C48]), (0x2C19, [0x2C49]), (0x2C1A, [0x2C4A]), (0x2C1B, [0x2C4B]),
    (0x2C1C, [0x2C4C]), (0x2C1D, [0x2C4D]), (0x2C1E, [0x2C4E]), (0x2C1F, [0x2C4F]),
    (0x2C20, [0x2C50]), (0x2C21, [0x2C51]), (0x2C22, [0x2C52]), (0x2C23, [0x2C53]),
    (0x2C24, [0x2C54]), (0x2C25, [0x2C55]), (0x2C26, [0x2C56]), (0x2C27, [0x2C57]),
    (0x2C28, [0x2C58]), (0x2C29, [0x2C59]), (0x2C2A, [0x2C5A]), (0x2C2B, [0x2C5B]),
    (0x2C2C, [0x2C5C]), (0x2C2D, [0x2C5D]), (0x2C2E, [0x2C5E]), (0x2C2F, [0x2C5F]),
    (0x2C60, [0x2C61]), (0x2C62, [0x26B]), (0x2C63, [0x1D7D]), (0x2C64, [0x27D])]"

definition lower_table_30 :: "(cp \<times> cp list) list" where
  "lower_table_30 = [
    (0x2C67, [0x2C68]), (0x2C69, [0x2C6A]), (0x2C6B, [0x2C6C]), (0x2C6D, [0x251]),
    (0x2C6E, [0x271]), (0x2C6F, [0x250]), (0x2C70, [0x252]), (0x2C72, [0x2C73]),
    (0x2C75, [0x2C76]), (0x2C7E, [0x23F]), (0x2C7F, [0x240]), (0x2C80, [0x2C81]),
    (0x2C82, [0x2C83]), (0x2C84, [0x2C85]), (0x2C86, [0x2C87]), (0x2C88, [0x2C89]),
    (0x2C8A, [0x2C8B]), (0x2C8C, [0x2C8D]), (0x2C8E, [0x2C8F]), (0x2C90, [0x2C91]),
    (0x2C92, [0x2C93]), (0x2C94, [0x2C95]), (0x2C96, [0x2C97]), (0x2C98, [0x2C99]),
    (0x2C9A, [0x2C9B]), (0x2C9C, [0x2C9D]), (0x2C9E, [0x2C9F]), (0x2CA0, [0x2CA1]),
    (0x2CA2, [0x2CA3]), (0x2CA4, [0x2CA5]), (0x2CA6, [0x2CA7]), (0x2CA8, [0x2CA9])]"

definition lower_table_31 :: "(cp \<times> cp list) list" where
  "lower_table_31 = [
    (0x2CAA, [0x2CAB]), (0x2CAC, [0x2CAD]), (0x2CAE, [0x2CAF]), (0x2CB0, [0x2CB1]),
    (0x2CB2, [0x2CB3]), (0x2CB4, [0x2CB5]), (0x2CB6, [0x2CB7]), (0x2CB8, [0x2CB9]),
    (0x2CBA, [0x2CBB]), (0x2CBC, [0x2CBD]), (0x2CBE, [0x2CBF]), (0x2CC0, [0x2CC1]),
    (0x2CC2, [0x2CC3]), (0x2CC4, [0x2CC5]), (0x2CC6, [0x2CC7]), (0x2CC8, [0x2CC9]),
    (0x2CCA, [0x2CCB]), (0x2CCC, [0x2CCD]), (0x2CCE, [0x2CCF]), (0x2CD0, [0x2CD1]),
    (0x2CD2, [0x2CD3]), (0x2CD4, [0x2CD5]), (0x2CD6, [0x2CD7]), (0x2CD8, [0x2CD9]),
    (0x2CDA, [0x2CDB]), (0x2CDC, [0x2CDD]), (0x2CDE, [0x2CDF]), (0x2CE0, [0x2CE1]),
    (0x2CE2, [0x2CE3]), (0x2CEB, [0x2CEC]), (0x2CED, [0x2CEE]), (0x2CF2, [0x2CF3])]"

definition lower_table_32 :: "(cp \<times> cp list) list" where
  "lower_table_32 = [
    (0xA640, [0xA641]), (0xA642, [0xA643]), (0xA644, [0xA645]), (0xA646, [0xA647]),
    (0xA648, [0xA649]), (0xA64A, [0xA64B]), (0xA64C, [0xA64D]), (0xA64E, [0xA64F]),
    (0xA650, [0xA651]), (0xA652, [0xA653]), (0xA654, [0xA655]), (0xA656, [0xA657]),
    (0xA658, [0xA659]), (0xA65A, [0xA65B]), (0xA65C, [0xA65D]), (0xA65E, [0xA65F]),
    (0xA660, [0xA661]), (0xA662, [0xA663]), (0xA664, [0xA665]), (0xA666, [0xA667]),
    (0xA668, [0xA669]), (0xA66A, [0xA66B]), (0xA66C, [0xA66D]), (0xA680, [0xA681]),
    (0xA682, [0xA683]), (0xA684, [0xA685]), (0xA686, [0xA687]), (0xA688, [0xA689]),
    (0xA68A, [0xA68B]), (0xA68C, [0xA68D]), (0xA68E, [0xA68F]), (0xA690, [0xA691])]"

definition lower_table_33 :: "(cp \<times> cp list) list" where
  "lower_table_33 = [
    (0xA692, [0xA693]), (0xA694, [0xA695]), (0xA696, [0xA697]), (0xA698, [0xA699]),
    (0xA69A, [0xA69B]), (0xA722, [0xA723]), (0xA724, [0xA725]), (0xA726, [0xA727]),
    (0xA728, [0xA729]), (0xA72A, [0xA72B]), (0xA72C, [0xA72D]), (0xA72E, [0xA72F]),
    (0xA732, [0xA733]), (0xA734, [0xA735]), (0xA736, [0xA737]), (0xA738, [0xA739]),
    (0xA73A, [0xA73B]), (0xA73C, [0xA73D]), (0xA73E, [0xA73F]), (0xA740, [0xA741]),
    (0xA742, [0xA743]), (0xA744, [0xA745]), (0xA746, [0xA747]), (0xA748, [0xA749]),
    (0xA74A, [0xA74B]), (0xA74C, [0xA74D]), (0xA74E, [0xA74F]), (0xA750, [0xA751]),
    (0xA752, [0xA753]), (0xA754, [0xA755]), (0xA756, [0xA757]), (0xA758, [0xA759])]"

definition lower_table_34 :: "(cp \<times> cp list) list" where
  "lower_table_34 = [
    (0xA75A, [0xA75B]), (0xA75C, [0xA75D]), (0xA75E, [0xA75F]), (0xA760, [0xA761]),
    (0xA762, [0xA763]), (0xA764, [0xA765]), (0xA766, [0xA767]), (0xA768, [0xA769]),
    (0xA76A, [0xA76B]), (0xA76C, [0xA76D]), (0xA76E, [0xA76F]), (0xA779, [0xA77A]),
    (0xA77B, [0xA77C]), (0xA77D, [0x1D79]), (0xA77E, [0xA77F]), (0xA780, [0xA781]),
    (0xA782, [0xA783]), (0xA784, [0xA785]), (0xA786, [0xA787]), (0xA78B, [0xA78C]),
    (0xA78D, [0x265]), (0xA790, [0xA791]), (0xA792, [0xA793]), (0xA796, [0xA797]),
    (0xA798, [0xA799]), (0xA79A, [0xA79B]), (0xA79C, [0xA79D]), (0xA79E, [0xA79F]),
    (0xA7A0, [0xA7A1]), (0xA7A2, [0xA7A3]), (0xA7A4, [0xA7A5]), (0xA7A6, [0xA7A7])]"

definition lower_table_35 :: "(cp \<times> cp list) list" where
  "lower_table_35 = [
    (0xA7A8, [0xA7A9]), (0xA7AA, [0x266]), (0xA7AB, [0x25C]), (0xA7AC, [0x261]),
    (0xA7AD, [0x26C]), (0xA7AE, [0x26A]), (0xA7B0, [0x29E]), (0xA7B1, [0x287]),
    (0xA7B2, [0x29D]), (0xA7B3, [0xAB53]), (0xA7B4, [0xA7B5]), (0xA7B6, [0xA7B7]),
    (0xA7B8, [0xA7B9]), (0xA7BA, [0xA7BB]), (0xA7BC, [0xA7BD]), (0xA7BE, [0xA7BF]),
    (0xA7C0, [0xA7C1]), (0xA7C2, [0xA7C3]), (0xA7C4, [0xA794]), (0xA7C5, [0x282]),
    (0xA7C6, [0x1D8E]), (0xA7C7, [0xA7C8]), (0xA7C9, [0xA7CA]), (0xA7D0, [0xA7D1]),
    (0xA7D6, [0xA7D7]), (0xA7D8, [0xA7D9]), (0xA7F5, [0xA7F6]), (0xFF21, [0xFF41]),
    (0xFF22, [0xFF42]), (0xFF23, [0xFF43]), (0xFF24, [0xFF44]), (0xFF25, [0xFF45])]"

definition lower_table_36 :: "(cp \<times> cp list) list" where
  "lower_table_36 = [
    (0xFF26, [0xFF46]), (0xFF27, [0xFF47]), (0xFF28, [0xFF48]), (0xFF29, [0xFF49]),
    (0xFF2A, [0xFF4A]), (0xFF2B, [0xFF4B]), (0xFF2C, [0xFF4C]), (0xFF2D, [0xFF4D]),
    (0xFF2E, [0xFF4E]), (0xFF2F, [0xFF4F]), (0xFF30, [0xFF50]), (0xFF31, [0xFF51]),
    (0xFF32, [0xFF52]), (0xFF33, [0xFF53]), (0xFF34, [0xFF54]), (0xFF35, [0xFF55]),
    (0xFF36, [0xFF56]), (0xFF37, [0xFF57]), (0xFF38, [0xFF58]), (0xFF39, [0xFF59]),
    (0xFF3A, [0xFF5A]), (0x10400, [0x10428]), (0x10401, [0x10429]), (0x10402, [0x1042A]),
    (0x10403, [0x1042B]), (0x10404, [0x1042C]), (0x10405, [0x1042D]), (0x10406, [0x1042E]),
    (0x10407, [0x1042F]), (0x10408, [0x10430]), (0x10409, [0x10431]), (0x1040A, [0x10432])]"

definition lower_table_37 :: "(cp \<times> cp list) list" where
  "lower_table_37 = [
    (0x1040B, [0x10433]), (0x1040C, [0x10434]), (0x1040D, [0x10435]), (0x1040E, [0x10436]),
    (0x1040F, [0x10437]), (0x10410, [0x10438]), (0x10411, [0x10439]), (0x10412, [0x1043A]),
    (0x10413, [0x1043B]), (0x10414, [0x1043C]), (0x10415, [0x1043D]), (0x10416, [0x1043E]),
    (0x10417, [0x1043F]), (0x10418, [0x10440]), (0x10419, [0x10441]), (0x1041A, [0x10442]),
    (0x1041B, [0x10443]), (0x1041C, [0x10444]), (0x1041D, [0x10445]), (0x1041E, [0x10446]),
    (0x1041F, [0x10447]), (0x10420, [0x10448]), (0x10421, [0x10449]), (0x10422, [0x1044A]),
    (0x10423, [0x1044B]), (0x10424, [0x1044C]), (0x10425, [0x1044D]), (0x10426, [0x1044E]),
    (0x10427, [0x1044F]), (0x104B0, [0x104D8]), (0x104B1, [0x104D9]), (0x104B2, [0x104DA])]"

definition lower_table_38 :: "(cp \<times> cp list) list" where
  "lower_table_38 = [
    (0x104B3, [0x104DB]), (0x104B4, [0x104DC]), (0x104B5, [0x104DD]), (0x104B6, [0x104DE]),
    (0x104B7, [0x104DF]), (0x104B8, [0x104E0]), (0x104B9, [0x104E1]), (0x104BA, [0x104E2]),
    (0x104BB, [0x104E3]), (0x104BC, [0x104E4]), (0x104BD, [0x104E5]), (0x104BE, [0x104E6]),
    (0x104BF, [0x104E7]), (0x104C0, [0x104E8]), (0x104C1, [0x104E9]), (0x104C2, [0x104EA]),
    (0x104C3, [0x104EB]), (0x104C4, [0x104EC]), (0x104C5, [0x104ED]), (0x104C6, [0x104EE]),
    (0x104C7, [0x104EF]), (0x104C8, [0x104F0]), (0x104C9, [0x104F1]), (0x104CA, [0x104F2]),
    (0x104CB, [0x104F3]), (0x104CC, [0x104F4]), (0x104CD, [0x104F5]), (0x104CE, [0x104F6]),
    (0x104CF, [0x104F7]), (0x104D0, [0x104F8]), (0x104D1, [0x104F9]), (0x104D2, [0x104FA])]"

definition lower_table_39 :: "(cp \<times> cp list) list" where
  "lower_table_39 = [
    (0x104D3, [0x104FB]), (0x10570, [0x10597]), (0x10571, [0x10598]), (0x10572, [0x10599]),
    (0x10573, [0x1059A]), (0x10574, [0x1059B]), (0x10575, [0x1059C]), (0x10576, [0x1059D]),
    (0x10577, [0x1059E]), (0x10578, [0x1059F]), (0x10579, [0x105A0]), (0x1057A, [0x105A1]),
    (0x1057C, [0x105A3]), (0x1057D, [0x105A4]), (0x1057E, [0x105A5]), (0x1057F, [0x105A6]),
    (0x10580, [0x105A7]), (0x10581, [0x105A8]), (0x10582, [0x105A9]), (0x10583, [0x105AA]),
    (0x10584, [0x105AB]), (0x10585, [0x105AC]), (0x10586, [0x105AD]), (0x10587, [0x105AE]),
    (0x10588, [0x105AF]), (0x10589, [0x105B0]), (0x1058A, [0x105B1]), (0x1058C, [0x105B3]),
    (0x1058D, [0x105B4]), (0x1058E, [0x105B5]), (0x1058F, [0x105B6]), (0x10590, [0x105B7])]"

definition lower_table_40 :: "(cp \<times> cp list) list" where
  "lower_table_40 = [
    (0x10591, [0x105B8]), (0x10592, [0x105B9]), (0x10594, [0x105BB]), (0x10595, [0x105BC]),
    (0x10C80, [0x10CC0]), (0x10C81, [0x10CC1]), (0x10C82, [0x10CC2]), (0x10C83, [0x10CC3]),
    (0x10C84, [0x10CC4]), (0x10C85, [0x10CC5]), (0x10C86, [0x10CC6]), (0x10C87, [0x10CC7]),
    (0x10C88, [0x10CC8]), (0x10C89, [0x10CC9]), (0x10C8A, [0x10CCA]), (0x10C8B, [0x10CCB]),
    (0x10C8C, [0x10CCC]), (0x10C8D, [0x10CCD]), (0x10C8E, [0x10CCE]), (0x10C8F, [0x10CCF]),
    (0x10C90, [0x10CD0]), (0x10C91, [0x10CD1]), (0x10C92, [0x10CD2]), (0x10C93, [0x10CD3]),
    (0x10C94, [0x10CD4]), (0x10C95, [0x10CD5]), (0x10C96, [0x10CD6]), (0x10C97, [0x10CD7]),
    (0x10C98, [0x10CD8]), (0x10C99, [0x10CD9]), (0x10C9A, [0x10CDA]), (0x10C9B, [0x10CDB])]"

definition lower_table_41 :: "(cp \<times> cp list) list" where
  "lower_table_41 = [
    (0x10C9C, [0x10CDC]), (0x10C9D, [0x10CDD]), (0x10C9E, [0x10CDE]), (0x10C9F, [0x10CDF]),
    (0x10CA0, [0x10CE0]), (0x10CA1, [0x10CE1]), (0x10CA2, [0x10CE2]), (0x10CA3, [0x10CE3]),
    (0x10CA4, [0x10CE4]), (0x10CA5, [0x10CE5]), (0x10CA6, [0x10CE6]), (0x10CA7, [0x10CE7]),
    (0x10CA8, [0x10CE8]), (0x10CA9, [0x10CE9]), (0x10CAA, [0x10CEA]), (0x10CAB, [0x10CEB]),
    (0x10CAC, [0x10CEC]), (0x10CAD, [0x10CED]), (0x10CAE, [0x10CEE]), (0x10CAF, [0x10CEF]),
    (0x10CB0, [0x10CF0]), (0x10CB1, [0x10CF1]), (0x10CB2, [0x10CF2]), (0x118A0, [0x118C0]),
    (0x118A1, [0x118C1]), (0x118A2, [0x118C2]), (0x118A3, [0x118C3]), (0x118A4, [0x118C4]),
    (0x118A5, [0x118C5]), (0x118A6, [0x118C6]), (0x118A7, [0x118C7]), (0x118A8, [0x118C8])]"

definition lower_table_42 :: "(cp \<times> cp list) list" where
  "lower_table_42 = [
    (0x118A9, [0x118C9]), (0x118AA, [0x118CA]), (0x118AB, [0x118CB]), (0x118AC, [0x118CC]),
    (0x118AD, [0x118CD]), (0x118AE, [0x118CE]), (0x118AF, [0x118CF]), (0x118B0, [0x118D0]),
    (0x118B1, [0x118D1]), (0x118B2, [0x118D2]), (0x118B3, [0x118D3]), (0x118B4, [0x118D4]),
    (0x118B5, [0x118D5]), (0x118B6, [0x118D6]), (0x118B7, [0x118D7]), (0x118B8, [0x118D8]),
    (0x118B9, [0x118D9]), (0x118BA, [0x118DA]), (0x118BB, [0x118DB]), (0x118BC, [0x118DC]),
    (0x118BD, [0x118DD]), (0x118BE, [0x118DE]), (0x118BF, [0x118DF]), (0x16E40, [0x16E60]),
    (0x16E41, [0x16E61]), (0x16E42, [0x16E62]), (0x16E43, [0x16E63]), (0x16E44, [0x16E64]),
    (0x16E45, [0x16E65]), (0x16E46, [0x16E66]), (0x16E47, [0x16E67]), (0x16E48, [0x16E68])]"

definition lower_table_43 :: "(cp \<times> cp list) list" where
  "lower_table_43 = [
    (0x16E49, [0x16E69]), (0x16E4A, [0x16E6A]), (0x16E4B, [0x16E6B]), (0x16E4C, [0x16E6C]),
    (0x16E4D, [0x16E6D]), (0x16E4E, [0x16E6E]), (0x16E4F, [0x16E6F]), (0x16E50, [0x16E70]),
    (0x16E51, [0x16E71]), (0x16E52, [0x16E72]), (0x16E53, [0x16E73]), (0x16E54, [0x16E74]),
    (0x16E55, [0x16E75]), (0x16E56, [0x16E76]), (0x16E57, [0x16E77]), (0x16E58, [0x16E78]),
    (0x16E59, [0x16E79]), (0x16E5A, [0x16E7A]), (0x16E5B, [0x16E7B]), (0x16E5C, [0x16E7C]),
    (0x16E5D, [0x16E7D]), (0x16E5E, [0x16E7E]), (0x16E5F, [0x16E7F]), (0x1E900, [0x1E922]),
    (0x1E901, [0x1E923]), (0x1E902, [0x1E924]), (0x1E903, [0x1E925]), (0x1E904, [0x1E926]),
    (0x1E905, [0x1E927]), (0x1E906, [0x1E928]), (0x1E907, [0x1E929]), (0x1E908, [0x1E92A])]"

definition lower_table_44 :: "(cp \<times> cp list) list" where
  "lower_table_44 = [
    (0x1E909, [0x1E92B]), (0x1E90A, [0x1E92C]), (0x1E90B, [0x1E92D]), (0x1E90C, [0x1E92E]),
    (0x1E90D, [0x1E92F]), (0x1E90E, [0x1E930]), (0x1E90F, [0x1E931]), (0x1E910, [0x1E932]),
    (0x1E911, [0x1E933]), (0x1E912, [0x1E934]), (0x1E913, [0x1E935]), (0x1E914, [0x1E936]),
    (0x1E915, [0x1E937]), (0x1E916, [0x1E938]), (0x1E917, [0x1E939]), (0x1E918, [0x1E93A]),
    (0x1E919, [0x1E93B]), (0x1E91A, [0x1E93C]), (0x1E91B, [0x1E93D]), (0x1E91C, [0x1E93E]),
    (0x1E91D, [0x1E93F]), (0x1E91E, [0x1E940]), (0x1E91F, [0x1E941]), (0x1E920, [0x1E942]),
    (0x1E921, [0x1E943])]"

definition lower_table :: "cp \<Rightarrow> (cp \<times> cp list) list" where
  "lower_table c =
     (if c \<le> 0xC5 then lower_table_0 else
      if c \<le> 0x10E then lower_table_1 else
      if c \<le> 0x150 then lower_table_2 else
      if c \<le> 0x18E then lower_table_3 else
      if c \<le> 0x1CA then lower_table_4 else
      if c \<le> 0x208 then lower_table_5 else
      if c \<le> 0x24A then lower_table_6 else
      if c \<le> 0x3A4 then lower_table_7 else
      if c \<le> 0x404 then lower_table_8 else
      if c \<le> 0x424 then lower_table_9 else
      if c \<le> 0x490 then lower_table_10 else
      if c \<le> 0x4D0 then lower_table_11 else
      if c \<le> 0x510 then lower_table_12 else
      if c \<le> 0x541 then lower_table_13 else
      if c \<le> 0x10AA then lower_table_14 else
      if c \<le> 0x13A2 then lower_table_15 else
      if c \<le> 0x13C2 then lower_table_16 else
      if c \<le> 0x13E2 then lower_table_17 else
      if c \<le> 0x1C9C then lower_table_18 else
      if c \<le> 0x1CBE then lower_table_19 else
      if c \<le> 0x1E3C then lower_table_20 else
      if c \<le> 0x1E7C then lower_table_21 else
      if c \<le> 0x1EC4 then lower_table_22 else
      if c \<le> 0x1F0A then lower_table_23 else
      if c \<le> 0x1F4C then lower_table_24 else
      if c \<le> 0x1FAA then lower_table_25 else
      if c \<le> 0x212B then lower_table_26 else
      if c \<le> 0x24C3 then lower_table_27 else
      if c \<le> 0x2C13 then lower_table_28 else
      if c \<le> 0x2C64 then lower_table_29 else
      if c \<le> 0x2CA8 then lower_table_30 else
      if c \<le> 0x2CF2 then lower_table_31 else
      if c \<le> 0xA690 then lower_table_32 else
      if c \<le> 0xA758 then lower_table_33 else
      if c \<le> 0xA7A6 then lower_table_34 else
      if c \<le> 0xFF25 then lower_table_35 else
      if c \<le> 0x1040A then lower_table_36 else
      if c \<le> 0x104B2 then lower_table_37 else
      if c \<le> 0x104D2 then lower_table_38 else
      if c \<le> 0x10590 then lower_table_39 else
      if c \<le> 0x10C9B then lower_table_40 else
      if c \<le> 0x118A8 then lower_table_41 else
      if c \<le> 0x16E48 then lower_table_42 else
      if c \<le> 0x1E908 then lower_table_43 else
      lower_table_44)"

subsection \<open>Full titlecase mappings\<close>

definition title_table_0 :: "(cp \<times> cp list) list" where
  "title_table_0 = [
    (0x61, [0x41]), (0x62, [0x42]), (0x63, [0x43]), (0x64, [0x44]),
    (0x65, [0x45]), (0x66, [0x46]), (0x67, [0x47]), (0x68, [0x48]),
    (0x69, [0x49]), (0x6A, [0x4A]), (0x6B, [0x4B]), (0x6C, [0x4C]),
    (0x6D, [0x4D]), (0x6E, [0x4E]), (0x6F, [0x4F]), (0x70, [0x50]),
    (0x71, [0x51]), (0x72, [0x52]), (0x73, [0x53]), (0x74, [0x54]),
    (0x75, [0x55]), (0x76, [0x56]), (0x77, [0x57]), (0x78, [0x58]),
    (0x79, [0x59]), (0x7A, [0x5A]), (0xB5, [0x39C]), (0xDF, [0x53, 0x73]),
    (0xE0, [0xC0]), (0xE1, [0xC1]), (0xE2, [0xC2]), (0xE3, [0xC3])]"

definition title_table_1 :: "(cp \<times> cp list) list" where
  "title_table_1 = [
    (0xE4, [0xC4]), (0xE5, [0xC5]), (0xE6, [0xC6]), (0xE7, [0xC7]),
    (0xE8, [0xC8]), (0xE9, [0xC9]), (0xEA, [0xCA]), (0xEB, [0xCB]),
    (0xEC, [0xCC]), (0xED, [0xCD]), (0xEE, [0xCE]), (0xEF, [0xCF]),
    (0xF0, [0xD0]), (0xF1, [0xD1]), (0xF2, [0xD2]), (0xF3, [0xD3]),
    (0xF4, [0xD4]), (0xF5, [0xD5]), (0xF6, [0xD6]), (0xF8, [0xD8]),
    (0xF9, [0xD9]), (0xFA, [0xDA]), (0xFB, [0xDB]), (0xFC, [0xDC]),
    (0xFD, [0xDD]), (0xFE, [0xDE]), (0xFF, [0x178]), (0x101, [0x100]),
    (0x103, [0x102]), (0x105, [0x104]), (0x107, [0x106]), (0x109, [0x108])]"

definition title_table_2 :: "(cp \<times> cp list) list" where
  "title_table_2 = [
    (0x10B, [0x10A]), (0x10D, [0x10C]), (0x10F, [0x10E]), (0x111, [0x110]),
    (0x113, [0x112]), (0x115, [0x114]), (0x117, [0x116]), (0x119, [0x118]),
    (0x11B, [0x11A]), (0x11D, [0x11C]), (0x11F, [0x11E]), (0x121, [0x120]),
    (0x123, [0x122]), (0x125, [0x124]), (0x127, [0x126]), (0x129, [0x128]),
    (0x12B, [0x12A]), (0x12D, [0x12C]), (0x12F, [0x12E]), (0x131, [0x49]),
    (0x133, [0x132]), (0x135, [0x134]), (0x137, [0x136]), (0x13A, [0x139]),
    (0x13C, [0x13B]), (0x13E, [0x13D]), (0x140, [0x13F]), (0x142, [0x141]),
    (0x144, [0x143]), (0x146, [0x145]), (0x148, [0x147]), (0x149, [0x2BC, 0x4E])]"

definition title_table_3 :: "(cp \<times> cp list) list" where
  "title_table_3 = [
    (0x14B, [0x14A]), (0x14D, [0x14C]), (0x14F, [0x14E]), (0x151, [0x150]),
    (0x153, [0x152]), (0x155, [0x154]), (0x157, [0x156]), (0x159, [0x158]),
    (0x15B, [0x15A]), (0x15D, [0x15C]), (0x15F, [0x15E]), (0x161, [0x160]),
    (0x163, [0x162]), (0x165, [0x164]), (0x167, [0x166]), (0x169, [0x168]),
    (0x16B, [0x16A]), (0x16D, [0x16C]), (0x16F, [0x16E]), (0x171, [0x170]),
    (0x173, [0x172]), (0x175, [0x174]), (0x177, [0x176]), (0x17A, [0x179]),
    (0x17C, [0x17B]), (0x17E, [0x17D]), (0x17F, [0x53]), (0x180, [0x243]),
    (0x183, [0x182]), (0x185, [0x184]), (0x188, [0x187]), (0x18C, [0x18B])]"

definition title_table_4 :: "(cp \<times> cp list) list" where
  "title_table_4 = [
    (0x192, [0x191]), (0x195, [0x1F6]), (0x199, [0x198]), (0x19A, [0x23D]),
    (0x19E, [0x220]), (0x1A1, [0x1A0]), (0x1A3, [0x1A2]), (0x1A5, [0x1A4]),
    (0x1A8, [0x1A7]), (0x1AD, [0x1AC]), (0x1B0, [0x1AF]), (0x1B4, [0x1B3]),
    (0x1B6, [0x1B5]), (0x1B9, [0x1B8]), (0x1BD, [0x1BC]), (0x1BF, [0x1F7]),
    (0x1C4, [0x1C5]), (0x1C6, [0x1C5]), (0x1C7, [0x1C8]), (0x1C9, [0x1C8]),
    (0x1CA, [0x1CB]), (0x1CC, [0x1CB]), (0x1CE, [0x1CD]), (0x1D0, [0x1CF]),
    (0x1D2, [0x1D1]), (0x1D4, [0x1D3]), (0x1D6, [0x1D5]), (0x1D8, [0x1D7]),
    (0x1DA, [0x1D9]), (0x1DC, [0x1DB]), (0x1DD, [0x18E]), (0x1DF, [0x1DE])]"

definition title_table_5 :: "(cp \<times> cp list) list" where
  "title_table_5 = [
    (0x1E1, [0x1E0]), (0x1E3, [0x1E2]), (0x1E5, [0x1E4]), (0x1E7, [0x1E6]),
    (0x1E9, [0x1E8]), (0x1EB, [0x1EA]), (0x1ED, [0x1EC]), (0x1EF, [0x1EE]),
    (0x1F0, [0x4A, 0x30C]), (0x1F1, [0x1F2]), (0x1F3, [0x1F2]), (0x1F5, [0x1F4]),
    (0x1F9, [0x1F8]), (0x1FB, [0x1FA]), (0x1FD, [0x1FC]), (0x1FF, [0x1FE]),
    (0x201, [0x200]), (0x203, [0x202]), (0x205, [0x204]), (0x207, [0x206]),
    (0x209, [0x208]), (0x20B, [0x20A]), (0x20D, [0x20C]), (0x20F, [0x20E]),
    (0x211, [0x210]), (0x213, [0x212]), (0x215, [0x214]), (0x217, [0x216]),
    (0x219, [0x218]), (0x21B, [0x21A]), (0x21D, [0x21C]), (0x21F, [0x21E])]"

definition title_table_6 :: "(cp \<times> cp list) list" where
  "title_table_6 = [
    (0x223, [0x222]), (0x225, [0x224]), (0x227, [0x226]), (0x229, [0x228]),
    (0x22B, [0x22A]), (0x22D, [0x22C]), (0x22F, [0x22E]), (0x231, [0x230]),
    (0x233, [0x232]), (0x23C, [0x23B]), (0x23F, [0x2C7E]), (0x240, [0x2C7F]),
    (0x242, [0x241]), (0x247, [0x246]), (0x249, [0x248]), (0x24B, [0x24A]),
    (0x24D, [0x24C]), (0x24F, [0x24E]), (0x250, [0x2C6F]), (0x251, [0x2C6D]),
    (0x252, [0x2C70]), (0x253, [0x181]), (0x254, [0x186]), (0x256, [0x189]),
    (0x257, [0x18A]), (0x259, [0x18F]), (0x25B, [0x190]), (0x25C, [0xA7AB]),
    (0x260, [0x193]), (0x261, [0xA7AC]), (0x263, [0x194]), (0x265, [0xA78D])]"

definition title_table_7 :: "(cp \<times> cp list) list" where
  "title_table_7 = [
    (0x266, [0xA7AA]), (0x268, [0x197]), (0x269, [0x196]), (0x26A, [0xA7AE]),
    (0x26B, [0x2C62]), (0x26C, [0xA7AD]), (0x26F, [0x19C]), (0x271, [0x2C6E]),
    (0x272, [0x19D]), (0x275, [0x19F]), (0x27D, [0x2C64]), (0x280, [0x1A6]),
    (0x282, [0xA7C5]), (0x283, [0x1A9]), (0x287, [0xA7B1]), (0x288, [0x1AE]),
    (0x289, [0x244]), (0x28A, [0x1B1]), (0x28B, [0x1B2]), (0x28C, [0x245]),
    (0x292, [0x1B7]), (0x29D, [0xA7B2]), (0x29E, [0xA7B0]), (0x345, [0x399]),
    (0x371, [0x370]), (0x373, [0x372]), (0x377, [0x376]), (0x37B, [0x3FD]),
    (0x37C, [0x3FE]), (0x37D, [0x3FF]), (0x390, [0x399, 0x308, 0x301]), (0x3AC, [0x386])]"

definition title_table_8 :: "(cp \<times> cp list) list" where
  "title_table_8 = [
    (0x3AD, [0x388]), (0x3AE, [0x389]), (0x3AF, [0x38A]), (0x3B0, [0x3A5, 0x308, 0x301]),
    (0x3B1, [0x391]), (0x3B2, [0x392]), (0x3B3, [0x393]), (0x3B4, [0x394]),
    (0x3B5, [0x395]), (0x3B6, [0x396]), (0x3B7, [0x397]), (0x3B8, [0x398]),
    (0x3B9, [0x399]), (0x3BA, [0x39A]), (0x3BB, [0x39B]), (0x3BC, [0x39C]),
    (0x3BD, [0x39D]), (0x3BE, [0x39E]), (0x3BF, [0x39F]), (0x3C0, [0x3A0]),
    (0x3C1, [0x3A1]), (0x3C2, [0x3A3]), (0x3C3, [0x3A3]), (0x3C4, [0x3A4]),
    (0x3C5, [0x3A5]), (0x3C6, [0x3A6]), (0x3C7, [0x3A7]), (0x3C8, [0x3A8]),
    (0x3C9, [0x3A9]), (0x3CA, [0x3AA]), (0x3CB, [0x3AB]), (0x3CC, [0x38C])]"

definition title_table_9 :: "(cp \<times> cp list) list" where
  "title_table_9 = [
    (0x3CD, [0x38E]), (0x3CE, [0x38F]), (0x3D0, [0x392]), (0x3D1, [0x398]),
    (0x3D5, [0x3A6]), (0x3D6, [0x3A0]), (0x3D7, [0x3CF]), (0x3D9, [0x3D8]),
    (0x3DB, [0x3DA]), (0x3DD, [0x3DC]), (0x3DF, [0x3DE]), (0x3E1, [0x3E0]),
    (0x3E3, [0x3E2]), (0x3E5, [0x3E4]), (0x3E7, [0x3E6]), (0x3E9, [0x3E8]),
    (0x3EB, [0x3EA]), (0x3ED, [0x3EC]), (0x3EF, [0x3EE]), (0x3F0, [0x39A]),
    (0x3F1, [0x3A1]), (0x3F2, [0x3F9]), (0x3F3, [0x37F]), (0x3F5, [0x395]),
    (0x3F8, [0x3F7]), (0x3FB, [0x3FA]), (0x430, [0x410]), (0x431, [0x411]),
    (0x432, [0x412]), (0x433, [0x413]), (0x434, [0x414]), (0x435, [0x415])]"

definition title_table_10 :: "(cp \<times> cp list) list" where
  "title_table_10 = [
    (0x436, [0x416]), (0x437, [0x417]), (0x438, [0x418]), (0x439, [0x419]),
    (0x43A, [0x41A]), (0x43B, [0x41B]), (0x43C, [0x41C]), (0x43D, [0x41D]),
    (0x43E, [0x41E]), (0x43F, [0x41F]), (0x440, [0x420]), (0x441, [0x421]),
    (0x442, [0x422]), (0x443, [0x423]), (0x444, [0x424]), (0x445, [0x425]),
    (0x446, [0x426]), (0x447, [0x427]), (0x448, [0x428]), (0x449, [0x429]),
    (0x44A, [0x42A]), (0x44B, [0x42B]), (0x44C, [0x42C]), (0x44D, [0x42D]),
    (0x44E, [0x42E]), (0x44F, [0x42F]), (0x450, [0x400]), (0x451, [0x401]),
    (0x452, [0x402]), (0x453, [0x403]), (0x454, [0x404]), (0x455, [0x405])]"

definition title_table_11 :: "(cp \<times> cp list) list" where
  "title_table_11 = [
    (0x456, [0x406]), (0x457, [0x407]), (0x458, [0x408]), (0x459, [0x409]),
    (0x45A, [0x40A]), (0x45B, [0x40B]), (0x45C, [0x40C]), (0x45D, [0x40D]),
    (0x45E, [0x40E]), (0x45F, [0x40F]), (0x461, [0x460]), (0x463, [0x462]),
    (0x465, [0x464]), (0x467, [0x466]), (0x469, [0x468]), (0x46B, [0x46A]),
    (0x46D, [0x46C]), (0x46F, [0x46E]), (0x471, [0x470]), (0x473, [0x472]),
    (0x475, [0x474]), (0x477, [0x476]), (0x479, [0x478]), (0x47B, [0x47A]),
    (0x47D, [0x47C]), (0x47F, [0x47E]), (0x481, [0x480]), (0x48B, [0x48A]),
    (0x48D, [0x48C]), (0x48F, [0x48E]), (0x491, [0x490]), (0x493, [0x492])]"

definition title_table_12 :: "(cp \<times> cp list) list" where
  "title_table_12 = [
    (0x495, [0x494]), (0x497, [0x496]), (0x499, [0x498]), (0x49B, [0x49A]),
    (0x49D, [0x49C]), (0x49F, [0x49E]), (0x4A1, [0x4A0]), (0x4A3, [0x4A2]),
    (0x4A5, [0x4A4]), (0x4A7, [0x4A6]), (0x4A9, [0x4A8]), (0x4AB, [0x4AA]),
    (0x4AD, [0x4AC]), (0x4AF, [0x4AE]), (0x4B1, [0x4B0]), (0x4B3, [0x4B2]),
    (0x4B5, [0x4B4]), (0x4B7, [0x4B6]), (0x4B9, [0x4B8]), (0x4BB, [0x4BA]),
    (0x4BD, [0x4BC]), (0x4BF, [0x4BE]), (0x4C2, [0x4C1]), (0x4C4, [0x4C3]),
    (0x4C6, [0x4C5]), (0x4C8, [0x4C7]), (0x4CA, [0x4C9]), (0x4CC, [0x4CB]),
    (0x4CE, [0x4CD]), (0x4CF, [0x4C0]), (0x4D1, [0x4D0]), (0x4D3, [0x4D2])]"

definition title_table_13 :: "(cp \<times> cp list) list" where
  "title_table_13 = [
    (0x4D5, [0x4D4]), (0x4D7, [0x4D6]), (0x4D9, [0x4D8]), (0x4DB, [0x4DA]),
    (0x4DD, [0x4DC]), (0x4DF, [0x4DE]), (0x4E1, [0x4E0]), (0x4E3, [0x4E2]),
    (0x4E5, [0x4E4]), (0x4E7, [0x4E6]), (0x4E9, [0x4E8]), (0x4EB, [0x4EA]),
    (0x4ED, [0x4EC]), (0x4EF, [0x4EE]), (0x4F1, [0x4F0]), (0x4F3, [0x4F2]),
    (0x4F5, [0x4F4]), (0x4F7, [0x4F6]), (0x4F9, [0x4F8]), (0x4FB, [0x4FA]),
    (0x4FD, [0x4FC]), (0x4FF, [0x4FE]), (0x501, [0x500]), (0x503, [0x502]),
    (0x505, [0x504]), (0x507, [0x506]), (0x509, [0x508]), (0x50B, [0x50A]),
    (0x50D, [0x50C]), (0x50F, [0x50E]), (0x511, [0x510]), (0x513, [0x512])]"

definition title_table_14 :: "(cp \<times> cp list) list" where
  "title_table_14 = [
    (0x515, [0x514]), (0x517, [0x516]), (0x519, [0x518]), (0x51B, [0x51A]),
    (0x51D, [0x51C]), (0x51F, [0x51E]), (0x521, [0x520]), (0x523, [0x522]),
    (0x525, [0x524]), (0x527, [0x526]), (0x529, [0x528]), (0x52B, [0x52A]),
    (0x52D, [0x52C]), (0x52F, [0x52E]), (0x561, [0x531]), (0x562, [0x532]),
    (0x563, [0x533]), (0x564, [0x534]), (0x565, [0x535]), (0x566, [0x536]),
    (0x567, [0x537]), (0x568, [0x538]), (0x569, [0x539]), (0x56A, [0x53A]),
    (0x56B, [0x53B]), (0x56C, [0x53C]), (0x56D, [0x53D]), (0x56E, [0x53E]),
    (0x56F, [0x53F]), (0x570, [0x540]), (0x571, [0x541]), (0x572, [0x542])]"

definition title_table_15 :: "(cp \<times> cp list) list" where
  "title_table_15 = [
    (0x573, [0x543]), (0x574, [0x544]), (0x575, [0x545]), (0x576, [0x546]),
    (0x577, [0x547]), (0x578, [0x548]), (0x579, [0x549]), (0x57A, [0x54A]),
    (0x57B, [0x54B]), (0x57C, [0x54C]), (0x57D, [0x54D]), (0x57E, [0x54E]),
    (0x57F, [0x54F]), (0x580, [0x550]), (0x581, [0x551]), (0x582, [0x552]),
    (0x583, [0x553]), (0x584, [0x554]), (0x585, [0x555]), (0x586, [0x556]),
    (0x587, [0x535, 0x582]), (0x13F8, [0x13F0]), (0x13F9, [0x13F1]), (0x13FA, [0x13F2]),
    (0x13FB, [0x13F3]), (0x13FC, [0x13F4]), (0x13FD, [0x13F5]), (0x1C80, [0x412]),
    (0x1C81, [0x414]), (0x1C82, [0x41E]), (0x1C83, [0x421]), (0x1C84, [0x422])]"

definition title_table_16 :: "(cp \<times> cp list) list" where
  "title_table_16 = [
    (0x1C85, [0x422]), (0x1C86, [0x42A]), (0x1C87, [0x462]), (0x1C88, [0xA64A]),
    (0x1D79, [0xA77D]), (0x1D7D, [0x2C63]), (0x1D8E, [0xA7C6]), (0x1E01, [0x1E00]),
    (0x1E03, [0x1E02]), (0x1E05, [0x1E04]), (0x1E07, [0x1E06]), (0x1E09, [0x1E08]),
    (0x1E0B, [0x1E0A]), (0x1E0D, [0x1E0C]), (0x1E0F, [0x1E0E]), (0x1E11, [0x1E10]),
    (0x1E13, [0x1E12]), (0x1E15, [0x1E14]), (0x1E17, [0x1E16]), (0x1E19, [0x1E18]),
    (0x1E1B, [0x1E1A]), (0x1E1D, [0x1E1C]), (0x1E1F, [0x1E1E]), (0x1E21, [0x1E20]),
    (0x1E23, [0x1E22]), (0x1E25, [0x1E24]), (0x1E27, [0x1E26]), (0x1E29, [0x1E28]),
    (0x1E2B, [0x1E2A]), (0x1E2D, [0x1E2C]), (0x1E2F, [0x1E2E]), (0x1E31, [0x1E30])]"

definition title_table_17 :: "(cp \<times> cp list) list" where
  "title_table_17 = [
    (0x1E33, [0x1E32]), (0x1E35, [0x1E34]), (0x1E37, [0x1E36]), (0x1E39, [0x1E38]),
    (0x1E3B, [0x1E3A]), (0x1E3D, [0x1E3C]), (0x1E3F, [0x1E3E]), (0x1E41, [0x1E40]),
    (0x1E43, [0x1E42]), (0x1E45, [0x1E44]), (0x1E47, [0x1E46]), (0x1E49, [0x1E48]),
    (0x1E4B, [0x1E4A]), (0x1E4D, [0x1E4C]), (0x1E4F, [0x1E4E]), (0x1E51, [0x1E50]),
    (0x1E53, [0x1E52]), (0x1E55, [0x1E54]), (0x1E57, [0x1E56]), (0x1E59, [0x1E58]),
    (0x1E5B, [0x1E5A]), (0x1E5D, [0x1E5C]), (0x1E5F, [0x1E5E]), (0x1E61, [0x1E60]),
    (0x1E63, [0x1E62]), (0x1E65, [0x1E64]), (0x1E67, [0x1E66]), (0x1E69, [0x1E68]),
    (0x1E6B, [0x1E6A]), (0x1E6D, [0x1E6C]), (0x1E6F, [0x1E6E]), (0x1E71, [0x1E70])]"

definition title_table_18 :: "(cp \<times> cp list) list" where
  "title_table_18 = [
    (0x1E73, [0x1E72]), (0x1E75, [0x1E74]), (0x1E77, [0x1E76]), (0x1E79, [0x1E78]),
    (0x1E7B, [0x1E7A]), (0x1E7D, [0x1E7C]), (0x1E7F, [0x1E7E]), (0x1E81, [0x1E80]),
    (0x1E83, [0x1E82]), (0x1E85, [0x1E84]), (0x1E87, [0x1E86]), (0x1E89, [0x1E88]),
    (0x1E8B, [0x1E8A]), (0x1E8D, [0x1E8C]), (0x1E8F, [0x1E8E]), (0x1E91, [0x1E90]),
    (0x1E93, [0x1E92]), (0x1E95, [0x1E94]), (0x1E96, [0x48, 0x331]), (0x1E97, [0x54, 0x308]),
    (0x1E98, [0x57, 0x30A]), (0x1E99, [0x59, 0x30A]), (0x1E9A, [0x41, 0x2BE]), (0x1E9B, [0x1E60]),
    (0x1EA1, [0x1EA0]), (0x1EA3, [0x1EA2]), (0x1EA5, [0x1EA4]), (0x1EA7, [0x1EA6]),
    (0x1EA9, [0x1EA8]), (0x1EAB, [0x1EAA]), (0x1EAD, [0x1EAC]), (0x1EAF, [0x1EAE])]"

definition title_table_19 :: "(cp \<times> cp list) list" where
  "title_table_19 = [
    (0x1EB1, [0x1EB0]), (0x1EB3, [0x1EB2]), (0x1EB5, [0x1EB4]), (0x1EB7, [0x1EB6]),
    (0x1EB9, [0x1EB8]), (0x1EBB, [0x1EBA]), (0x1EBD, [0x1EBC]), (0x1EBF, [0x1EBE]),
    (0x1EC1, [0x1EC0]), (0x1EC3, [0x1EC2]), (0x1EC5, [0x1EC4]), (0x1EC7, [0x1EC6]),
    (0x1EC9, [0x1EC8]), (0x1ECB, [0x1ECA]), (0x1ECD, [0x1ECC]), (0x1ECF, [0x1ECE]),
    (0x1ED1, [0x1ED0]), (0x1ED3, [0x1ED2]), (0x1ED5, [0x1ED4]), (0x1ED7, [0x1ED6]),
    (0x1ED9, [0x1ED8]), (0x1EDB, [0x1EDA]), (0x1EDD, [0x1EDC]), (0x1EDF, [0x1EDE]),
    (0x1EE1, [0x1EE0]), (0x1EE3, [0x1EE2]), (0x1EE5, [0x1EE4]), (0x1EE7, [0x1EE6]),
    (0x1EE9, [0x1EE8]), (0x1EEB, [0x1EEA]), (0x1EED, [0x1EEC]), (0x1EEF, [0x1EEE])]"

definition title_table_20 :: "(cp \<times> cp list) list" where
  "title_table_20 = [
    (0x1EF1, [0x1EF0]), (0x1EF3, [0x1EF2]), (0x1EF5, [0x1EF4]), (0x1EF7, [0x1EF6]),
    (0x1EF9, [0x1EF8]), (0x1EFB, [0x1EFA]), (0x1EFD, [0x1EFC]), (0x1EFF, [0x1EFE]),
    (0x1F00, [0x1F08]), (0x1F01, [0x1F09]), (0x1F02, [0x1F0A]), (0x1F03, [0x1F0B]),
    (0x1F04, [0x1F0C]), (0x1F05, [0x1F0D]), (0x1F06, [0x1F0E]), (0x1F07, [0x1F0F]),
    (0x1F10, [0x1F18]), (0x1F11, [0x1F19]), (0x1F12, [0x1F1A]), (0x1F13, [0x1F1B]),
    (0x1F14, [0x1F1C]), (0x1F15, [0x1F1D]), (0x1F20, [0x1F28]), (0x1F21, [0x1F29]),
    (0x1F22, [0x1F2A]), (0x1F23, [0x1F2B]), (0x1F24, [0x1F2C]), (0x1F25, [0x1F2D]),
    (0x1F26, [0x1F2E]), (0x1F27, [0x1F2F]), (0x1F30, [0x1F38]), (0x1F31, [0x1F39])]"

definition title_table_21 :: "(cp \<times> cp list) list" where
  "title_table_21 = [
    (0x1F32, [0x1F3A]), (0x1F33, [0x1F3B]), (0x1F34, [0x1F3C]), (0x1F35, [0x1F3D]),
    (0x1F36, [0x1F3E]), (0x1F37, [0x1F3F]), (0x1F40, [0x1F48]), (0x1F41, [0x1F49]),
    (0x1F42, [0x1F4A]), (0x1F43, [0x1F4B]), (0x1F44, [0x1F4C]), (0x1F45, [0x1F4D]),
    (0x1F50, [0x3A5, 0x313]), (0x1F51, [0x1F59]), (0x1F52, [0x3A5, 0x313, 0x300]), (0x1F53, [0x1F5B]),
    (0x1F54, [0x3A5, 0x313, 0x301]), (0x1F55, [0x1F5D]), (0x1F56, [0x3A5, 0x313, 0x342]), (0x1F57, [0x1F5F]),
    (0x1F60, [0x1F68]), (0x1F61, [0x1F69]), (0x1F62, [0x1F6A]), (0x1F63, [0x1F6B]),
    (0x1F64, [0x1F6C]), (0x1F65, [0x1F6D]), (0x1F66, [0x1F6E]), (0x1F67, [0x1F6F]),
    (0x1F70, [0x1FBA]), (0x1F71, [0x1FBB]), (0x1F72, [0x1FC8]), (0x1F73, [0x1FC9])]"

definition title_table_22 :: "(cp \<times> cp list) list" where
  "title_table_22 = [
    (0x1F74, [0x1FCA]), (0x1F75, [0x1FCB]), (0x1F76, [0x1FDA]), (0x1F77, [0x1FDB]),
    (0x1F78, [0x1FF8]), (0x1F79, [0x1FF9]), (0x1F7A, [0x1FEA]), (0x1F7B, [0x1FEB]),
    (0x1F7C, [0x1FFA]), (0x1F7D, [0x1FFB]), (0x1F80, [0x1F88]), (0x1F81, [0x1F89]),
    (0x1F82, [0x1F8A]), (0x1F83, [0x1F8B]), (0x1F84, [0x1F8C]), (0x1F85, [0x1F8D]),
    (0x1F86, [0x1F8E]), (0x1F87, [0x1F8F]), (0x1F90, [0x1F98]), (0x1F91, [0x1F99]),
    (0x1F92, [0x1F9A]), (0x1F93, [0x1F9B]), (0x1F94, [0x1F9C]), (0x1F95, [0x1F9D]),
    (0x1F96, [0x1F9E]), (0x1F97, [0x1F9F]), (0x1FA0, [0x1FA8]), (0x1FA1, [0x1FA9]),
    (0x1FA2, [0x1FAA]), (0x1FA3, [0x1FAB]), (0x1FA4, [0x1FAC]), (0x1FA5, [0x1FAD])]"

definition title_table_23 :: "(cp \<times> cp list) list" where
  "title_table_23 = [
    (0x1FA6, [0x1FAE]), (0x1FA7, [0x1FAF]), (0x1FB0, [0x1FB8]), (0x1FB1, [0x1FB9]),
    (0x1FB2, [0x1FBA, 0x345]), (0x1FB3, [0x1FBC]), (0x1FB4, [0x386, 0x345]), (0x1FB6, [0x391, 0x342]),
    (0x1FB7, [0x391, 0x342, 0x345]), (0x1FBE, [0x399]), (0x1FC2, [0x1FCA, 0x345]), (0x1FC3, [0x1FCC]),
    (0x1FC4, [0x389, 0x345]), (0x1FC6, [0x397, 0x342]), (0x1FC7, [0x397, 0x342, 0x345]), (0x1FD0, [0x1FD8]),
    (0x1FD1, [0x1FD9]), (0x1FD2, [0x399, 0x308, 0x300]), (0x1FD3, [0x399, 0x308, 0x301]), (0x1FD6, [0x399, 0x342]),
    (0x1FD7, [0x399, 0x308, 0x342]), (0x1FE0, [0x1FE8]), (0x1FE1, [0x1FE9]), (0x1FE2, [0x3A5, 0x308, 0x300]),
    (0x1FE3, [0x3A5, 0x308, 0x301]), (0x1FE4, [0x3A1, 0x313]), (0x1FE5, [0x1FEC]), (0x1FE6, [0x3A5, 0x342]),
    (0x1FE7, [0x3A5, 0x308, 0x342]), (0x1FF2, [0x1FFA, 0x345]), (0x1FF3, [0x1FFC]), (0x1FF4, [0x38F, 0x345])]"

definition title_table_24 :: "(cp \<times> cp list) list" where
  "title_table_24 = [
    (0x1FF6, [0x3A9, 0x342]), (0x1FF7, [0x3A9, 0x342, 0x345]), (0x214E, [0x2132]), (0x2170, [0x2160]),
    (0x2171, [0x2161]), (0x2172, [0x2162]), (0x2173, [0x2163]), (0x2174, [0x2164]),
    (0x2175, [0x2165]), (0x2176, [0x2166]), (0x2177, [0x2167]), (0x2178, [0x2168]),
    (0x2179, [0x2169]), (0x217A, [0x216A]), (0x217B, [0x216B]), (0x217C, [0x216C]),
    (0x217D, [0x216D]), (0x217E, [0x216E]), (0x217F, [0x216F]), (0x2184, [0x2183]),
    (0x24D0, [0x24B6]), (0x24D1, [0x24B7]), (0x24D2, [0x24B8]), (0x24D3, [0x24B9]),
    (0x24D4, [0x24BA]), (0x24D5, [0x24BB]), (0x24D6, [0x24BC]), (0x24D7, [0x24BD]),
    (0x24D8, [0x24BE]), (0x24D9, [0x24BF]), (0x24DA, [0x24C0]), (0x24DB, [0x24C1])]"

definition title_table_25 :: "(cp \<times> cp list) list" where
  "title_table_25 = [
    (0x24DC, [0x24C2]), (0x24DD, [0x24C3]), (0x24DE, [0x24C4]), (0x24DF, [0x24C5]),
    (0x24E0, [0x24C6]), (0x24E1, [0x24C7]), (0x24E2, [0x24C8]), (0x24E3, [0x24C9]),
    (0x24E4, [0x24CA]), (0x24E5, [0x24CB]), (0x24E6, [0x24CC]), (0x24E7, [0x24CD]),
    (0x24E8, [0x24CE]), (0x24E9, [0x24CF]), (0x2C30, [0x2C00]), (0x2C31, [0x2C01]),
    (0x2C32, [0x2C02]), (0x2C33, [0x2C03]), (0x2C34, [0x2C04]), (0x2C35, [0x2C05]),
    (0x2C36, [0x2C06]), (0x2C37, [0x2C07]), (0x2C38, [0x2C08]), (0x2C39, [0x2C09]),
    (0x2C3A, [0x2C0A]), (0x2C3B, [0x2C0B]), (0x2C3C, [0x2C0C]), (0x2C3D, [0x2C0D]),
    (0x2C3E, [0x2C0E]), (0x2C3F, [0x2C0F]), (0x2C40, [0x2C10]), (0x2C41, [0x2C11])]"

definition title_table_26 :: "(cp \<times> cp list) list" where
  "title_table_26 = [
    (0x2C42, [0x2C12]), (0x2C43, [0x2C13]), (0x2C44, [0x2C14]), (0x2C45, [0x2C15]),
    (0x2C46, [0x2C16]), (0x2C47, [0x2C17]), (0x2C48, [0x2C18]), (0x2C49, [0x2C19]),
    (0x2C4A, [0x2C1A]), (0x2C4B, [0x2C1B]), (0x2C4C, [0x2C1C]), (0x2C4D, [0x2C1D]),
    (0x2C4E, [0x2C1E]), (0x2C4F, [0x2C1F]), (0x2C50, [0x2C20]), (0x2C51, [0x2C21]),
    (0x2C52, [0x2C22]), (0x2C53, [0x2C23]), (0x2C54, [0x2C24]), (0x2C55, [0x2C25]),
    (0x2C56, [0x2C26]), (0x2C57, [0x2C27]), (0x2C58, [0x2C28]), (0x2C59, [0x2C29]),
    (0x2C5A, [0x2C2A]), (0x2C5B, [0x2C2B]), (0x2C5C, [0x2C2C]), (0x2C5D, [0x2C2D]),
    (0x2C5E, [0x2C2E]), (0x2C5F, [0x2C2F]), (0x2C61, [0x2C60]), (0x2C65, [0x23A])]"

definition title_table_27 :: "(cp \<times> cp list) list" where
  "title_table_27 = [
    (0x2C66, [0x23E]), (0x2C68, [0x2C67]), (0x2C6A, [0x2C69]), (0x2C6C, [0x2C6B]),
    (0x2C73, [0x2C72]), (0x2C76, [0x2C75]), (0x2C81, [0x2C80]), (0x2C83, [0x2C82]),
    (0x2C85, [0x2C84]), (0x2C87, [0x2C86]), (0x2C89, [0x2C88]), (0x2C8B, [0x2C8A]),
    (0x2C8D, [0x2C8C]), (0x2C8F, [0x2C8E]), (0x2C91, [0x2C90]), (0x2C93, [0x2C92]),
    (0x2C95, [0x2C94]), (0x2C97, [0x2C96]), (0x2C99, [0x2C98]), (0x2C9B, [0x2C9A]),
    (0x2C9D, [0x2C9C]), (0x2C9F, [0x2C9E]), (0x2CA1, [0x2CA0]), (0x2CA3, [0x2CA2]),
    (0x2CA5, [0x2CA4]), (0x2CA7, [0x2CA6]), (0x2CA9, [0x2CA8]), (0x2CAB, [0x2CAA]),
    (0x2CAD, [0x2CAC]), (0x2CAF, [0x2CAE]), (0x2CB1, [0x2CB0]), (0x2CB3, [0x2CB2])]"

definition title_table_28 :: "(cp \<times> cp list) list" where
  "title_table_28 = [
    (0x2CB5, [0x2CB4]), (0x2CB7, [0x2CB6]), (0x2CB9, [0x2CB8]), (0x2CBB, [0x2CBA]),
    (0x2CBD, [0x2CBC]), (0x2CBF, [0x2CBE]), (0x2CC1, [0x2CC0]), (0x2CC3, [0x2CC2]),
    (0x2CC5, [0x2CC4]), (0x2CC7, [0x2CC6]), (0x2CC9, [0x2CC8]), (0x2CCB, [0x2CCA]),
    (0x2CCD, [0x2CCC]), (0x2CCF, [0x2CCE]), (0x2CD1, [0x2CD0]), (0x2CD3, [0x2CD2]),
    (0x2CD5, [0x2CD4]), (0x2CD7, [0x2CD6]), (0x2CD9, [0x2CD8]), (0x2CDB, [0x2CDA]),
    (0x2CDD, [0x2CDC]), (0x2CDF, [0x2CDE]), (0x2CE1, [0x2CE0]), (0x2CE3, [0x2CE2]),
    (0x2CEC, [0x2CEB]), (0x2CEE, [0x2CED]), (0x2CF3, [0x2CF2]), (0x2D00, [0x10A0]),
    (0x2D01, [0x10A1]), (0x2D02, [0x10A2]), (0x2D03, [0x10A3]), (0x2D04, [0x10A4])]"

definition title_table_29 :: "(cp \<times> cp list) list" where
  "title_table_29 = [
    (0x2D05, [0x10A5]), (0x2D06, [0x10A6]), (0x2D07, [0x10A7]), (0x2D08, [0x10A8]),
    (0x2D09, [0x10A9]), (0x2D0A, [0x10AA]), (0x2D0B, [0x10AB]), (0x2D0C, [0x10AC]),
    (0x2D0D, [0x10AD]), (0x2D0E, [0x10AE]), (0x2D0F, [0x10AF]), (0x2D10, [0x10B0]),
    (0x2D11, [0x10B1]), (0x2D12, [0x10B2]), (0x2D13, [0x10B3]), (0x2D14, [0x10B4]),
    (0x2D15, [0x10B5]), (0x2D16, [0x10B6]), (0x2D17, [0x10B7]), (0x2D18, [0x10B8]),
    (0x2D19, [0x10B9]), (0x2D1A, [0x10BA]), (0x2D1B, [0x10BB]), (0x2D1C, [0x10BC]),
    (0x2D1D, [0x10BD]), (0x2D1E, [0x10BE]), (0x2D1F, [0x10BF]), (0x2D20, [0x10C0]),
    (0x2D21, [0x10C1]), (0x2D22, [0x10C2]), (0x2D23, [0x10C3]), (0x2D24, [0x10C4])]"

definition title_table_30 :: "(cp \<times> cp list) list" where
  "title_table_30 = [
    (0x2D25, [0x10C5]), (0x2D27, [0x10C7]), (0x2D2D, [0x10CD]), (0xA641, [0xA640]),
    (0xA643, [0xA642]), (0xA645, [0xA644]), (0xA647, [0xA646]), (0xA649, [0xA648]),
    (0xA64B, [0xA64A]), (0xA64D, [0xA64C]), (0xA64F, [0xA64E]), (0xA651, [0xA650]),
    (0xA653, [0xA652]), (0xA655, [0xA654]), (0xA657, [0xA656]), (0xA659, [0xA658]),
    (0xA65B, [0xA65A]), (0xA65D, [0xA65C]), (0xA65F, [0xA65E]), (0xA661, [0xA660]),
    (0xA663, [0xA662]), (0xA665, [0xA664]), (0xA667, [0xA666]), (0xA669, [0xA668]),
    (0xA66B, [0xA66A]), (0xA66D, [0xA66C]), (0xA681, [0xA680]), (0xA683, [0xA682]),
    (0xA685, [0xA684]), (0xA687, [0xA686]), (0xA689, [0xA688]), (0xA68B, [0xA68A])]"

definition title_table_31 :: "(cp \<times> cp list) list" where
  "title_table_31 = [
    (0xA68D, [0xA68C]), (0xA68F, [0xA68E]), (0xA691, [0xA690]), (0xA693, [0xA692]),
    (0xA695, [0xA694]), (0xA697, [0xA696]), (0xA699, [0xA698]), (0xA69B, [0xA69A]),
    (0xA723, [0xA722]), (0xA725, [0xA724]), (0xA727, [0xA726]), (0xA729, [0xA728]),
    (0xA72B, [0xA72A]), (0xA72D, [0xA72C]), (0xA72F, [0xA72E]), (0xA733, [0xA732]),
    (0xA735, [0xA734]), (0xA737, [0xA736]), (0xA739, [0xA738]), (0xA73B, [0xA73A]),
    (0xA73D, [0xA73C]), (0xA73F, [0xA73E]), (0xA741, [0xA740]), (0xA743, [0xA742]),
    (0xA745, [0xA744]), (0xA747, [0xA746]), (0xA749, [0xA748]), (0xA74B, [0xA74A]),
    (0xA74D, [0xA74C]), (0xA74F, [0xA74E]), (0xA751, [0xA750]), (0xA753, [0xA752])]"

definition title_table_32 :: "(cp \<times> cp list) list" where
  "title_table_32 = [
    (0xA755, [0xA754]), (0xA757, [0xA756]), (0xA759, [0xA758]), (0xA75B, [0xA75A]),
    (0xA75D, [0xA75C]), (0xA75F, [0xA75E]), (0xA761, [0xA760]), (0xA763, [0xA762]),
    (0xA765, [0xA764]), (0xA767, [0xA766]), (0xA769, [0xA768]), (0xA76B, [0xA76A]),
    (0xA76D, [0xA76C]), (0xA76F, [0xA76E]), (0xA77A, [0xA779]), (0xA77C, [0xA77B]),
    (0xA77F, [0xA77E]), (0xA781, [0xA780]), (0xA783, [0xA782]), (0xA785, [0xA784]),
    (0xA787, [0xA786]), (0xA78C, [0xA78B]), (0xA791, [0xA790]), (0xA793, [0xA792]),
    (0xA794, [0xA7C4]), (0xA797, [0xA796]), (0xA799, [0xA798]), (0xA79B, [0xA79A]),
    (0xA79D, [0xA79C]), (0xA79F, [0xA79E]), (0xA7A1, [0xA7A0]), (0xA7A3, [0xA7A2])]"

definition title_table_33 :: "(cp \<times> cp list) list" where
  "title_table_33 = [
    (0xA7A5, [0xA7A4]), (0xA7A7, [0xA7A6]), (0xA7A9, [0xA7A8]), (0xA7B5, [0xA7B4]),
    (0xA7B7, [0xA7B6]), (0xA7B9, [0xA7B8]), (0xA7BB, [0xA7BA]), (0xA7BD, [0xA7BC]),
    (0xA7BF, [0xA7BE]), (0xA7C1, [0xA7C0]), (0xA7C3, [0xA7C2]), (0xA7C8, [0xA7C7]),
    (0xA7CA, [0xA7C9]), (0xA7D1, [0xA7D0]), (0xA7D7, [0xA7D6]), (0xA7D9, [0xA7D8]),
    (0xA7F6, [0xA7F5]), (0xAB53, [0xA7B3]), (0xAB70, [0x13A0]), (0xAB71, [0x13A1]),
    (0xAB72, [0x13A2]), (0xAB73, [0x13A3]), (0xAB74, [0x13A4]), (0xAB75, [0x13A5]),
    (0xAB76, [0x13A6]), (0xAB77, [0x13A7]), (0xAB78, [0x13A8]), (0xAB79, [0x13A9]),
    (0xAB7A, [0x13AA]), (0xAB7B, [0x13AB]), (0xAB7C, [0x13AC]), (0xAB7D, [0x13AD])]"

definition title_table_34 :: "(cp \<times> cp list) list" where
  "title_table_34 = [
    (0xAB7E, [0x13AE]), (0xAB7F, [0x13AF]), (0xAB80, [0x13B0]), (0xAB81, [0x13B1]),
    (0xAB82, [0x13B2]), (0xAB83, [0x13B3]), (0xAB84, [0x13B4]), (0xAB85, [0x13B5]),
    (0xAB86, [0x13B6]), (0xAB87, [0x13B7]), (0xAB88, [0x13B8]), (0xAB89, [0x13B9]),
    (0xAB8A, [0x13BA]), (0xAB8B, [0x13BB]), (0xAB8C, [0x13BC]), (0xAB8D, [0x13BD]),
    (0xAB8E, [0x13BE]), (0xAB8F, [0x13BF]), (0xAB90, [0x13C0]), (0xAB91, [0x13C1]),
    (0xAB92, [0x13C2]), (0xAB93, [0x13C3]), (0xAB94, [0x13C4]), (0xAB95, [0x13C5]),
    (0xAB96, [0x13C6]), (0xAB97, [0x13C7]), (0xAB98, [0x13C8]), (0xAB99, [0x13C9]),
    (0xAB9A, [0x13CA]), (0xAB9B, [0x13CB]), (0xAB9C, [0x13CC]), (0xAB9D, [0x13CD])]"

definition title_table_35 :: "(cp \<times> cp list) list" where
  "title_table_35 = [
    (0xAB9E, [0x13CE]), (0xAB9F, [0x13CF]), (0xABA0, [0x13D0]), (0xABA1, [0x13D1]),
    (0xABA2, [0x13D2]), (0xABA3, [0x13D3]), (0xABA4, [0x13D4]), (0xABA5, [0x13D5]),
    (0xABA6, [0x13D6]), (0xABA7, [0x13D7]), (0xABA8, [0x13D8]), (0xABA9, [0x13D9]),
    (0xABAA, [0x13DA]), (0xABAB, [0x13DB]), (0xABAC, [0x13DC]), (0xABAD, [0x13DD]),
    (0xABAE, [0x13DE]), (0xABAF, [0x13DF]), (0xABB0, [0x13E0]), (0xABB1, [0x13E1]),
    (0xABB2, [0x13E2]), (0xABB3, [0x13E3]), (0xABB4, [0x13E4]), (0xABB5, [0x13E5]),
    (0xABB6, [0x13E6]), (0xABB7, [0x13E7]), (0xABB8, [0x13E8]), (0xABB9, [0x13E9]),
    (0xABBA, [0x13EA]), (0xABBB, [0x13EB]), (0xABBC, [0x13EC]), (0xABBD, [0x13ED])]"

definition title_table_36 :: "(cp \<times> cp list) list" where
  "title_table_36 = [
    (0xABBE, [0x13EE]), (0xABBF, [0x13EF]), (0xFB00, [0x46, 0x66]), (0xFB01, [0x46, 0x69]),
    (0xFB02, [0x46, 0x6C]), (0xFB03, [0x46, 0x66, 0x69]), (0xFB04, [0x46, 0x66, 0x6C]), (0xFB05, [0x53, 0x74]),
    (0xFB06, [0x53, 0x74]), (0xFB13, [0x544, 0x576]), (0xFB14, [0x544, 0x565]), (0xFB15, [0x544, 0x56B]),
    (0xFB16, [0x54E, 0x576]), (0xFB17, [0x544, 0x56D]), (0xFF41, [0xFF21]), (0xFF42, [0xFF22]),
    (0xFF43, [0xFF23]), (0xFF44, [0xFF24]), (0xFF45, [0xFF25]), (0xFF46, [0xFF26]),
    (0xFF47, [0xFF27]), (0xFF48, [0xFF28]), (0xFF49, [0xFF29]), (0xFF4A, [0xFF2A]),
    (0xFF4B, [0xFF2B]), (0xFF4C, [0xFF2C]), (0xFF4D, [0xFF2D]), (0xFF4E, [0xFF2E]),
    (0xFF4F, [0xFF2F]), (0xFF50, [0xFF30]), (0xFF51, [0xFF31]), (0xFF52, [0xFF32])]"

definition title_table_37 :: "(cp \<times> cp list) list" where
  "title_table_37 = [
    (0xFF53, [0xFF33]), (0xFF54, [0xFF34]), (0xFF55, [0xFF35]), (0xFF56, [0xFF36]),
    (0xFF57, [0xFF37]), (0xFF58, [0xFF38]), (0xFF59, [0xFF39]), (0xFF5A, [0xFF3A]),
    (0x10428, [0x10400]), (0x10429, [0x10401]), (0x1042A, [0x10402]), (0x1042B, [0x10403]),
    (0x1042C, [0x10404]), (0x1042D, [0x10405]), (0x1042E, [0x10406]), (0x1042F, [0x10407]),
    (0x10430, [0x10408]), (0x10431, [0x10409]), (0x10432, [0x1040A]), (0x10433, [0x1040B]),
    (0x10434, [0x1040C]), (0x10435, [0x1040D]), (0x10436, [0x1040E]), (0x10437, [0x1040F]),
    (0x10438, [0x10410]), (0x10439, [0x10411]), (0x1043A, [0x10412]), (0x1043B, [0x10413]),
    (0x1043C, [0x10414]), (0x1043D, [0x10415]), (0x1043E, [0x10416]), (0x1043F, [0x10417])]"

definition title_table_38 :: "(cp \<times> cp list) list" where
  "title_table_38 = [
    (0x10440, [0x10418]), (0x10441, [0x10419]), (0x10442, [0x1041A]), (0x10443, [0x1041B]),
    (0x10444, [0x1041C]), (0x10445, [0x1041D]), (0x10446, [0x1041E]), (0x10447, [0x1041F]),
    (0x10448, [0x10420]), (0x10449, [0x10421]), (0x1044A, [0x10422]), (0x1044B, [0x10423]),
    (0x1044C, [0x10424]), (0x1044D, [0x10425]), (0x1044E, [0x10426]), (0x1044F, [0x10427]),
    (0x104D8, [0x104B0]), (0x104D9, [0x104B1]), (0x104DA, [0x104B2]), (0x104DB, [0x104B3]),
    (0x104DC, [0x104B4]), (0x104DD, [0x104B5]), (0x104DE, [0x104B6]), (0x104DF, [0x104B7]),
    (0x104E0, [0x104B8]), (0x104E1, [0x104B9]), (0x104E2, [0x104BA]), (0x104E3, [0x104BB]),
    (0x104E4, [0x104BC]), (0x104E5, [0x104BD]), (0x104E6, [0x104BE]), (0x104E7, [0x104BF])]"

definition title_table_39 :: "(cp \<times> cp list) list" where
  "title_table_39 = [
    (0x104E8, [0x104C0]), (0x104E9, [0x104C1]), (0x104EA, [0x104C2]), (0x104EB, [0x104C3]),
    (0x104EC, [0x104C4]), (0x104ED, [0x104C5]), (0x104EE, [0x104C6]), (0x104EF, [0x104C7]),
    (0x104F0, [0x104C8]), (0x104F1, [0x104C9]), (0x104F2, [0x104CA]), (0x104F3, [0x104CB]),
    (0x104F4, [0x104CC]), (0x104F5, [0x104CD]), (0x104F6, [0x104CE]), (0x104F7, [0x104CF]),
    (0x104F8, [0x104D0]), (0x104F9, [0x104D1]), (0x104FA, [0x104D2]), (0x104FB, [0x104D3]),
    (0x10597, [0x10570]), (0x10598, [0x10571]), (0x10599, [0x10572]), (0x1059A, [0x10573]),
    (0x1059B, [0x10574]), (0x1059C, [0x10575]), (0x1059D, [0x10576]), (0x1059E, [0x10577]),
    (0x1059F, [0x10578]), (0x105A0, [0x10579]), (0x105A1, [0x1057A]), (0x105A3, [0x1057C])]"

definition title_table_40 :: "(cp \<times> cp list) list" where
  "title_table_40 = [
    (0x105A4, [0x1057D]), (0x105A5, [0x1057E]), (0x105A6, [0x1057F]), (0x105A7, [0x10580]),
    (0x105A8, [0x10581]), (0x105A9, [0x10582]), (0x105AA, [0x10583]), (0x105AB, [0x10584]),
    (0x105AC, [0x10585]), (0x105AD, [0x10586]), (0x105AE, [0x10587]), (0x105AF, [0x10588]),
    (0x105B0, [0x10589]), (0x105B1, [0x1058A]), (0x105B3, [0x1058C]), (0x105B4, [0x1058D]),
    (0x105B5, [0x1058E]), (0x105B6, [0x1058F]), (0x105B7, [0x10590]), (0x105B8, [0x10591]),
    (0x105B9, [0x10592]), (0x105BB, [0x10594]), (0x105BC, [0x10595]), (0x10CC0, [0x10C80]),
    (0x10CC1, [0x10C81]), (0x10CC2, [0x10C82]), (0x10CC3, [0x10C83]), (0x10CC4, [0x10C84]),
    (0x10CC5, [0x10C85]), (0x10CC6, [0x10C86]), (0x10CC7, [0x10C87]), (0x10CC8, [0x10C88])]"

definition title_table_41 :: "(cp \<times> cp list) list" where
  "title_table_41 = [
    (0x10CC9, [0x10C89]), (0x10CCA, [0x10C8A]), (0x10CCB, [0x10C8B]), (0x10CCC, [0x10C8C]),
    (0x10CCD, [0x10C8D]), (0x10CCE, [0x10C8E]), (0x10CCF, [0x10C8F]), (0x10CD0, [0x10C90]),
    (0x10CD1, [0x10C91]), (0x10CD2, [0x10C92]), (0x10CD3, [0x10C93]), (0x10CD4, [0x10C94]),
    (0x10CD5, [0x10C95]), (0x10CD6, [0x10C96]), (0x10CD7, [0x10C97]), (0x10CD8, [0x10C98]),
    (0x10CD9, [0x10C99]), (0x10CDA, [0x10C9A]), (0x10CDB, [0x10C9B]), (0x10CDC, [0x10C9C]),
    (0x10CDD, [0x10C9D]), (0x10CDE, [0x10C9E]), (0x10CDF, [0x10C9F]), (0x10CE0, [0x10CA0]),
    (0x10CE1, [0x10CA1]), (0x10CE2, [0x10CA2]), (0x10CE3, [0x10CA3]), (0x10CE4, [0x10CA4]),
    (0x10CE5, [0x10CA5]), (0x10CE6, [0x10CA6]), (0x10CE7, [0x10CA7]), (0x10CE8, [0x10CA8])]"

definition title_table_42 :: "(cp \<times> cp list) list" where
  "title_table_42 = [
    (0x10CE9, [0x10CA9]), (0x10CEA, [0x10CAA]), (0x10CEB, [0x10CAB]), (0x10CEC, [0x10CAC]),
    (0x10CED, [0x10CAD]), (0x10CEE, [0x10CAE]), (0x10CEF, [0x10CAF]), (0x10CF0, [0x10CB0]),
    (0x10CF1, [0x10CB1]), (0x10CF2, [0x10CB2]), (0x118C0, [0x118A0]), (0x118C1, [0x118A1]),
    (0x118C2, [0x118A2]), (0x118C3, [0x118A3]), (0x118C4, [0x118A4]), (0x118C5, [0x118A5]),
    (0x118C6, [0x118A6]), (0x118C7, [0x118A7]), (0x118C8, [0x118A8]), (0x118C9, [0x118A9]),
    (0x118CA, [0x118AA]), (0x118CB, [0x118AB]), (0x118CC, [0x118AC]), (0x118CD, [0x118AD]),
    (0x118CE, [0x118AE]), (0x118CF, [0x118AF]), (0x118D0, [0x118B0]), (0x118D1, [0x118B1]),
    (0x118D2, [0x118B2]), (0x118D3, [0x118B3]), (0x118D4, [0x118B4]), (0x118D5, [0x118B5])]"

definition title_table_43 :: "(cp \<times> cp list) list" where
  "title_table_43 = [
    (0x118D6, [0x118B6]), (0x118D7, [0x118B7]), (0x118D8, [0x118B8]), (0x118D9, [0x118B9]),
    (0x118DA, [0x118BA]), (0x118DB, [0x118BB]), (0x118DC, [0x118BC]), (0x118DD, [0x118BD]),
    (0x118DE, [0x118BE]), (0x118DF, [0x118BF]), (0x16E60, [0x16E40]), (0x16E61, [0x16E41]),
    (0x16E62, [0x16E42]), (0x16E63, [0x16E43]), (0x16E64, [0x16E44]), (0x16E65, [0x16E45]),
    (0x16E66, [0x16E46]), (0x16E67, [0x16E47]), (0x16E68, [0x16E48]), (0x16E69, [0x16E49]),
    (0x16E6A, [0x16E4A]), (0x16E6B, [0x16E4B]), (0x16E6C, [0x16E4C]), (0x16E6D, [0x16E4D]),
    (0x16E6E, [0x16E4E]), (0x16E6F, [0x16E4F]), (0x16E70, [0x16E50]), (0x16E71, [0x16E51]),
    (0x16E72, [0x16E52]), (0x16E73, [0x16E53]), (0x16E74, [0x16E54]), (0x16E75, [0x16E55])]"

definition title_table_44 :: "(cp \<times> cp list) list" where
  "title_table_44 = [
    (0x16E76, [0x16E56]), (0x16E77, [0x16E57]), (0x16E78, [0x16E58]), (0x16E79, [0x16E59]),
    (0x16E7A, [0x16E5A]), (0x16E7B, [0x16E5B]), (0x16E7C, [0x16E5C]), (0x16E7D, [0x16E5D]),
    (0x16E7E, [0x16E5E]), (0x16E7F, [0x16E5F]), (0x1E922, [0x1E900]), (0x1E923, [0x1E901]),
    (0x1E924, [0x1E902]), (0x1E925, [0x1E903]), (0x1E926, [0x1E904]), (0x1E927, [0x1E905]),
    (0x1E928, [0x1E906]), (0x1E929, [0x1E907]), (0x1E92A, [0x1E908]), (0x1E92B, [0x1E909]),
    (0x1E92C, [0x1E90A]), (0x1E92D, [0x1E90B]), (0x1E92E, [0x1E90C]), (0x1E92F, [0x1E90D]),
    (0x1E930, [0x1E90E]), (0x1E931, [0x1E90F]), (0x1E932, [0x1E910]), (0x1E933, [0x1E911]),
    (0x1E934, [0x1E912]), (0x1E935, [0x1E913]), (0x1E936, [0x1E914]), (0x1E937, [0x1E915])]"

definition title_table_45 :: "(cp \<times> cp list) list" where
  "title_table_45 = [
    (0x1E938, [0x1E916]), (0x1E939, [0x1E917]), (0x1E93A, [0x1E918]), (0x1E93B, [0x1E919]),
    (0x1E93C, [0x1E91A]), (0x1E93D, [0x1E91B]), (0x1E93E, [0x1E91C]), (0x1E93F, [0x1E91D]),
    (0x1E940, [0x1E91E]), (0x1E941, [0x1E91F]), (0x1E942, [0x1E920]), (0x1E943, [0x1E921])]"

definition title_table :: "cp \<Rightarrow> (cp \<times> cp list) list" where
  "title_table c =
     (if c \<le> 0xE3 then title_table_0 else
      if c \<le> 0x109 then title_table_1 else
      if c \<le> 0x149 then title_table_2 else
      if c \<le> 0x18C then title_table_3 else
      if c \<le> 0x1DF then title_table_4 else
      if c \<le> 0x21F then title_table_5 else
      if c \<le> 0x265 then title_table_6 else
      if c \<le> 0x3AC then title_table_7 else
      if c \<le> 0x3CC then title_table_8 else
      if c \<le> 0x435 then title_table_9 else
      if c \<le> 0x455 then title_table_10 else
      if c \<le> 0x493 then title_table_11 else
      if c \<le> 0x4D3 then title_table_12 else
      if c \<le> 0x513 then title_table_13 else
      if c \<le> 0x572 then title_table_14 else
      if c \<le> 0x1C84 then title_table_15 else
      if c \<le> 0x1E31 then title_table_16 else
      if c \<le> 0x1E71 then title_table_17 else
      if c \<le> 0x1EAF then title_table_18 else
      if c \<le> 0x1EEF then title_table_19 else
      if c \<le> 0x1F31 then title_table_20 else
      if c \<le> 0x1F73 then title_table_21 else
      if c \<le> 0x1FA5 then title_table_22 else
      if c \<le> 0x1FF4 then title_table_23 else
      if c \<le> 0x24DB then title_table_24 else
      if c \<le> 0x2C41 then title_table_25 else
      if c \<le> 0x2C65 then title_table_26 else
      if c \<le> 0x2CB3 then title_table_27 else
      if c \<le> 0x2D04 then title_table_28 else
      if c \<le> 0x2D24 then title_table_29 else
      if c \<le> 0xA68B then title_table_30 else
      if c \<le> 0xA753 then title_table_31 else
      if c \<le> 0xA7A3 then title_table_32 else
      if c \<le> 0xAB7D then title_table_33 else
      if c \<le> 0xAB9D then title_table_34 else
      if c \<le> 0xABBD then title_table_35 else
      if c \<le> 0xFF52 then title_table_36 else
      if c \<le> 0x1043F then title_table_37 else
      if c \<le> 0x104E7 then title_table_38 else
      if c \<le> 0x105A3 then title_table_39 else
      if c \<le> 0x10CC8 then title_table_40 else
      if c \<le> 0x10CE8 then title_table_41 else
      if c \<le> 0x118D5 then title_table_42 else
      if c \<le> 0x16E75 then title_table_43 else
      if c \<le> 0x1E937 then title_table_44 else
      title_table_45)"

subsection \<open>Character predicates and mappings\<close>

definition is_whitespace :: "cp \<Rightarrow> bool" where
  "is_whitespace c = in_ranges whitespace_ranges c"

definition is_lowercase :: "cp \<Rightarrow> bool" where
  "is_lowercase c = in_ranges (lowercase_ranges c) c"

definition is_uppercase :: "cp \<Rightarrow> bool" where
  "is_uppercase c = in_ranges (uppercase_ranges c) c"

definition is_cased :: "cp \<Rightarrow> bool" where
  "is_cased c = in_ranges (cased_ranges c) c"

definition is_case_ignorable :: "cp \<Rightarrow> bool" where
  "is_case_ignorable c = in_ranges (case_ignorable_ranges c) c"

definition to_upper_full :: "cp \<Rightarrow> cp list" where
  "to_upper_full c = full_mapping (upper_table c) c"

definition to_lower_full :: "cp \<Rightarrow> cp list" where
  "to_lower_full c = full_mapping (lower_table c) c"

definition to_title_full :: "cp \<Rightarrow> cp list" where
  "to_title_full c = full_mapping (title_table c) c"

section \<open>The string methods the program calls\<close>

text \<open>
  \<^verbatim>\<open>s.upper()\<close> replaces every code point by its full uppercase mapping.
\<close>

definition str_upper :: "utext \<Rightarrow> utext" where
  "str_upper s = concat (map to_upper_full s)"

text \<open>
  \<^verbatim>\<open>s.lower()\<close> replaces every code point by its full lowercase mapping, except the
  capital sigma \<open>U+03A3\<close>, which becomes the final sigma \<open>U+03C2\<close> when it ends a word and
  the small sigma \<open>U+03C3\<close> otherwise. It ends a word when, skipping case-ignorable code
  points, a cased code point comes before it and none comes after it. The code points
  before the current one are passed nearest first.
\<close>

definition final_sigma :: "utext \<Rightarrow> utext \<Rightarrow> bool" where
  "final_sigma before after =
     (case dropWhile is_case_ignorable before of
        [] \<Rightarrow> False
      | b # _ \<Rightarrow> is_cased b \<and>
          (case dropWhile is_case_ignorable after of
             [] \<Rightarrow> True
           | a # _ \<Rightarrow> \<not> is_cased a))"

definition lower_ucs4 :: "utext \<Rightarrow> cp \<Rightarrow> utext \<Rightarrow> utext" where
  "lower_ucs4 before c after =
     (if c = 0x3A3 then [if final_sigma before after then 0x3C2 else 0x3C3]
      else to_lower_full c)"

fun do_lower :: "utext \<Rightarrow> utext \<Rightarrow> utext" where
  "do_lower before [] = []"
| "do_lower before (c # after) = lower_ucs4 before c after @ do_lower (c # before) after"

definition str_lower :: "utext \<Rightarrow> utext" where
  "str_lower s = do_lower [] s"

text \<open>
  \<^verbatim>\<open>s.title()\<close> walks the string with one flag, whether the previous code point is cased:
  a code point after a cased one is lowercased, any other is titlecased.
\<close>

fun do_title :: "bool \<Rightarrow> utext \<Rightarrow> utext \<Rightarrow> utext" where
  "do_title previous_is_cased before [] = []"
| "do_title previous_is_cased before (c # after) =
     (if previous_is_cased then lower_ucs4 before c after else to_title_full c)
     @ do_title (is_cased c) (c # before) after"

definition str_title :: "utext \<Rightarrow> utext" where
  "str_title s = do_title False [] s"

text \<open>
  \<^verbatim>\<open>s.split()\<close> without arguments: skip whitespace, take the code points up to the next
  whitespace as one piece, and repeat until the string is used up.
\<close>

function str_split :: "utext \<Rightarrow> utext list" where
  "str_split s =
     (case dropWhile is_whitespace s of
        [] \<Rightarrow> []
      | c # r \<Rightarrow> (c # takeWhile (\<lambda>x. \<not> is_whitespace x) r)
                 # str_split (dropWhile (\<lambda>x. \<not> is_whitespace x) r))"
  by pat_completeness auto
termination
proof (relation "measure length")
  show "wf (measure length)" by simp
next
  fix s :: utext and c r
  assume "dropWhile is_whitespace s = c # r"
  then have "length s \<ge> Suc (length r)"
    by (metis length_Cons length_dropWhile_le)
  moreover have "length (dropWhile (\<lambda>x. \<not> is_whitespace x) r) \<le> length r"
    by (rule length_dropWhile_le)
  ultimately show "(dropWhile (\<lambda>x. \<not> is_whitespace x) r, s) \<in> measure length"
    by simp
qed

declare str_split.simps [simp del]

text \<open>\<^verbatim>\<open>sep.join(pieces)\<close>.\<close>

fun str_join :: "utext \<Rightarrow> utext list \<Rightarrow> utext" where
  "str_join sep [] = []"
| "str_join sep [p] = p"
| "str_join sep (p # q # ps) = p @ sep @ str_join sep (q # ps)"

section \<open>The transformer: \<^verbatim>\<open>modify_content\<close>\<close>

text \<open>
  The dictionary literal is evaluated in full before the lookup; none of its entries can
  raise. Its keys are distinct, so it is the association list below.
\<close>

definition modification_types :: "utext \<Rightarrow> (utext \<times> utext) list" where
  "modification_types content =
     [(str ''upper'', str_upper content),
      (str ''lower'', str_lower content),
      (str ''title'', str_title content),
      (str ''reverse'', rev content),
      (str ''double'', content @ content),
      (str ''remove_spaces'', str_join (str '' '') (str_split content)),
      (str ''default'', content)]"

definition modify_content :: "utext \<Rightarrow> utext \<Rightarrow> utext" where
  "modify_content content modification_type =
     (if content = [] then content
      else case map_of (modification_types content) modification_type of
             Some modified \<Rightarrow> modified
           | None \<Rightarrow> content)"

section \<open>The preview printed by \<^verbatim>\<open>main\<close>\<close>

definition preview :: "utext \<Rightarrow> utext" where
  "preview modified_content =
     take 200 modified_content @ (if length modified_content > 200 then str ''...'' else [])"

section \<open>The writer: \<^verbatim>\<open>write_file\<close>\<close>

text \<open>
  The world \<^verbatim>\<open>write_file\<close> acts on: the files that exist with their contents, the
  operating-system errors the environment has in store for a path (at \<^verbatim>\<open>open\<close>, or later
  while writing and closing, with what the file is left holding), the answers waiting on
  standard input and what has been printed. A path that exists without being a writable
  regular file is one with an \<open>open_fault\<close>.
\<close>

datatype os_error = PermissionError | OtherOSError utext

datatype exc = EOFError | KeyboardInterrupt | UnicodeEncodeError

datatype input_event = Line utext | Interrupt

record world =
  files :: "utext \<rightharpoonup> utext"
  open_fault :: "utext \<Rightarrow> os_error option"
  write_fault :: "utext \<Rightarrow> (os_error \<times> utext) option"
  stdin :: "input_event list"
  stdout :: "utext list"

definition print :: "utext \<Rightarrow> world \<Rightarrow> world" where
  "print line w = w\<lparr>stdout := stdout w @ [line]\<rparr>"

text \<open>
  \<^verbatim>\<open>input(prompt)\<close> prints the prompt and returns the next line; at the end of input it
  raises \<^verbatim>\<open>EOFError\<close>, and on an interrupt \<^verbatim>\<open>KeyboardInterrupt\<close>.
\<close>

definition input :: "utext \<Rightarrow> world \<Rightarrow> (exc + utext) \<times> world" where
  "input prompt w =
     (let w' = print prompt w in
      case stdin w' of
        [] \<Rightarrow> (Inl EOFError, w')
      | Interrupt # rest \<Rightarrow> (Inl KeyboardInterrupt, w'\<lparr>stdin := rest\<rparr>)
      | Line answer # rest \<Rightarrow> (Inr answer, w'\<lparr>stdin := rest\<rparr>))"

definition path_exists :: "world \<Rightarrow> utext \<Rightarrow> bool" where
  "path_exists w filename = (files w filename \<noteq> None)"

text \<open>UTF-8 cannot encode the surrogate code points.\<close>

definition encodable :: "utext \<Rightarrow> bool" where
  "encodable content = list_all (\<lambda>c. c < 0xD800 \<or> 0xDFFF < c) content"

definition overwrite_prompt :: "utext \<Rightarrow> utext" where
  "overwrite_prompt filename =
     [0x26A0, 0xFE0F] @ str ''  File '' @ [0x27] @ filename @ [0x27]
     @ str '' already exists. Overwrite? (y/n): ''"

definition cancelled_message :: utext where
  "cancelled_message = str ''Operation cancelled.''"

definition success_message :: "utext \<Rightarrow> utext" where
  "success_message filename = [0x2713] @ str '' Successfully wrote to '' @ filename"

definition permission_message :: "utext \<Rightarrow> utext" where
  "permission_message filename =
     [0x274C] @ str '' Error: Permission denied to write to '' @ [0x27] @ filename @ [0x27]
     @ str ''.''"

definition io_error_message :: "utext \<Rightarrow> utext \<Rightarrow> utext" where
  "io_error_message filename e =
     [0x274C] @ str '' Error: Unable to write to file '' @ [0x27] @ filename @ [0x27]
     @ str '': '' @ e"

text \<open>The two handlers at the end of \<^verbatim>\<open>write_file\<close>.\<close>

definition handle_os_error :: "utext \<Rightarrow> os_error \<Rightarrow> world \<Rightarrow> (exc + bool) \<times> world" where
  "handle_os_error filename err w =
     (case err of
        PermissionError \<Rightarrow> (Inr False, print (permission_message filename) w)
      | OtherOSError e \<Rightarrow> (Inr False, print (io_error_message filename e) w))"

text \<open>
  The \<^verbatim>\<open>with open(filename, 'w', encoding='utf-8')\<close> block and the lines after it.
  Opening creates or empties the file; a string that cannot be encoded raises
  \<^verbatim>\<open>UnicodeEncodeError\<close>, which no handler of \<^verbatim>\<open>write_file\<close> catches.
\<close>

definition open_and_write :: "utext \<Rightarrow> utext \<Rightarrow> world \<Rightarrow> (exc + bool) \<times> world" where
  "open_and_write filename content w =
     (case open_fault w filename of
        Some err \<Rightarrow> handle_os_error filename err w
      | None \<Rightarrow>
          if \<not> encodable content
          then (Inl UnicodeEncodeError, w\<lparr>files := (files w)(filename \<mapsto> [])\<rparr>)
          else (case write_fault w filename of
                  Some (err, left) \<Rightarrow>
                    handle_os_error filename err (w\<lparr>files := (files w)(filename \<mapsto> left)\<rparr>)
                | None \<Rightarrow>
                    (Inr True,
                     print (success_message filename)
                       (w\<lparr>files := (files w)(filename \<mapsto> content)\<rparr>))))"

definition write_file :: "utext \<Rightarrow> utext \<Rightarrow> world \<Rightarrow> (exc + bool) \<times> world" where
  "write_file filename content w =
     (if path_exists w filename then
        case input (overwrite_prompt filename) w of
          (Inl e, w') \<Rightarrow> (Inl e, w')
        | (Inr answer, w') \<Rightarrow>
            let overwrite = str_lower answer in
            if overwrite \<noteq> str ''y''
            then (Inr False, print cancelled_message w')
            else open_and_write filename content w'
      else open_and_write filename content w)"

text \<open>Two worlds for examples: one where \<^verbatim>\<open>out.txt\<close> exists, one where nothing can be opened.\<close>

definition world_with_file :: "input_event list \<Rightarrow> world" where
  "world_with_file answers =
     \<lparr>files = [str ''out.txt'' \<mapsto> str ''old''], open_fault = (\<lambda>_. None),
      write_fault = (\<lambda>_. None), stdin = answers, stdout = []\<rparr>"

definition world_without_access :: "os_error \<Rightarrow> world" where
  "world_without_access err =
     \<lparr>files = Map.empty, open_fault = (\<lambda>_. Some err),
      write_fault = (\<lambda>_. None), stdin = [], stdout = []\<rparr>"

text \<open>A world where \<^verbatim>\<open>out.txt\<close> exists and cannot be opened for writing.\<close>

definition world_with_protected_file :: "input_event list \<Rightarrow> world" where
  "world_with_protected_file answers =
     \<lparr>files = [str ''out.txt'' \<mapsto> str ''old''], open_fault = (\<lambda>_. Some PermissionError),
      write_fault = (\<lambda>_. None), stdin = answers, stdout = []\<rparr>"

section \<open>The specification's wording of the collapse-whitespace transform\<close>

text \<open>
  Written from the specification, not from the code: the content is cut at its runs of
  whitespace, which leaves the maximal runs of other characters, and these are joined
  with single spaces.
\<close>

fun nonspace_runs :: "utext \<Rightarrow> utext list" where
  "nonspace_runs [] = []"
| "nonspace_runs (c # s) =
     (if is_whitespace c then nonspace_runs s
      else case s of
             [] \<Rightarrow> [[c]]
           | d # _ \<Rightarrow>
               if is_whitespace d then [c] # nonspace_runs s
               else (case nonspace_runs s of
                       [] \<Rightarrow> [[c]]
                     | run # runs \<Rightarrow> (c # run) # runs))"

definition collapse_whitespace_spec :: "utext \<Rightarrow> utext" where
  "collapse_whitespace_spec content = str_join [0x20] (nonspace_runs content)"

section \<open>Predicates used in the statements\<close>

text \<open>No entry of a mapping table maps to a code point with the property \<open>P\<close>.\<close>

definition maps_outside :: "(cp \<Rightarrow> bool) \<Rightarrow> (cp \<times> cp list) list \<Rightarrow> bool" where
  "maps_outside P table = list_all (\<lambda>(c, m). list_all (\<lambda>x. \<not> P x) m) table"

text \<open>The message a handler of \<^verbatim>\<open>write_file\<close> prints for an operating-system error.\<close>

definition error_message :: "utext \<Rightarrow> os_error \<Rightarrow> utext" where
  "error_message filename err =
     (case err of
        PermissionError \<Rightarrow> permission_message filename
      | OtherOSError e \<Rightarrow> io_error_message filename e)"

text \<open>
  Writing \<open>content\<close> to \<open>filename\<close> fails with \<open>err\<close>: the environment raises it at
  \<^verbatim>\<open>open\<close>, or while the encoded content is written and the file closed.
\<close>

definition write_fails :: "world \<Rightarrow> utext \<Rightarrow> utext \<Rightarrow> os_error \<Rightarrow> bool" where
  "write_fails w filename content err =
     (case open_fault w filename of
        Some e \<Rightarrow> e = err
      | None \<Rightarrow> encodable content \<and>
          (case write_fault w filename of
             Some (e, left) \<Rightarrow> e = err
           | None \<Rightarrow> False))"

text \<open>The pieces of each table, for unfolding.\<close>

lemmas upper_table_defs =
  upper_table_def upper_table_0_def upper_table_1_def upper_table_2_def upper_table_3_def
  upper_table_4_def upper_table_5_def upper_table_6_def upper_table_7_def upper_table_8_def
  upper_table_9_def upper_table_10_def upper_table_11_def upper_table_12_def
  upper_table_13_def upper_table_14_def upper_table_15_def upper_table_16_def
  upper_table_17_def upper_table_18_def upper_table_19_def upper_table_20_def
  upper_table_21_def upper_table_22_def upper_table_23_def upper_table_24_def
  upper_table_25_def upper_table_26_def upper_table_27_def upper_table_28_def
  upper_table_29_def upper_table_30_def upper_table_31_def upper_table_32_def
  upper_table_33_def upper_table_34_def upper_table_35_def upper_table_36_def
  upper_table_37_def upper_table_38_def upper_table_39_def upper_table_40_def
  upper_table_41_def upper_table_42_def upper_table_43_def upper_table_44_def
  upper_table_45_def upper_table_46_def upper_table_47_def

lemmas lower_table_defs =
  lower_table_def lower_table_0_def lower_table_1_def lower_table_2_def lower_table_3_def
  lower_table_4_def lower_table_5_def lower_table_6_def lower_table_7_def lower_table_8_def
  lower_table_9_def lower_table_10_def lower_table_11_def lower_table_12_def
  lower_table_13_def lower_table_14_def lower_table_15_def lower_table_16_def
  lower_table_17_def lower_table_18_def lower_table_19_def lower_table_20_def
  lower_table_21_def lower_table_22_def lower_table_23_def lower_table_24_def
  lower_table_25_def lower_table_26_def lower_table_27_def lower_table_28_def
  lower_table_29_def lower_table_30_def lower_table_31_def lower_table_32_def
  lower_table_33_def lower_table_34_def lower_table_35_def lower_table_36_def
  lower_table_37_def lower_table_38_def lower_table_39_def lower_table_40_def
  lower_table_41_def lower_table_42_def lower_table_43_def lower_table_44_def

lemmas title_table_defs =
  title_table_def title_table_0_def title_table_1_def title_table_2_def title_table_3_def
  title_table_4_def title_table_5_def title_table_6_def title_table_7_def title_table_8_def
  title_table_9_def title_table_10_def title_table_11_def title_table_12_def
  title_table_13_def title_table_14_def title_table_15_def title_table_16_def
  title_table_17_def title_table_18_def title_table_19_def title_table_20_def
  title_table_21_def title_table_22_def title_table_23_def title_table_24_def
  title_table_25_def title_table_26_def title_table_27_def title_table_28_def
  title_table_29_def title_table_30_def title_table_31_def title_table_32_def
  title_table_33_def title_table_34_def title_table_35_def title_table_36_def
  title_table_37_def title_table_38_def title_table_39_def title_table_40_def
  title_table_41_def title_table_42_def title_table_43_def title_table_44_def
  title_table_45_def

lemmas lowercase_ranges_defs =
  lowercase_ranges_def lowercase_ranges_0_def lowercase_ranges_1_def lowercase_ranges_2_def
  lowercase_ranges_3_def lowercase_ranges_4_def lowercase_ranges_5_def
  lowercase_ranges_6_def lowercase_ranges_7_def lowercase_ranges_8_def
  lowercase_ranges_9_def lowercase_ranges_10_def lowercase_ranges_11_def
  lowercase_ranges_12_def lowercase_ranges_13_def lowercase_ranges_14_def
  lowercase_ranges_15_def lowercase_ranges_16_def lowercase_ranges_17_def
  lowercase_ranges_18_def lowercase_ranges_19_def lowercase_ranges_20_def

lemmas uppercase_ranges_defs =
  uppercase_ranges_def uppercase_ranges_0_def uppercase_ranges_1_def uppercase_ranges_2_def
  uppercase_ranges_3_def uppercase_ranges_4_def uppercase_ranges_5_def
  uppercase_ranges_6_def uppercase_ranges_7_def uppercase_ranges_8_def
  uppercase_ranges_9_def uppercase_ranges_10_def uppercase_ranges_11_def
  uppercase_ranges_12_def uppercase_ranges_13_def uppercase_ranges_14_def
  uppercase_ranges_15_def uppercase_ranges_16_def uppercase_ranges_17_def
  uppercase_ranges_18_def uppercase_ranges_19_def uppercase_ranges_20_def

lemmas cased_ranges_defs =
  cased_ranges_def cased_ranges_0_def cased_ranges_1_def cased_ranges_2_def
  cased_ranges_3_def cased_ranges_4_def

lemmas case_ignorable_ranges_defs =
  case_ignorable_ranges_def case_ignorable_ranges_0_def case_ignorable_ranges_1_def
  case_ignorable_ranges_2_def case_ignorable_ranges_3_def case_ignorable_ranges_4_def
  case_ignorable_ranges_5_def case_ignorable_ranges_6_def case_ignorable_ranges_7_def
  case_ignorable_ranges_8_def case_ignorable_ranges_9_def case_ignorable_ranges_10_def
  case_ignorable_ranges_11_def case_ignorable_ranges_12_def case_ignorable_ranges_13_def

section \<open>Properties of the transformer\<close>

lemma str_eq_iff [simp]: "str a = str b \<longleftrightarrow> a = b"
  unfolding str_def using inj_of_char [where ?'a = nat] by simp

lemma modify_content_double: "modify_content content (str ''double'') = content @ content"
  by (simp add: modify_content_def modification_types_def)

lemma modify_content_reverse: "modify_content content (str ''reverse'') = rev content"
  by (simp add: modify_content_def modification_types_def)

text \<open>
  C6: for every content, the duplicate transform returns the content concatenated with
  itself, and the result is twice as long as the content.
\<close>

theorem duplicate_is_self_concatenation:
  "modify_content content (str ''double'') = content @ content \<and>
   length (modify_content content (str ''double'')) = 2 * length content"
  by (simp add: modify_content_double)

text \<open>
  C7: for every content, applying the reverse transform twice gives the content back.
\<close>

theorem reverse_is_involution:
  "modify_content (modify_content content (str ''reverse'')) (str ''reverse'') = content"
  by (simp add: modify_content_reverse)

text \<open>
  C9: for every content and every modification type other than the seven keys of the
  dictionary, the transform returns the content unchanged.
\<close>

theorem unknown_kind_is_identity:
  assumes "modification_type \<notin> set (map str [''upper'', ''lower'', ''title'', ''reverse'',
             ''double'', ''remove_spaces'', ''default''])"
  shows "modify_content content modification_type = content"
  using assms by (auto simp add: modify_content_def modification_types_def)

theorem unknown_kind_is_identity_witness:
  "str ''shout'' \<notin> set (map str [''upper'', ''lower'', ''title'', ''reverse'',
      ''double'', ''remove_spaces'', ''default'']) \<and>
   modify_content (str ''abc'') (str ''shout'') = str ''abc''"
  using unknown_kind_is_identity [of "str ''shout''" "str ''abc''"] by simp

section \<open>The preview\<close>

text \<open>
  C8: the preview is the first 200 characters followed by the marker \<open>...\<close> exactly when
  the result is longer than 200 characters, and the whole result otherwise; a result of
  250 characters gives 200 characters and the marker, a result of 50 characters gives
  all 50 and no marker.
\<close>

theorem preview_truncates_at_200:
  "preview result = (if 200 < length result then take 200 result @ str ''...'' else result) \<and>
   (200 < length result \<longrightarrow> length (take 200 result) = 200) \<and>
   (length result = 250 \<longrightarrow>
      preview result = take 200 result @ str ''...'' \<and> length (preview result) = 203) \<and>
   (length result = 50 \<longrightarrow> preview result = result \<and> length (preview result) = 50)"
  by (simp add: preview_def str_def)

theorem preview_truncates_at_200_witness:
  "preview (replicate 250 0x61) = replicate 200 0x61 @ str ''...'' \<and>
   preview (replicate 50 0x61) = replicate 50 0x61"
  using preview_truncates_at_200 [of "replicate 250 0x61"]
    preview_truncates_at_200 [of "replicate 50 0x61"]
  by simp


section \<open>Properties of the writer\<close>

lemmas lower_eval =
  str_lower_def lower_ucs4_def to_lower_full_def full_mapping_def lower_table_defs str_def

lemma lower_examples:
  "str_lower (str ''y'') = str ''y''" "str_lower (str ''Y'') = str ''y''"
  "str_lower (str ''n'') = str ''n''" "str_lower (str ''yes'') = str ''yes''"
  "str_lower (str ''Y '') = str ''y ''" "str_lower [] = []"
  by (simp_all add: lower_eval)

lemma write_file_declined:
  assumes "path_exists w filename" and "stdin w = Line answer # rest"
    and "str_lower answer \<noteq> str ''y''"
  shows "write_file filename content w =
    (Inr False, print cancelled_message ((print (overwrite_prompt filename) w)\<lparr>stdin := rest\<rparr>))"
  using assms by (simp add: write_file_def input_def print_def Let_def)

lemma write_file_confirmed:
  assumes "path_exists w filename" and "stdin w = Line answer # rest"
    and "str_lower answer = str ''y''"
  shows "write_file filename content w =
    open_and_write filename content ((print (overwrite_prompt filename) w)\<lparr>stdin := rest\<rparr>)"
  using assms by (simp add: write_file_def input_def print_def Let_def)

lemma handle_os_error_result: "fst (handle_os_error filename err w) = Inr False"
  by (cases err) (simp_all add: handle_os_error_def)

lemma handle_os_error_stdout:
  "stdout (snd (handle_os_error filename err w)) = stdout w @
     [case err of PermissionError \<Rightarrow> permission_message filename
      | OtherOSError e \<Rightarrow> io_error_message filename e]"
  by (cases err) (simp_all add: handle_os_error_def print_def)

lemma error_messages_differ:
  "permission_message filename \<noteq> cancelled_message"
  "io_error_message filename e \<noteq> cancelled_message"
  by (simp_all add: permission_message_def io_error_message_def cancelled_message_def str_def)

lemma world_with_file_exists: "path_exists (world_with_file answers) (str ''out.txt'')"
  by (simp add: path_exists_def world_with_file_def)

text \<open>
  C3: on an existing path, when the answer to the overwrite question is not affirmative,
  \<^verbatim>\<open>write_file\<close> returns \<^verbatim>\<open>False\<close> and no file is touched: every path holds what it held.
\<close>

theorem decline_leaves_files_unchanged:
  assumes "path_exists w filename" and "stdin w = Line answer # rest"
    and "str_lower answer \<noteq> str ''y''"
  shows "fst (write_file filename content w) = Inr False \<and>
         files (snd (write_file filename content w)) = files w"
  by (simp add: write_file_declined [OF assms] print_def)

lemma world_with_file_stdin: "stdin (world_with_file (a # rest)) = a # rest"
  by (simp add: world_with_file_def)

theorem decline_leaves_files_unchanged_witness:
  "path_exists (world_with_file [Line (str ''n'')]) (str ''out.txt'') \<and>
   str_lower (str ''n'') \<noteq> str ''y'' \<and>
   fst (write_file (str ''out.txt'') (str ''new'') (world_with_file [Line (str ''n'')])) = Inr False \<and>
   files (snd (write_file (str ''out.txt'') (str ''new'') (world_with_file [Line (str ''n'')])))
     (str ''out.txt'') = Some (str ''old'')"
proof -
  have n: "str_lower (str ''n'') \<noteq> str ''y''"
    by (simp add: lower_examples)
  show ?thesis
    using decline_leaves_files_unchanged
      [OF world_with_file_exists world_with_file_stdin n, where content = "str ''new''"] n
    by (simp add: world_with_file_exists) (simp add: world_with_file_def)
qed

text \<open>
  C10: the answer to the overwrite question counts as affirmative exactly when it
  lowercases to the one letter \<open>y\<close>: then the file is opened and written; with any other
  answer \<^verbatim>\<open>write_file\<close> prints the cancellation, returns \<^verbatim>\<open>False\<close> and writes nothing.
  The answers \<open>yes\<close>, \<open>Y\<close> followed by a space, and the empty answer are of the second
  kind; \<open>y\<close> and \<open>Y\<close> are of the first.
\<close>

theorem overwrite_affirmative_iff_lowers_to_y:
  assumes "path_exists w filename" and "stdin w = Line answer # rest"
  shows "(str_lower answer = str ''y'' \<longrightarrow>
            write_file filename content w =
            open_and_write filename content
              ((print (overwrite_prompt filename) w)\<lparr>stdin := rest\<rparr>)) \<and>
         (str_lower answer \<noteq> str ''y'' \<longrightarrow>
            fst (write_file filename content w) = Inr False \<and>
            files (snd (write_file filename content w)) = files w \<and>
            stdout (snd (write_file filename content w)) =
              stdout w @ [overwrite_prompt filename, cancelled_message]) \<and>
         str_lower (str ''y'') = str ''y'' \<and> str_lower (str ''Y'') = str ''y'' \<and>
         str_lower (str ''yes'') \<noteq> str ''y'' \<and> str_lower (str ''Y '') \<noteq> str ''y'' \<and>
         str_lower [] \<noteq> str ''y''"
proof -
  have "write_file filename content w =
          open_and_write filename content
            ((print (overwrite_prompt filename) w)\<lparr>stdin := rest\<rparr>)"
    if "str_lower answer = str ''y''"
    using write_file_confirmed [OF assms that] .
  moreover have "fst (write_file filename content w) = Inr False \<and>
      files (snd (write_file filename content w)) = files w \<and>
      stdout (snd (write_file filename content w)) =
        stdout w @ [overwrite_prompt filename, cancelled_message]"
    if "str_lower answer \<noteq> str ''y''"
    by (simp add: write_file_declined [OF assms that] print_def)
  moreover have "str_lower (str ''yes'') \<noteq> str ''y''" "str_lower (str ''Y '') \<noteq> str ''y''"
    "str_lower [] \<noteq> str ''y''"
    by (simp_all add: lower_examples) (simp add: str_def)
  ultimately show ?thesis
    by (simp add: lower_examples)
qed

theorem overwrite_affirmative_iff_lowers_to_y_witness:
  "write_file (str ''out.txt'') (str ''new'') (world_with_file [Line (str ''Y'')]) =
     (Inr True,
      \<lparr>files = [str ''out.txt'' \<mapsto> str ''new''], open_fault = (\<lambda>_. None),
       write_fault = (\<lambda>_. None), stdin = [],
       stdout = [overwrite_prompt (str ''out.txt''), success_message (str ''out.txt'')]\<rparr>) \<and>
   fst (write_file (str ''out.txt'') (str ''new'') (world_with_file [Line (str ''yes'')])) = Inr False \<and>
   files (snd (write_file (str ''out.txt'') (str ''new'') (world_with_file [Line (str ''yes'')])))
     (str ''out.txt'') = Some (str ''old'')"
proof -
  have enc: "encodable (str ''new'')"
    by (simp add: encodable_def str_def)
  show ?thesis
    using overwrite_affirmative_iff_lowers_to_y
      [OF world_with_file_exists world_with_file_stdin [of "Line (str ''Y'')" "[]"],
        where content = "str ''new''"]
      overwrite_affirmative_iff_lowers_to_y
      [OF world_with_file_exists world_with_file_stdin [of "Line (str ''yes'')" "[]"],
        where content = "str ''new''"]
    by (simp add: lower_examples)
      (simp add: world_with_file_def open_and_write_def print_def enc)
qed

text \<open>
  C1, as stated, fails: a declined overwrite, a permission failure and any other I/O
  failure all make \<^verbatim>\<open>write_file\<close> return the same value \<^verbatim>\<open>False\<close>.
\<close>

theorem decline_distinct_from_failure_counterexample:
  "fst (write_file (str ''out.txt'') (str ''new'') (world_with_file [Line (str ''n'')])) = Inr False \<and>
   fst (write_file (str ''out.txt'') (str ''new'') (world_without_access PermissionError))
     = Inr False \<and>
   fst (write_file (str ''out.txt'') (str ''new'')
          (world_without_access (OtherOSError (str ''No space left on device'')))) = Inr False"
proof -
  have n: "str_lower (str ''n'') \<noteq> str ''y''"
    by (simp add: lower_examples)
  have "fst (write_file (str ''out.txt'') (str ''new'') (world_with_file [Line (str ''n'')]))
          = Inr False"
    by (simp add: write_file_declined [OF world_with_file_exists world_with_file_stdin n])
  moreover have "fst (write_file (str ''out.txt'') (str ''new'') (world_without_access err))
          = Inr False" for err
    by (simp add: write_file_def path_exists_def world_without_access_def open_and_write_def
        handle_os_error_result)
  ultimately show ?thesis
    by simp
qed

lemma error_message_not_cancellation: "error_message filename err \<noteq> cancelled_message"
  by (cases err) (simp_all add: error_message_def error_messages_differ)

lemma handle_os_error_eq:
  "handle_os_error filename err w = (Inr False, print (error_message filename err) w)"
  by (cases err) (simp_all add: handle_os_error_def error_message_def)

lemma open_and_write_fails:
  assumes "write_fails w filename content err"
  shows "fst (open_and_write filename content w) = Inr False \<and>
         stdout (snd (open_and_write filename content w)) =
           stdout w @ [error_message filename err]"
  using assms
  by (auto simp: write_fails_def open_and_write_def handle_os_error_eq print_def
      split: option.splits)

lemma write_fails_after_prompt:
  "write_fails ((print line w)\<lparr>stdin := rest\<rparr>) filename content err
     = write_fails w filename content err"
  by (simp add: write_fails_def print_def split: option.splits)

text \<open>
  C1, amended: on an existing path a non-affirmative answer makes \<^verbatim>\<open>write_file\<close> print
  the prompt and \<open>Operation cancelled.\<close>, write nothing and return \<^verbatim>\<open>False\<close>. It returns
  the same \<^verbatim>\<open>False\<close> when the write is attempted, on a new path or after an affirmative
  answer, and fails with a permission or other I/O error; then the last line printed is
  the error message, which is never the cancellation. The returned value does not tell
  a decline from a failure; only the printed message does.
\<close>

theorem decline_returns_false_with_own_message:
  "(path_exists w filename \<and> stdin w = Line answer # rest \<and>
    str_lower answer \<noteq> str ''y'' \<longrightarrow>
      fst (write_file filename content w) = Inr False \<and>
      files (snd (write_file filename content w)) = files w \<and>
      stdout (snd (write_file filename content w)) =
        stdout w @ [overwrite_prompt filename, cancelled_message]) \<and>
   (\<not> path_exists w' filename' \<and> write_fails w' filename' content' err \<longrightarrow>
      fst (write_file filename' content' w') = Inr False \<and>
      stdout (snd (write_file filename' content' w')) =
        stdout w' @ [error_message filename' err] \<and>
      error_message filename' err \<noteq> cancelled_message) \<and>
   (path_exists w' filename' \<and> stdin w' = Line answer' # rest' \<and>
    str_lower answer' = str ''y'' \<and> write_fails w' filename' content' err \<longrightarrow>
      fst (write_file filename' content' w') = Inr False \<and>
      stdout (snd (write_file filename' content' w')) =
        stdout w' @ [overwrite_prompt filename', error_message filename' err] \<and>
      error_message filename' err \<noteq> cancelled_message)"
proof (intro conjI impI)
  assume a: "path_exists w filename \<and> stdin w = Line answer # rest \<and>
    str_lower answer \<noteq> str ''y''"
  then have a1: "path_exists w filename" and a2: "stdin w = Line answer # rest"
    and a3: "str_lower answer \<noteq> str ''y''"
    by blast+
  have d: "write_file filename content w =
      (Inr False,
       print cancelled_message ((print (overwrite_prompt filename) w)\<lparr>stdin := rest\<rparr>))"
    by (rule write_file_declined [OF a1 a2 a3])
  show "fst (write_file filename content w) = Inr False"
    by (simp add: d)
  show "files (snd (write_file filename content w)) = files w"
    by (simp add: d print_def)
  show "stdout (snd (write_file filename content w)) =
      stdout w @ [overwrite_prompt filename, cancelled_message]"
    by (simp add: d print_def)
next
  assume a: "\<not> path_exists w' filename' \<and> write_fails w' filename' content' err"
  then have n: "write_file filename' content' w' = open_and_write filename' content' w'"
    by (simp add: write_file_def)
  from a have f: "write_fails w' filename' content' err"
    by blast
  show "fst (write_file filename' content' w') = Inr False"
    by (simp add: n open_and_write_fails [OF f])
  show "stdout (snd (write_file filename' content' w')) =
      stdout w' @ [error_message filename' err]"
    by (simp add: n open_and_write_fails [OF f])
  show "error_message filename' err \<noteq> cancelled_message"
    by (rule error_message_not_cancellation)
next
  assume a: "path_exists w' filename' \<and> stdin w' = Line answer' # rest' \<and>
    str_lower answer' = str ''y'' \<and> write_fails w' filename' content' err"
  then have a1: "path_exists w' filename'" and a2: "stdin w' = Line answer' # rest'"
    and a3: "str_lower answer' = str ''y''"
    by blast+
  have c: "write_file filename' content' w' =
      open_and_write filename' content'
        ((print (overwrite_prompt filename') w')\<lparr>stdin := rest'\<rparr>)"
    by (rule write_file_confirmed [OF a1 a2 a3])
  from a have f: "write_fails ((print (overwrite_prompt filename') w')\<lparr>stdin := rest'\<rparr>)
      filename' content' err"
    by (simp add: write_fails_after_prompt)
  show "fst (write_file filename' content' w') = Inr False"
    by (simp add: c open_and_write_fails [OF f])
  show "stdout (snd (write_file filename' content' w')) =
      stdout w' @ [overwrite_prompt filename', error_message filename' err]"
    by (simp add: c open_and_write_fails [OF f]) (simp add: print_def)
  show "error_message filename' err \<noteq> cancelled_message"
    by (rule error_message_not_cancellation)
qed

theorem decline_returns_false_with_own_message_witness:
  "write_file (str ''out.txt'') (str ''new'') (world_with_file [Line (str ''n'')]) =
     (Inr False, (world_with_file [])
        \<lparr>stdout := [overwrite_prompt (str ''out.txt''), cancelled_message]\<rparr>) \<and>
   write_file (str ''out.txt'') (str ''new'') (world_without_access PermissionError) =
     (Inr False, (world_without_access PermissionError)
        \<lparr>stdout := [permission_message (str ''out.txt'')]\<rparr>) \<and>
   write_file (str ''out.txt'') (str ''new'') (world_with_protected_file [Line (str ''y'')]) =
     (Inr False, (world_with_protected_file [])
        \<lparr>stdout := [overwrite_prompt (str ''out.txt''), permission_message (str ''out.txt'')]\<rparr>) \<and>
   path_exists (world_with_file [Line (str ''n'')]) (str ''out.txt'') \<and>
   str_lower (str ''n'') \<noteq> str ''y'' \<and>
   \<not> path_exists (world_without_access PermissionError) (str ''out.txt'') \<and>
   write_fails (world_without_access PermissionError) (str ''out.txt'') (str ''new'')
     PermissionError \<and>
   path_exists (world_with_protected_file [Line (str ''y'')]) (str ''out.txt'') \<and>
   write_fails (world_with_protected_file [Line (str ''y'')]) (str ''out.txt'') (str ''new'')
     PermissionError"
proof -
  have n: "str_lower (str ''n'') \<noteq> str ''y''" and y: "str_lower (str ''y'') = str ''y''"
    by (simp_all add: lower_examples)
  have e1: "path_exists (world_with_file [Line (str ''n'')]) (str ''out.txt'')"
    by (rule world_with_file_exists)
  have e2: "\<not> path_exists (world_without_access PermissionError) (str ''out.txt'')"
    by (simp add: path_exists_def world_without_access_def)
  have e3: "path_exists (world_with_protected_file [Line (str ''y'')]) (str ''out.txt'')"
    by (simp add: path_exists_def world_with_protected_file_def)
  have f2: "write_fails (world_without_access PermissionError) (str ''out.txt'') (str ''new'')
      PermissionError"
    by (simp add: write_fails_def world_without_access_def)
  have f3: "write_fails (world_with_protected_file [Line (str ''y'')]) (str ''out.txt'')
      (str ''new'') PermissionError"
    by (simp add: write_fails_def world_with_protected_file_def)
  have s1: "stdin (world_with_file [Line (str ''n'')]) = Line (str ''n'') # []"
    by (simp add: world_with_file_def)
  have s3: "stdin (world_with_protected_file [Line (str ''y'')]) = Line (str ''y'') # []"
    by (simp add: world_with_protected_file_def)
  have m: "error_message (str ''out.txt'') PermissionError = permission_message (str ''out.txt'')"
    by (simp add: error_message_def)
  note t = decline_returns_false_with_own_message
    [where w = "world_with_file [Line (str ''n'')]" and filename = "str ''out.txt''"
      and answer = "str ''n''" and rest = "[]" and content = "str ''new''"
      and filename' = "str ''out.txt''" and content' = "str ''new''" and err = PermissionError]
  have d: "fst (write_file (str ''out.txt'') (str ''new'') (world_with_file [Line (str ''n'')]))
        = Inr False \<and>
      files (snd (write_file (str ''out.txt'') (str ''new'') (world_with_file [Line (str ''n'')])))
        = files (world_with_file [Line (str ''n'')]) \<and>
      stdout (snd (write_file (str ''out.txt'') (str ''new'')
          (world_with_file [Line (str ''n'')])))
        = stdout (world_with_file [Line (str ''n'')])
          @ [overwrite_prompt (str ''out.txt''), cancelled_message]"
    using t [where w' = "world_without_access PermissionError"] e1 s1 n by blast
  have p: "fst (write_file (str ''out.txt'') (str ''new'') (world_without_access PermissionError))
        = Inr False \<and>
      stdout (snd (write_file (str ''out.txt'') (str ''new'')
          (world_without_access PermissionError)))
        = stdout (world_without_access PermissionError)
          @ [error_message (str ''out.txt'') PermissionError]"
    using t [where w' = "world_without_access PermissionError"] e2 f2 by blast
  have q: "fst (write_file (str ''out.txt'') (str ''new'')
          (world_with_protected_file [Line (str ''y'')])) = Inr False \<and>
      stdout (snd (write_file (str ''out.txt'') (str ''new'')
          (world_with_protected_file [Line (str ''y'')])))
        = stdout (world_with_protected_file [Line (str ''y'')])
          @ [overwrite_prompt (str ''out.txt''), error_message (str ''out.txt'') PermissionError]"
    using t [where w' = "world_with_protected_file [Line (str ''y'')]"
        and answer' = "str ''y''" and rest' = "[]"] e3 s3 y f3 by blast
  have w1: "write_file (str ''out.txt'') (str ''new'') (world_with_file [Line (str ''n'')]) =
     (Inr False, (world_with_file [])
        \<lparr>stdout := [overwrite_prompt (str ''out.txt''), cancelled_message]\<rparr>)"
    by (simp add: write_file_declined [OF e1 s1 n]) (simp add: world_with_file_def print_def)
  have w2: "write_file (str ''out.txt'') (str ''new'') (world_without_access PermissionError) =
     (Inr False, (world_without_access PermissionError)
        \<lparr>stdout := [permission_message (str ''out.txt'')]\<rparr>)"
    using e2
    by (simp add: write_file_def open_and_write_def handle_os_error_def print_def
        world_without_access_def)
  have w3: "write_file (str ''out.txt'') (str ''new'')
        (world_with_protected_file [Line (str ''y'')]) =
     (Inr False, (world_with_protected_file [])
        \<lparr>stdout := [overwrite_prompt (str ''out.txt''),
            permission_message (str ''out.txt'')]\<rparr>)"
    by (simp add: write_file_confirmed [OF e3 s3 y])
      (simp add: open_and_write_def handle_os_error_def print_def
        world_with_protected_file_def)
  from d p q w1 w2 w3 e1 e2 e3 f2 f3 n show ?thesis
    by simp
qed

section \<open>The collapse-whitespace transform\<close>

lemma str_split_Nil [simp]: "str_split [] = []"
  by (simp add: str_split.simps)

lemma str_split_space [simp]: "is_whitespace c \<Longrightarrow> str_split (c # s) = str_split s"
  by (subst (1 2) str_split.simps) simp

lemma str_split_nonspace [simp]:
  "\<not> is_whitespace c \<Longrightarrow>
   str_split (c # s) =
     (c # takeWhile (\<lambda>x. \<not> is_whitespace x) s) # str_split (dropWhile (\<lambda>x. \<not> is_whitespace x) s)"
  by (subst str_split.simps) simp

lemma str_split_eq_nonspace_runs: "str_split s = nonspace_runs s"
proof (induction s)
  case Nil
  show ?case by simp
next
  case (Cons c s)
  show ?case
  proof (cases "is_whitespace c")
    case True
    with Cons show ?thesis by simp
  next
    case False
    show ?thesis
    proof (cases s)
      case Nil
      with False show ?thesis by simp
    next
      case (Cons d t)
      with False Cons.IH [symmetric] show ?thesis
        by (cases "is_whitespace d") simp_all
    qed
  qed
qed

lemma str_split_pieces:
  "list_all (\<lambda>p. p \<noteq> [] \<and> list_all (\<lambda>c. \<not> is_whitespace c) p) (str_split s)"
proof (induction s rule: str_split.induct)
  case (1 s)
  show ?case
  proof (cases "dropWhile is_whitespace s")
    case Nil
    then have "str_split s = []"
      by (subst str_split.simps) (simp only: list.case)
    then show ?thesis by simp
  next
    case (Cons c r)
    then have "\<not> is_whitespace c"
      by (metis hd_dropWhile list.distinct(1) list.sel(1))
    moreover have "list_all (\<lambda>c. \<not> is_whitespace c) (takeWhile (\<lambda>x. \<not> is_whitespace x) r)"
      by (auto simp: list_all_iff dest: set_takeWhileD)
    moreover have "str_split s =
        (c # takeWhile (\<lambda>x. \<not> is_whitespace x) r)
        # str_split (dropWhile (\<lambda>x. \<not> is_whitespace x) r)"
      by (subst str_split.simps) (simp only: Cons list.case)
    ultimately show ?thesis
      using 1 [OF Cons] by simp
  qed
qed

lemma str_join_hd:
  "ps \<noteq> [] \<Longrightarrow> hd ps \<noteq> [] \<Longrightarrow>
   str_join sep ps \<noteq> [] \<and> hd (str_join sep ps) = hd (hd ps)"
  by (induction sep ps rule: str_join.induct) auto

lemma str_join_last:
  "ps \<noteq> [] \<Longrightarrow> last ps \<noteq> [] \<Longrightarrow>
   str_join sep ps \<noteq> [] \<and> last (str_join sep ps) = last (last ps)"
  by (induction sep ps rule: str_join.induct) auto

lemma dropWhile_unchanged: "xs = [] \<or> \<not> P (hd xs) \<Longrightarrow> dropWhile P xs = xs"
  by (cases xs) auto

lemma str_join_trimmed:
  assumes "list_all (\<lambda>p. p \<noteq> [] \<and> list_all (\<lambda>c. \<not> is_whitespace c) p) ps"
  shows "dropWhile is_whitespace (str_join sep ps) = str_join sep ps"
    and "dropWhile is_whitespace (rev (str_join sep ps)) = rev (str_join sep ps)"
proof -
  show "dropWhile is_whitespace (str_join sep ps) = str_join sep ps"
  proof (cases ps)
    case Nil
    then show ?thesis by simp
  next
    case (Cons p qs)
    with assms have "p \<noteq> []" "\<not> is_whitespace (hd p)"
      by (auto simp: list_all_iff)
    with Cons str_join_hd [of ps sep] show ?thesis
      by (intro dropWhile_unchanged) simp
  qed
  show "dropWhile is_whitespace (rev (str_join sep ps)) = rev (str_join sep ps)"
  proof (cases ps)
    case Nil
    then show ?thesis by simp
  next
    case (Cons p qs)
    then have "last ps \<in> set ps"
      by simp
    with assms have "last ps \<noteq> []" "\<not> is_whitespace (last (last ps))"
      by (auto simp: list_all_iff)
    with Cons str_join_last [of ps sep] show ?thesis
      by (intro dropWhile_unchanged) (simp add: hd_rev)
  qed
qed

lemma modify_content_remove_spaces:
  "modify_content content (str ''remove_spaces'') = str_join [0x20] (str_split content)"
  by (simp add: modify_content_def modification_types_def) (simp add: str_def)

lemma is_whitespace_space: "is_whitespace 0x20" "\<not> is_whitespace 0x61"
  "\<not> is_whitespace 0x62" "\<not> is_whitespace 0x63"
  by (simp_all add: is_whitespace_def in_ranges_def whitespace_ranges_def)

text \<open>
  C5: for every content, the collapse-whitespace transform is the content cut at its runs
  of whitespace with the pieces joined by single spaces; the result neither starts nor
  ends with whitespace; and the content \<open>" a   b  c "\<close> becomes \<open>"a b c"\<close>.
\<close>

theorem collapse_whitespace_splits_and_joins:
  "modify_content content (str ''remove_spaces'') = collapse_whitespace_spec content \<and>
   dropWhile is_whitespace (modify_content content (str ''remove_spaces''))
     = modify_content content (str ''remove_spaces'') \<and>
   dropWhile is_whitespace (rev (modify_content content (str ''remove_spaces'')))
     = rev (modify_content content (str ''remove_spaces'')) \<and>
   modify_content (str '' a   b  c '') (str ''remove_spaces'') = str ''a b c''"
proof -
  have "modify_content (str '' a   b  c '') (str ''remove_spaces'') = str ''a b c''"
    unfolding modify_content_remove_spaces by (simp add: str_def is_whitespace_space)
  then show ?thesis
    by (simp add: modify_content_remove_spaces collapse_whitespace_spec_def
        str_split_eq_nonspace_runs [symmetric] str_join_trimmed [OF str_split_pieces])
qed

section \<open>The case transforms\<close>

lemma modify_content_upper: "modify_content content (str ''upper'') = str_upper content"
  by (simp add: modify_content_def modification_types_def str_upper_def)

lemma modify_content_lower: "modify_content content (str ''lower'') = str_lower content"
  by (simp add: modify_content_def modification_types_def str_lower_def)

lemma modify_content_title: "modify_content content (str ''title'') = str_title content"
  by (simp add: modify_content_def modification_types_def str_title_def)

subsection \<open>Title case\<close>

text \<open>
  C2, as stated, fails: the letter after an apostrophe, a hyphen or a digit is uppercased
  as well, so these characters do start a new word.
\<close>

theorem title_case_after_apostrophe_counterexample:
  "modify_content (str ''it's a-b 3rd'') (str ''title'') = str ''It'S A-B 3Rd''"
  by (simp add: modify_content_def modification_types_def str_title_def lower_ucs4_def
      to_lower_full_def to_title_full_def full_mapping_def is_cased_def in_ranges_def
      lower_table_defs title_table_defs cased_ranges_defs str_def)

lemma do_title_positions:
  "do_title p before s =
     concat (map (\<lambda>i. if (if i = 0 then p else is_cased (s ! (i - 1)))
                      then lower_ucs4 (rev (take i s) @ before) (s ! i) (drop (Suc i) s)
                      else to_title_full (s ! i))
              [0..<length s])"
proof (induction s arbitrary: p before)
  case Nil
  show ?case by simp
next
  case (Cons c s)
  have upt: "[0..<length (c # s)] = 0 # map Suc [0..<length s]"
    by (simp add: upt_conv_Cons map_Suc_upt del: upt_Suc)
  show ?case
    unfolding upt
    by (simp add: Cons.IH [of "is_cased c" "c # before"] comp_def nth_Cons'
        if_distrib [of is_cased] cong: if_cong)
qed

text \<open>
  C2, amended: the title-case transform titlecases every character that is first or comes
  directly after an uncased character, and lowercases every character that comes directly
  after a cased one. Every uncased character ends a word: a space, and also an
  apostrophe, a hyphen and a digit, while a letter continues it.
\<close>

theorem title_case_restarts_after_uncased:
  "modify_content content (str ''title'') =
     concat (map (\<lambda>i. if 0 < i \<and> is_cased (content ! (i - 1))
                      then lower_ucs4 (rev (take i content)) (content ! i)
                             (drop (Suc i) content)
                      else to_title_full (content ! i))
              [0..<length content]) \<and>
   \<not> is_cased 0x20 \<and> \<not> is_cased 0x27 \<and> \<not> is_cased 0x2D \<and> \<not> is_cased 0x33 \<and>
   is_cased 0x73 \<and> is_cased 0x53 \<and>
   to_title_full 0x73 = [0x53] \<and> lower_ucs4 before 0x53 after = [0x73]"
proof -
  have "str_title content =
     concat (map (\<lambda>i. if 0 < i \<and> is_cased (content ! (i - 1))
                      then lower_ucs4 (rev (take i content)) (content ! i)
                             (drop (Suc i) content)
                      else to_title_full (content ! i))
              [0..<length content])"
    unfolding str_title_def do_title_positions
    by (intro arg_cong [where f = concat] map_cong) auto
  moreover have "\<not> is_cased 0x20" "\<not> is_cased 0x27" "\<not> is_cased 0x2D" "\<not> is_cased 0x33"
    "is_cased 0x73" "is_cased 0x53"
    by (simp_all add: is_cased_def in_ranges_def cased_ranges_defs)
  moreover have "to_title_full 0x73 = [0x53]" "lower_ucs4 before 0x53 after = [0x73]"
    by (simp_all add: to_title_full_def lower_ucs4_def to_lower_full_def full_mapping_def
        title_table_defs lower_table_defs)
  ultimately show ?thesis
    by (simp add: modify_content_title)
qed

lemma upper_table_pieces_avoid_lowercase:
  "maps_outside is_lowercase upper_table_0" "maps_outside is_lowercase upper_table_1"
  "maps_outside is_lowercase upper_table_2" "maps_outside is_lowercase upper_table_3"
  "maps_outside is_lowercase upper_table_4" "maps_outside is_lowercase upper_table_5"
  "maps_outside is_lowercase upper_table_6" "maps_outside is_lowercase upper_table_7"
  "maps_outside is_lowercase upper_table_8" "maps_outside is_lowercase upper_table_9"
  "maps_outside is_lowercase upper_table_10" "maps_outside is_lowercase upper_table_11"
  "maps_outside is_lowercase upper_table_12" "maps_outside is_lowercase upper_table_13"
  "maps_outside is_lowercase upper_table_14" "maps_outside is_lowercase upper_table_15"
  "maps_outside is_lowercase upper_table_16" "maps_outside is_lowercase upper_table_17"
  "maps_outside is_lowercase upper_table_18" "maps_outside is_lowercase upper_table_19"
  "maps_outside is_lowercase upper_table_20" "maps_outside is_lowercase upper_table_21"
  "maps_outside is_lowercase upper_table_22" "maps_outside is_lowercase upper_table_23"
  "maps_outside is_lowercase upper_table_24" "maps_outside is_lowercase upper_table_25"
  "maps_outside is_lowercase upper_table_26" "maps_outside is_lowercase upper_table_27"
  "maps_outside is_lowercase upper_table_28" "maps_outside is_lowercase upper_table_29"
  "maps_outside is_lowercase upper_table_30" "maps_outside is_lowercase upper_table_31"
  "maps_outside is_lowercase upper_table_32" "maps_outside is_lowercase upper_table_33"
  "maps_outside is_lowercase upper_table_34" "maps_outside is_lowercase upper_table_35"
  "maps_outside is_lowercase upper_table_36" "maps_outside is_lowercase upper_table_37"
  "maps_outside is_lowercase upper_table_38" "maps_outside is_lowercase upper_table_39"
  "maps_outside is_lowercase upper_table_40" "maps_outside is_lowercase upper_table_41"
  "maps_outside is_lowercase upper_table_42" "maps_outside is_lowercase upper_table_43"
  "maps_outside is_lowercase upper_table_44" "maps_outside is_lowercase upper_table_45"
  "maps_outside is_lowercase upper_table_46" "maps_outside is_lowercase upper_table_47"
  by (simp_all add: maps_outside_def upper_table_defs is_lowercase_def in_ranges_def
      lowercase_ranges_defs)

lemma lower_table_pieces_avoid_uppercase:
  "maps_outside is_uppercase lower_table_0" "maps_outside is_uppercase lower_table_1"
  "maps_outside is_uppercase lower_table_2" "maps_outside is_uppercase lower_table_3"
  "maps_outside is_uppercase lower_table_4" "maps_outside is_uppercase lower_table_5"
  "maps_outside is_uppercase lower_table_6" "maps_outside is_uppercase lower_table_7"
  "maps_outside is_uppercase lower_table_8" "maps_outside is_uppercase lower_table_9"
  "maps_outside is_uppercase lower_table_10" "maps_outside is_uppercase lower_table_11"
  "maps_outside is_uppercase lower_table_12" "maps_outside is_uppercase lower_table_13"
  "maps_outside is_uppercase lower_table_14" "maps_outside is_uppercase lower_table_15"
  "maps_outside is_uppercase lower_table_16" "maps_outside is_uppercase lower_table_17"
  "maps_outside is_uppercase lower_table_18" "maps_outside is_uppercase lower_table_19"
  "maps_outside is_uppercase lower_table_20" "maps_outside is_uppercase lower_table_21"
  "maps_outside is_uppercase lower_table_22" "maps_outside is_uppercase lower_table_23"
  "maps_outside is_uppercase lower_table_24" "maps_outside is_uppercase lower_table_25"
  "maps_outside is_uppercase lower_table_26" "maps_outside is_uppercase lower_table_27"
  "maps_outside is_uppercase lower_table_28" "maps_outside is_uppercase lower_table_29"
  "maps_outside is_uppercase lower_table_30" "maps_outside is_uppercase lower_table_31"
  "maps_outside is_uppercase lower_table_32" "maps_outside is_uppercase lower_table_33"
  "maps_outside is_uppercase lower_table_34" "maps_outside is_uppercase lower_table_35"
  "maps_outside is_uppercase lower_table_36" "maps_outside is_uppercase lower_table_37"
  "maps_outside is_uppercase lower_table_38" "maps_outside is_uppercase lower_table_39"
  "maps_outside is_uppercase lower_table_40" "maps_outside is_uppercase lower_table_41"
  "maps_outside is_uppercase lower_table_42" "maps_outside is_uppercase lower_table_43"
  "maps_outside is_uppercase lower_table_44"
  by (simp_all add: maps_outside_def lower_table_defs is_uppercase_def in_ranges_def
      uppercase_ranges_defs)

subsection \<open>Upper and lower case\<close>

text \<open>
  C4, as stated, fails: \<open>U+0138\<close> (Latin small letter kra) is a lowercase letter without an
  uppercase form, and \<open>U+03D2\<close> (Greek upsilon with hook symbol) an uppercase letter without
  a lowercase form; the transforms leave them as they are.
\<close>

theorem upper_keeps_lowercase_letter_counterexample:
  "modify_content [0x138] (str ''upper'') = [0x138] \<and> is_lowercase 0x138 \<and>
   modify_content [0x3D2] (str ''lower'') = [0x3D2] \<and> is_uppercase 0x3D2"
  by (simp add: modify_content_upper modify_content_lower str_upper_def str_lower_def
      lower_ucs4_def to_upper_full_def to_lower_full_def full_mapping_def
      is_lowercase_def is_uppercase_def in_ranges_def
      upper_table_defs lower_table_defs lowercase_ranges_defs uppercase_ranges_defs)

lemma upper_table_avoids_lowercase: "maps_outside is_lowercase (upper_table c)"
  by (simp add: upper_table_def upper_table_pieces_avoid_lowercase)

lemma lower_table_avoids_uppercase: "maps_outside is_uppercase (lower_table c)"
  by (simp add: lower_table_def lower_table_pieces_avoid_uppercase)

lemma full_mapping_cases:
  "full_mapping table c = [c] \<or> (c, full_mapping table c) \<in> set table"
  by (auto simp: full_mapping_def dest: map_of_SomeD split: option.splits)

lemma to_upper_full_lowercase:
  assumes "x \<in> set (to_upper_full c)" and "is_lowercase x"
  shows "x = c \<and> to_upper_full c = [c]"
proof -
  from full_mapping_cases [of "upper_table c" c]
  consider "to_upper_full c = [c]" | "(c, to_upper_full c) \<in> set (upper_table c)"
    by (auto simp: to_upper_full_def)
  then show ?thesis
  proof cases
    case 1
    with assms show ?thesis by simp
  next
    case 2
    with upper_table_avoids_lowercase [of c] assms show ?thesis
      by (auto simp: maps_outside_def list_all_iff)
  qed
qed

lemma to_lower_full_uppercase:
  assumes "x \<in> set (to_lower_full c)" and "is_uppercase x"
  shows "x = c \<and> to_lower_full c = [c]"
proof -
  from full_mapping_cases [of "lower_table c" c]
  consider "to_lower_full c = [c]" | "(c, to_lower_full c) \<in> set (lower_table c)"
    by (auto simp: to_lower_full_def)
  then show ?thesis
  proof cases
    case 1
    with assms show ?thesis by simp
  next
    case 2
    with lower_table_avoids_uppercase [of c] assms show ?thesis
      by (auto simp: maps_outside_def list_all_iff)
  qed
qed

lemma sigmas_not_uppercase: "\<not> is_uppercase 0x3C2" "\<not> is_uppercase 0x3C3"
  by (simp_all add: is_uppercase_def in_ranges_def uppercase_ranges_defs)

lemma lower_ucs4_uppercase:
  assumes "x \<in> set (lower_ucs4 before c after)" and "is_uppercase x"
  shows "x = c \<and> to_lower_full x = [x]"
proof (cases "c = 0x3A3")
  case True
  with assms sigmas_not_uppercase show ?thesis
    by (auto simp: lower_ucs4_def split: if_splits)
next
  case False
  with assms to_lower_full_uppercase [of x c] show ?thesis
    by (simp add: lower_ucs4_def)
qed

lemma do_lower_uppercase:
  "x \<in> set (do_lower before s) \<Longrightarrow> is_uppercase x \<Longrightarrow> x \<in> set s \<and> to_lower_full x = [x]"
  by (induction before s rule: do_lower.induct) (auto dest: lower_ucs4_uppercase)

lemma str_upper_lowercase:
  assumes "x \<in> set (str_upper s)" and "is_lowercase x"
  shows "x \<in> set s \<and> to_upper_full x = [x]"
proof -
  from assms(1) obtain c where "c \<in> set s" "x \<in> set (to_upper_full c)"
    by (auto simp: str_upper_def)
  with assms(2) to_upper_full_lowercase [of x c] show ?thesis
    by simp
qed

text \<open>The ASCII letters: the only cased code points below \<open>0x80\<close>, all of them mapped.\<close>

lemma is_lowercase_ascii: "c < 0x80 \<Longrightarrow> is_lowercase c \<longleftrightarrow> 0x61 \<le> c \<and> c \<le> 0x7A"
  by (simp add: is_lowercase_def in_ranges_def lowercase_ranges_def lowercase_ranges_0_def)

lemma is_uppercase_ascii: "c < 0x80 \<Longrightarrow> is_uppercase c \<longleftrightarrow> 0x41 \<le> c \<and> c \<le> 0x5A"
  by (simp add: is_uppercase_def in_ranges_def uppercase_ranges_def uppercase_ranges_0_def)

lemma ascii_lowercase_letters_mapped:
  "list_all (\<lambda>c. to_upper_full c = [c - 0x20]) [0x61..<0x7B]"
proof -
  define P where "P = (\<lambda>c::nat. to_upper_full c = [c - 0x20])"
  have "list_all P [0x61..<0x7B]"
    apply (simp add: upt_rec_numeral)
    apply (simp only: P_def)
    apply (simp add: to_upper_full_def full_mapping_def upper_table_defs)
    done
  then show ?thesis
    by (simp only: P_def)
qed

lemma ascii_uppercase_letters_mapped:
  "list_all (\<lambda>c. to_lower_full c = [c + 0x20]) [0x41..<0x5B]"
proof -
  define P where "P = (\<lambda>c::nat. to_lower_full c = [c + 0x20])"
  have "list_all P [0x41..<0x5B]"
    apply (simp add: upt_rec_numeral)
    apply (simp only: P_def)
    apply (simp add: to_lower_full_def full_mapping_def lower_table_defs)
    done
  then show ?thesis
    by (simp only: P_def)
qed

lemma ascii_lowercase_not_fixed:
  assumes "c < 0x80" and "is_lowercase c"
  shows "to_upper_full c \<noteq> [c]"
proof -
  from assms have "0x61 \<le> c \<and> c < 0x7B"
    by (simp add: is_lowercase_ascii)
  then have "c \<in> set [0x61..<0x7B]"
    by (simp only: set_upt atLeastLessThan_iff)
  with ascii_lowercase_letters_mapped have "to_upper_full c = [c - 0x20]"
    unfolding list_all_iff by blast
  moreover from \<open>0x61 \<le> c \<and> c < 0x7B\<close> have "c - 0x20 \<noteq> c"
    by arith
  ultimately show ?thesis
    by simp
qed

lemma ascii_uppercase_not_fixed:
  assumes "c < 0x80" and "is_uppercase c"
  shows "to_lower_full c \<noteq> [c]"
proof -
  from assms have "0x41 \<le> c \<and> c < 0x5B"
    by (simp add: is_uppercase_ascii)
  then have "c \<in> set [0x41..<0x5B]"
    by (simp only: set_upt atLeastLessThan_iff)
  with ascii_uppercase_letters_mapped have "to_lower_full c = [c + 0x20]"
    unfolding list_all_iff by blast
  then show ?thesis
    by simp
qed

text \<open>
  C4, amended: the to-upper transform leaves no lowercase letter that has an uppercase
  form: a lowercase letter in its result is a letter of the content that the uppercase
  mapping leaves unchanged. Likewise an uppercase letter in the result of the to-lower
  transform is a letter of the content that the lowercase mapping leaves unchanged. For a
  content of ASCII characters there is no such letter, and the results contain no
  lowercase and no uppercase letter respectively.
\<close>

theorem case_transforms_keep_only_unmapped_letters:
  "list_all (\<lambda>x. is_lowercase x \<longrightarrow> x \<in> set content \<and> to_upper_full x = [x])
     (modify_content content (str ''upper'')) \<and>
   list_all (\<lambda>x. is_uppercase x \<longrightarrow> x \<in> set content \<and> to_lower_full x = [x])
     (modify_content content (str ''lower'')) \<and>
   (list_all (\<lambda>c. c < 0x80) content \<longrightarrow>
      list_all (\<lambda>x. \<not> is_lowercase x) (modify_content content (str ''upper'')) \<and>
      list_all (\<lambda>x. \<not> is_uppercase x) (modify_content content (str ''lower'')))"
proof -
  have u: "x \<in> set content \<and> to_upper_full x = [x]"
    if "x \<in> set (str_upper content)" "is_lowercase x" for x
    using that by (rule str_upper_lowercase)
  have l: "x \<in> set content \<and> to_lower_full x = [x]"
    if "x \<in> set (str_lower content)" "is_uppercase x" for x
    using that do_lower_uppercase [of x "[]" content] by (simp add: str_lower_def)
  have "\<not> is_lowercase x"
    if "list_all (\<lambda>c. c < 0x80) content" "x \<in> set (str_upper content)" for x
    using that u [of x] ascii_lowercase_not_fixed [of x] by (auto simp: list_all_iff)
  moreover have "\<not> is_uppercase x"
    if "list_all (\<lambda>c. c < 0x80) content" "x \<in> set (str_lower content)" for x
    using that l [of x] ascii_uppercase_not_fixed [of x] by (auto simp: list_all_iff)
  ultimately show ?thesis
    using u l by (simp add: modify_content_upper modify_content_lower list_all_iff)
qed

theorem case_transforms_keep_only_unmapped_letters_witness:
  "modify_content [0x61, 0x138] (str ''upper'') = [0x41, 0x138] \<and>
   is_lowercase 0x138 \<and> to_upper_full 0x138 = [0x138] \<and> \<not> is_lowercase 0x41 \<and>
   modify_content [0x41, 0x3D2] (str ''lower'') = [0x61, 0x3D2] \<and>
   is_uppercase 0x3D2 \<and> to_lower_full 0x3D2 = [0x3D2] \<and> \<not> is_uppercase 0x61 \<and>
   list_all (\<lambda>c. c < 0x80) (str ''Hi you'') \<and>
   modify_content (str ''Hi you'') (str ''upper'') = str ''HI YOU'' \<and>
   list_all (\<lambda>x. \<not> is_lowercase x) (str ''HI YOU'') \<and>
   modify_content (str ''Hi you'') (str ''lower'') = str ''hi you'' \<and>
   list_all (\<lambda>x. \<not> is_uppercase x) (str ''hi you'')"
proof -
  have u: "modify_content [0x61, 0x138] (str ''upper'') = [0x41, 0x138]"
    "modify_content (str ''Hi you'') (str ''upper'') = str ''HI YOU''"
    unfolding modify_content_upper
    by (simp_all add: str_upper_def to_upper_full_def full_mapping_def upper_table_defs str_def)
  have l: "modify_content [0x41, 0x3D2] (str ''lower'') = [0x61, 0x3D2]"
    "modify_content (str ''Hi you'') (str ''lower'') = str ''hi you''"
    unfolding modify_content_lower
    by (simp_all add: str_lower_def lower_ucs4_def to_lower_full_def full_mapping_def
        lower_table_defs str_def)
  have p: "is_lowercase 0x138" "\<not> is_lowercase 0x41" "is_uppercase 0x3D2" "\<not> is_uppercase 0x61"
    by (simp_all add: is_lowercase_def is_uppercase_def in_ranges_def
        lowercase_ranges_defs uppercase_ranges_defs)
  have a: "list_all (\<lambda>c. c < 0x80) (str ''Hi you'')"
    by (simp add: str_def)
  show ?thesis
    using case_transforms_keep_only_unmapped_letters [of "[0x61, 0x138]"]
      case_transforms_keep_only_unmapped_letters [of "[0x41, 0x3D2]"]
      case_transforms_keep_only_unmapped_letters [of "str ''Hi you''"] p a
    by (simp add: u l)
qed

end
